theory Spec2Isabelle
  imports Complex_Main
begin

section \<open>Floating-point values and points\<close>

text \<open>
  A C++ \<open>float\<close> is modelled as a real number or NaN: rounding and the infinities are
  not modelled. Arithmetic propagates NaN, every comparison with NaN is false, and a
  division by zero is NaN.
\<close>

datatype fl = NaN | Fin real

definition fl1 :: "(real \<Rightarrow> real) \<Rightarrow> fl \<Rightarrow> fl" where
  "fl1 f a = (case a of NaN \<Rightarrow> NaN | Fin u \<Rightarrow> Fin (f u))"

definition fl2 :: "(real \<Rightarrow> real \<Rightarrow> real) \<Rightarrow> fl \<Rightarrow> fl \<Rightarrow> fl" where
  "fl2 f a b = (case a of NaN \<Rightarrow> NaN
                | Fin u \<Rightarrow> (case b of NaN \<Rightarrow> NaN | Fin v \<Rightarrow> Fin (f u v)))"

definition fadd :: "fl \<Rightarrow> fl \<Rightarrow> fl" where "fadd = fl2 (+)"
definition fsub :: "fl \<Rightarrow> fl \<Rightarrow> fl" where "fsub = fl2 (-)"
definition fmul :: "fl \<Rightarrow> fl \<Rightarrow> fl" where "fmul = fl2 (*)"
definition fsqrt :: "fl \<Rightarrow> fl" where "fsqrt = fl1 sqrt"

definition fdiv :: "fl \<Rightarrow> fl \<Rightarrow> fl" where
  "fdiv a b = (if b = Fin 0 then NaN else fl2 (/) a b)"

text \<open>The arithmetic operators of C++ on \<open>float\<close> values.\<close>

instantiation fl :: "{plus, minus, uminus, times}"
begin

definition plus_fl :: "fl \<Rightarrow> fl \<Rightarrow> fl" where "plus_fl = fadd"
definition minus_fl :: "fl \<Rightarrow> fl \<Rightarrow> fl" where "minus_fl = fsub"
definition uminus_fl :: "fl \<Rightarrow> fl" where "uminus_fl = fl1 uminus"
definition times_fl :: "fl \<Rightarrow> fl \<Rightarrow> fl" where "times_fl = fmul"

instance ..

end

definition flt :: "fl \<Rightarrow> fl \<Rightarrow> bool" where
  "flt a b = (case a of NaN \<Rightarrow> False
              | Fin u \<Rightarrow> (case b of NaN \<Rightarrow> False | Fin v \<Rightarrow> u < v))"

definition fle :: "fl \<Rightarrow> fl \<Rightarrow> bool" where
  "fle a b = (case a of NaN \<Rightarrow> False
              | Fin u \<Rightarrow> (case b of NaN \<Rightarrow> False | Fin v \<Rightarrow> u \<le> v))"

definition feq :: "fl \<Rightarrow> fl \<Rightarrow> bool" where
  "feq a b = (case a of NaN \<Rightarrow> False
              | Fin u \<Rightarrow> (case b of NaN \<Rightarrow> False | Fin v \<Rightarrow> u = v))"

text \<open>\<open>std::max(a, b)\<close> is \<open>(a < b) ? b : a\<close> and \<open>std::min(a, b)\<close> is \<open>(b < a) ? b : a\<close>.\<close>

definition fmax :: "fl \<Rightarrow> fl \<Rightarrow> fl" where "fmax a b = (if flt a b then b else a)"
definition fmin :: "fl \<Rightarrow> fl \<Rightarrow> fl" where "fmin a b = (if flt b a then b else a)"

text \<open>The C library's \<open>atan2(y, x)\<close> and \<open>asin\<close> (NaN outside \<open>[-1, 1]\<close>).\<close>

definition atan2 :: "real \<Rightarrow> real \<Rightarrow> real" where
  "atan2 y x =
     (if 0 < x then arctan (y / x)
      else if x < 0 then (if 0 \<le> y then arctan (y / x) + pi else arctan (y / x) - pi)
      else if 0 < y then pi / 2
      else if y < 0 then - (pi / 2)
      else 0)"

definition fatan2 :: "fl \<Rightarrow> fl \<Rightarrow> fl" where "fatan2 = fl2 atan2"

definition fasin :: "fl \<Rightarrow> fl" where
  "fasin a = (case a of NaN \<Rightarrow> NaN
              | Fin u \<Rightarrow> (if - 1 \<le> u \<and> u \<le> 1 then Fin (arcsin u) else NaN))"

definition FLT_MAX :: real where
  "FLT_MAX = 340282346638528859811704183484516925440"

text \<open>\<open>PointType\<close> (\<open>pcl::PointXYZI\<close>): three coordinates and the intensity field.\<close>

record point =
  pt_x :: fl
  pt_y :: fl
  pt_z :: fl
  intensity :: fl

section \<open>Image projection: configuration and state\<close>

text \<open>
  The constants of the configuration header, which is not part of the sources at hand,
  are parameters. \<open>default_intensity\<close> is the intensity of a default-constructed
  \<open>PointType\<close> (the point library sets it to \<open>0\<close>); \<open>nan_to_int\<close> is what the platform
  yields when NaN is converted to \<open>int\<close> (undefined in C++).
\<close>

record config =
  N_scan :: nat
  horizon_scan :: nat
  ang_res_x :: real
  ang_res_y :: real
  ang_bottom :: real
  groundScanInd :: nat
  sensorMountAngle :: real
  segmentTheta :: real
  segmentAlphaX :: real
  segmentAlphaY :: real
  segmentValidPointNum :: nat
  segmentValidLineNum :: nat
  default_intensity :: fl
  nan_to_int :: int

text \<open>
  \<open>cloud_msgs::cloud_info\<close>. Arrays are given by their contents at each index; the
  sources size them \<open>N_scan\<close> resp. \<open>N_scan * horizon_scan\<close>.
\<close>

record cloud_info =
  startOrientation :: fl
  endOrientation :: fl
  orientationDiff :: fl
  startRingIndex :: "nat \<Rightarrow> int"
  endRingIndex :: "nat \<Rightarrow> int"
  segmentedCloudGroundFlag :: "nat \<Rightarrow> bool"
  segmentedCloudColInd :: "nat \<Rightarrow> int"
  segmentedCloudRange :: "nat \<Rightarrow> fl"

text \<open>The members of \<open>ImageProjection\<close> that the per-scan processing reads and writes.\<close>

record ip_state =
  laser_cloud_in :: "point list"
  full_cloud :: "nat \<Rightarrow> point"
  full_info_cloud :: "nat \<Rightarrow> point"
  ground_cloud :: "point list"
  segmented_cloud :: "point list"
  segmented_cloud_pure :: "point list"
  outlier_cloud :: "point list"
  range_mat :: "int \<times> int \<Rightarrow> fl"
  ground_mat :: "int \<times> int \<Rightarrow> int"
  label_mat :: "int \<times> int \<Rightarrow> int"
  label_count :: int
  seg_msg :: cloud_info

text \<open>Subtraction of \<open>size_t\<close> values wraps modulo \<open>2 ^ 64\<close>.\<close>

definition size_sub :: "nat \<Rightarrow> nat \<Rightarrow> nat" where
  "size_sub a b = (if b \<le> a then a - b else a + 2 ^ 64 - b)"

section \<open>cloudSegmentation: extraction of the segmented cloud\<close>

text \<open>
  The body of the inner loop over the columns \<open>j\<close> of ring \<open>i\<close>; the second component
  of the pair is the local \<open>sizeOfSegCloud\<close>.
\<close>

definition emit_cell :: "config \<Rightarrow> nat \<Rightarrow> nat \<Rightarrow> ip_state \<times> int \<Rightarrow> ip_state \<times> int" where
  "emit_cell cfg i j = (\<lambda>(s, sizeOfSegCloud).
     if 0 < label_mat s (int i, int j) \<or> ground_mat s (int i, int j) = 1 then
       if label_mat s (int i, int j) = 999999 then
         (if groundScanInd cfg < i \<and> j mod 5 = 0
          then (s\<lparr>outlier_cloud := outlier_cloud s @ [full_cloud s (j + i * horizon_scan cfg)]\<rparr>,
                sizeOfSegCloud)
          else (s, sizeOfSegCloud))
       else if ground_mat s (int i, int j) = 1 \<and>
               (j mod 5 \<noteq> 0 \<and> 5 < j \<and> j < size_sub (horizon_scan cfg) 5)
       then (s, sizeOfSegCloud)
       else
         (s\<lparr>seg_msg := (seg_msg s)
               \<lparr>segmentedCloudGroundFlag :=
                  (segmentedCloudGroundFlag (seg_msg s))
                    (nat sizeOfSegCloud := (ground_mat s (int i, int j) = 1)),
                segmentedCloudColInd :=
                  (segmentedCloudColInd (seg_msg s)) (nat sizeOfSegCloud := int j),
                segmentedCloudRange :=
                  (segmentedCloudRange (seg_msg s))
                    (nat sizeOfSegCloud := range_mat s (int i, int j))\<rparr>,
             segmented_cloud := segmented_cloud s @ [full_cloud s (j + i * horizon_scan cfg)]\<rparr>,
          sizeOfSegCloud + 1)
     else (s, sizeOfSegCloud))"

text \<open>The body of the outer loop: ring \<open>i\<close> with its two index records.\<close>

definition emit_ring :: "config \<Rightarrow> nat \<Rightarrow> ip_state \<times> int \<Rightarrow> ip_state \<times> int" where
  "emit_ring cfg i = (\<lambda>(s, sizeOfSegCloud).
     let s1 = s\<lparr>seg_msg := (seg_msg s)
                 \<lparr>startRingIndex :=
                    (startRingIndex (seg_msg s)) (i := sizeOfSegCloud - 1 + 5)\<rparr>\<rparr>;
         (s2, n2) = fold (emit_cell cfg i) [0..<horizon_scan cfg] (s1, sizeOfSegCloud)
     in (s2\<lparr>seg_msg := (seg_msg s2)
              \<lparr>endRingIndex := (endRingIndex (seg_msg s2)) (i := n2 - 1 - 5)\<rparr>\<rparr>, n2))"

definition extract_segmented :: "config \<Rightarrow> ip_state \<Rightarrow> ip_state \<times> int" where
  "extract_segmented cfg s = fold (emit_ring cfg) [0..<N_scan cfg] (s, 0)"

text \<open>The last loop: the cloud of accepted clusters, for visualisation.\<close>

definition pure_cell :: "config \<Rightarrow> nat \<Rightarrow> nat \<Rightarrow> ip_state \<Rightarrow> ip_state" where
  "pure_cell cfg i j s =
     (if 0 < label_mat s (int i, int j) \<and> label_mat s (int i, int j) \<noteq> 999999
      then s\<lparr>segmented_cloud_pure := segmented_cloud_pure s @
               [(full_cloud s (j + i * horizon_scan cfg))
                  \<lparr>intensity := Fin (real_of_int (label_mat s (int i, int j)))\<rparr>]\<rparr>
      else s)"

definition extract_pure :: "config \<Rightarrow> ip_state \<Rightarrow> ip_state" where
  "extract_pure cfg s =
     fold (\<lambda>i. fold (pure_cell cfg i) [0..<horizon_scan cfg]) [0..<N_scan cfg] s"

section \<open>labelComponents: breadth-first clustering\<close>

text \<open>
  \<open>push_back\<close> of \<open>boost::circular_buffer\<close> with capacity \<open>cap\<close>: a full buffer
  drops its oldest element, a buffer of capacity \<open>0\<close> stores nothing.
\<close>

definition cb_push :: "nat \<Rightarrow> 'a \<Rightarrow> 'a list \<Rightarrow> 'a list" where
  "cb_push cap v xs =
     (if cap = 0 then xs else if length xs < cap then xs @ [v] else tl xs @ [v])"

text \<open>
  The comparison \<open>tang > segmentThetaThreshold\<close> of the quotient \<open>num / den\<close>: a zero
  denominator gives \<open>+\<infinity>\<close> (above every threshold) for a positive numerator and NaN or
  \<open>-\<infinity>\<close> otherwise.
\<close>

definition tang_gt :: "fl \<Rightarrow> fl \<Rightarrow> real \<Rightarrow> bool" where
  "tang_gt num den thr =
     (case num of NaN \<Rightarrow> False
      | Fin n \<Rightarrow> (case den of NaN \<Rightarrow> False
                   | Fin d \<Rightarrow> (if d = 0 then 0 < n else thr < n / d)))"

text \<open>The locals of \<open>labelComponents\<close> together with the label matrix it writes.\<close>

record bfs_state =
  queue :: "(int \<times> int) list"
  all_pushed :: "(int \<times> int) list"
  lineCountFlag :: "nat \<Rightarrow> bool"
  bfs_label :: "int \<times> int \<Rightarrow> int"

definition neighborIterator :: "(int \<times> int) list" where
  "neighborIterator = [(0, - 1), (- 1, 0), (1, 0), (0, 1)]"

text \<open>The body of the loop over the four neighbours of the popped cell \<open>fromInd\<close>.\<close>

definition visit_neighbor ::
  "config \<Rightarrow> (int \<times> int \<Rightarrow> fl) \<Rightarrow> int \<Rightarrow> int \<times> int \<Rightarrow> int \<times> int \<Rightarrow> bfs_state \<Rightarrow> bfs_state" where
  "visit_neighbor cfg rm lc fromInd iter b =
     (let thisIndX = fst fromInd + fst iter;
          thisIndY0 = snd fromInd + snd iter
      in if thisIndX < 0 \<or> int (N_scan cfg) \<le> thisIndX then b
         else
           let thisIndY1 = (if thisIndY0 < 0 then int (horizon_scan cfg) - 1 else thisIndY0);
               thisIndY = (if int (horizon_scan cfg) \<le> thisIndY1 then 0 else thisIndY1)
           in if bfs_label b (thisIndX, thisIndY) \<noteq> 0 then b
              else
                let d1 = fmax (rm fromInd) (rm (thisIndX, thisIndY));
                    d2 = fmin (rm fromInd) (rm (thisIndX, thisIndY));
                    alpha = (if fst iter = 0 then segmentAlphaX cfg else segmentAlphaY cfg)
                in if tang_gt (fmul d2 (Fin (sin alpha)))
                        (fsub d1 (fmul d2 (Fin (cos alpha)))) (tan (segmentTheta cfg))
                   then b\<lparr>queue := cb_push (N_scan cfg * horizon_scan cfg)
                                      (thisIndX, thisIndY) (queue b),
                          bfs_label := (bfs_label b) ((thisIndX, thisIndY) := lc),
                          lineCountFlag := (lineCountFlag b) (nat thisIndX := True),
                          all_pushed := cb_push (N_scan cfg * horizon_scan cfg)
                                          (thisIndX, thisIndY) (all_pushed b)\<rparr>
                   else b)"

text \<open>
  The \<open>while (queue.size() > 0)\<close> loop. Nothing in its body bounds the number of
  rounds, so the loop is a partial function: \<open>None\<close> stands for a loop that never ends.
\<close>

partial_function (option) bfs_loop ::
  "config \<Rightarrow> (int \<times> int \<Rightarrow> fl) \<Rightarrow> int \<Rightarrow> bfs_state \<Rightarrow> bfs_state option" where
  "bfs_loop cfg rm lc b =
     (case queue b of
        [] \<Rightarrow> Some b
      | fromInd # rest \<Rightarrow>
          bfs_loop cfg rm lc
            (fold (visit_neighbor cfg rm lc fromInd) neighborIterator
               (b\<lparr>queue := rest, bfs_label := (bfs_label b) (fromInd := lc)\<rparr>)))"

text \<open>The validity check at the end of \<open>labelComponents\<close>.\<close>

definition feasibleSegment :: "config \<Rightarrow> bfs_state \<Rightarrow> bool" where
  "feasibleSegment cfg b =
     (if 30 \<le> length (all_pushed b) then True
      else if segmentValidPointNum cfg \<le> length (all_pushed b) then
        (let lineCount = fold (\<lambda>i n. if lineCountFlag b i then n + 1 else n)
                           [0..<N_scan cfg] (0::int)
         in int (segmentValidLineNum cfg) \<le> lineCount)
      else False)"

definition labelComponents :: "config \<Rightarrow> int \<Rightarrow> int \<Rightarrow> ip_state \<Rightarrow> ip_state option" where
  "labelComponents cfg row col s =
     (let cloud_size = N_scan cfg * horizon_scan cfg;
          b0 = \<lparr>queue = cb_push cloud_size (row, col) [],
                all_pushed = cb_push cloud_size (row, col) [],
                lineCountFlag = (\<lambda>_. False),
                bfs_label = label_mat s\<rparr>
      in case bfs_loop cfg (range_mat s) (label_count s) b0 of
           None \<Rightarrow> None
         | Some b \<Rightarrow>
             if feasibleSegment cfg b
             then Some (s\<lparr>label_mat := bfs_label b, label_count := label_count s + 1\<rparr>)
             else Some (s\<lparr>label_mat :=
                            fold (\<lambda>c L. L (c := 999999)) (all_pushed b) (bfs_label b)\<rparr>))"

text \<open>The first loop of \<open>cloudSegmentation\<close>, over the cells in row-major order.\<close>

fun label_cells :: "config \<Rightarrow> (nat \<times> nat) list \<Rightarrow> ip_state \<Rightarrow> ip_state option" where
  "label_cells cfg [] s = Some s"
| "label_cells cfg ((i, j) # cs) s =
     (if label_mat s (int i, int j) = 0
      then (case labelComponents cfg (int i) (int j) s of
              None \<Rightarrow> None
            | Some s' \<Rightarrow> label_cells cfg cs s')
      else label_cells cfg cs s)"

definition cloudSegmentation :: "config \<Rightarrow> ip_state \<Rightarrow> ip_state option" where
  "cloudSegmentation cfg s =
     (case label_cells cfg (List.product [0..<N_scan cfg] [0..<horizon_scan cfg]) s of
        None \<Rightarrow> None
      | Some s1 \<Rightarrow> Some (extract_pure cfg (fst (extract_segmented cfg s1))))"

section \<open>The other steps of cloudHandler\<close>

datatype error = OutOfBounds | Diverges

definition nanPoint :: "config \<Rightarrow> point" where
  "nanPoint cfg = \<lparr>pt_x = NaN, pt_y = NaN, pt_z = NaN, intensity = default_intensity cfg\<rparr>"

definition resetParameters :: "config \<Rightarrow> ip_state \<Rightarrow> ip_state" where
  "resetParameters cfg s =
     s\<lparr>laser_cloud_in := [],
       ground_cloud := [],
       segmented_cloud := [],
       segmented_cloud_pure := [],
       outlier_cloud := [],
       range_mat := (\<lambda>_. Fin FLT_MAX),
       ground_mat := (\<lambda>_. 0),
       label_mat := (\<lambda>_. 0),
       label_count := 1,
       full_cloud := (\<lambda>_. nanPoint cfg),
       full_info_cloud := (\<lambda>_. nanPoint cfg),
       seg_msg := (seg_msg s)
         \<lparr>startRingIndex := (\<lambda>_. 0),
          endRingIndex := (\<lambda>_. 0),
          segmentedCloudGroundFlag := (\<lambda>_. False),
          segmentedCloudColInd := (\<lambda>_. 0),
          segmentedCloudRange := (\<lambda>_. Fin 0)\<rparr>\<rparr>"

text \<open>
  \<open>front()\<close> and \<open>back()\<close> of an empty vector read out of bounds; the model returns
  the error \<open>OutOfBounds\<close> there.
\<close>

definition findStartEndAngle :: "ip_state \<Rightarrow> error + ip_state" where
  "findStartEndAngle s =
     (case laser_cloud_in s of
        [] \<Rightarrow> Inl OutOfBounds
      | p # ps \<Rightarrow>
          let startOri = fl1 uminus (fatan2 (pt_y p) (pt_x p));
              q = last (p # ps);
              endOri0 = fadd (fl1 uminus (fatan2 (pt_y q) (pt_x q))) (Fin (2 * pi));
              endOri = (if flt (Fin (3 * pi)) (fsub endOri0 startOri)
                        then fsub endOri0 (Fin (2 * pi))
                        else if flt (fsub endOri0 startOri) (Fin pi)
                        then fadd endOri0 (Fin (2 * pi))
                        else endOri0)
          in Inr (s\<lparr>seg_msg := (seg_msg s)
                      \<lparr>startOrientation := startOri,
                       endOrientation := endOri,
                       orientationDiff := fsub endOri startOri\<rparr>\<rparr>))"

text \<open>The C library's \<open>round\<close> (halves away from zero) and the conversion to \<open>int\<close>.\<close>

definition c_round :: "real \<Rightarrow> real" where
  "c_round r = (if 0 \<le> r then of_int \<lfloor>r + 1 / 2\<rfloor> else of_int \<lceil>r - 1 / 2\<rceil>)"

definition f2i :: "'a config_scheme \<Rightarrow> fl \<Rightarrow> int" where
  "f2i cfg a = (case a of NaN \<Rightarrow> nan_to_int cfg
                | Fin r \<Rightarrow> (if 0 \<le> r then \<lfloor>r\<rfloor> else \<lceil>r\<rceil>))"

text \<open>
  The body of the loop of \<open>projectPointCloud\<close>. The first comparison of the column with
  \<open>_horizon_scan\<close> is unsigned, so it also holds for a negative column.
\<close>

definition project_point :: "config \<Rightarrow> point \<Rightarrow> ip_state \<Rightarrow> ip_state" where
  "project_point cfg thisPoint s =
     (let range = fsqrt (fadd (fadd (fmul (pt_x thisPoint) (pt_x thisPoint))
                                    (fmul (pt_y thisPoint) (pt_y thisPoint)))
                              (fmul (pt_z thisPoint) (pt_z thisPoint)));
          verticalAngle = fasin (fdiv (pt_z thisPoint) range);
          rowIdn = f2i cfg (fdiv (fadd verticalAngle (Fin (ang_bottom cfg)))
                                 (Fin (ang_res_y cfg)))
      in if rowIdn < 0 \<or> int (N_scan cfg) \<le> rowIdn then s
         else
           let horizonAngle = fatan2 (pt_x thisPoint) (pt_y thisPoint);
               columnIdn0 = f2i cfg
                 (fadd (fl1 uminus (fl1 c_round
                          (fdiv (fsub horizonAngle (Fin (pi / 2))) (Fin (ang_res_x cfg)))))
                       (Fin (real (horizon_scan cfg) * 0.5)));
               columnIdn = (if columnIdn0 < 0 \<or> int (horizon_scan cfg) \<le> columnIdn0
                            then columnIdn0 - int (horizon_scan cfg) else columnIdn0)
           in if columnIdn < 0 \<or> int (horizon_scan cfg) \<le> columnIdn then s
              else if flt range (Fin 0.1) then s
              else
                let index = nat (columnIdn + rowIdn * int (horizon_scan cfg));
                    tagged = thisPoint\<lparr>intensity :=
                               Fin (real_of_int rowIdn + real_of_int columnIdn / 10000)\<rparr>
                in s\<lparr>range_mat := (range_mat s) ((rowIdn, columnIdn) := range),
                     full_cloud := (full_cloud s) (index := tagged),
                     full_info_cloud := (full_info_cloud s)
                       (index := tagged\<lparr>intensity := range\<rparr>)\<rparr>)"

definition projectPointCloud :: "config \<Rightarrow> ip_state \<Rightarrow> ip_state" where
  "projectPointCloud cfg s = fold (project_point cfg) (laser_cloud_in s) s"

text \<open>
  Modelled from the spec: the constant \<open>DEG_TO_RAD\<close> of the configuration header, which
  is not among the sources; the spec gives the ground threshold as 10 degrees.
\<close>

definition DEG_TO_RAD :: real where
  "DEG_TO_RAD = pi / 180"

text \<open>The body of the first loop nest of \<open>groundRemoval\<close> (column \<open>j\<close>, ring \<open>i\<close>).\<close>

definition ground_cell :: "config \<Rightarrow> nat \<Rightarrow> nat \<Rightarrow> ip_state \<Rightarrow> ip_state" where
  "ground_cell cfg j i s =
     (let lowerInd = j + i * horizon_scan cfg;
          upperInd = j + (i + 1) * horizon_scan cfg
      in if feq (intensity (full_cloud s lowerInd)) (Fin (- 1)) \<or>
            feq (intensity (full_cloud s upperInd)) (Fin (- 1))
         then s\<lparr>ground_mat := (ground_mat s) ((int i, int j) := - 1)\<rparr>
         else
           let dX = fsub (pt_x (full_cloud s upperInd)) (pt_x (full_cloud s lowerInd));
               dY = fsub (pt_y (full_cloud s upperInd)) (pt_y (full_cloud s lowerInd));
               dZ = fsub (pt_z (full_cloud s upperInd)) (pt_z (full_cloud s lowerInd));
               vertical_angle =
                 fatan2 dZ (fsqrt (fadd (fadd (fmul dX dX) (fmul dY dY)) (fmul dZ dZ)))
           in if fle (fsub vertical_angle (Fin (sensorMountAngle cfg)))
                     (Fin (10 * DEG_TO_RAD))
              then s\<lparr>ground_mat := (ground_mat s)
                       ((int i, int j) := 1, (int i + 1, int j) := 1)\<rparr>
              else s)"

definition mark_cell :: "nat \<Rightarrow> nat \<Rightarrow> ip_state \<Rightarrow> ip_state" where
  "mark_cell i j s =
     (if ground_mat s (int i, int j) = 1 \<or> feq (range_mat s (int i, int j)) (Fin FLT_MAX)
      then s\<lparr>label_mat := (label_mat s) ((int i, int j) := - 1)\<rparr>
      else s)"

definition ground_cloud_cell :: "config \<Rightarrow> nat \<Rightarrow> nat \<Rightarrow> ip_state \<Rightarrow> ip_state" where
  "ground_cloud_cell cfg i j s =
     (if ground_mat s (int i, int j) = 1
      then s\<lparr>ground_cloud := ground_cloud s @ [full_cloud s (j + i * horizon_scan cfg)]\<rparr>
      else s)"

definition ground_marks :: "config \<Rightarrow> ip_state \<Rightarrow> ip_state" where
  "ground_marks cfg s =
     fold (\<lambda>j. fold (ground_cell cfg j) [0..<groundScanInd cfg]) [0..<horizon_scan cfg] s"

definition groundRemoval :: "config \<Rightarrow> ip_state \<Rightarrow> ip_state" where
  "groundRemoval cfg s =
     (let s1 = ground_marks cfg s;
          s2 = fold (\<lambda>i. fold (mark_cell i) [0..<horizon_scan cfg]) [0..<N_scan cfg] s1
      in fold (\<lambda>i. fold (ground_cloud_cell cfg i) [0..<horizon_scan cfg])
           [0..<groundScanInd cfg + 1] s2)"

text \<open>
  \<open>publishClouds\<close> hands the segmented cloud, the outlier cloud and the segmentation
  message to the output channel and leaves fresh, empty ones behind.
\<close>

record ProjectionOut =
  out_seg_msg :: cloud_info
  out_outlier_cloud :: "point list"
  out_segmented_cloud :: "point list"

definition empty_cloud_info :: cloud_info where
  "empty_cloud_info =
     \<lparr>startOrientation = Fin 0, endOrientation = Fin 0, orientationDiff = Fin 0,
      startRingIndex = (\<lambda>_. 0), endRingIndex = (\<lambda>_. 0),
      segmentedCloudGroundFlag = (\<lambda>_. False), segmentedCloudColInd = (\<lambda>_. 0),
      segmentedCloudRange = (\<lambda>_. Fin 0)\<rparr>"

definition publishClouds :: "ip_state \<Rightarrow> ip_state \<times> ProjectionOut" where
  "publishClouds s =
     (s\<lparr>seg_msg := empty_cloud_info, outlier_cloud := [], segmented_cloud := []\<rparr>,
      \<lparr>out_seg_msg = seg_msg s,
       out_outlier_cloud = outlier_cloud s,
       out_segmented_cloud = segmented_cloud s\<rparr>)"

text \<open>
  \<open>cloudHandler\<close>; \<open>cloud\<close> is the content of the message after the removal of the
  points with a NaN coordinate.
\<close>

definition cloudHandler ::
  "config \<Rightarrow> point list \<Rightarrow> ip_state \<Rightarrow> error + ip_state \<times> ProjectionOut" where
  "cloudHandler cfg cloud s =
     (case findStartEndAngle ((resetParameters cfg s)\<lparr>laser_cloud_in := cloud\<rparr>) of
        Inl e \<Rightarrow> Inl e
      | Inr s1 \<Rightarrow>
          (case cloudSegmentation cfg (groundRemoval cfg (projectPointCloud cfg s1)) of
             None \<Rightarrow> Inl Diverges
           | Some s2 \<Rightarrow> Inr (publishClouds s2)))"

section \<open>Feature association: the linear solver\<close>

definition fsin :: "fl \<Rightarrow> fl" where "fsin = fl1 sin"
definition fcos :: "fl \<Rightarrow> fl" where "fcos = fl1 cos"

text \<open>Vectors and matrices of \<open>float\<close>; a matrix is the list of its rows.\<close>

type_synonym vec = "fl list"
type_synonym mat = "fl list list"

definition dot :: "vec \<Rightarrow> vec \<Rightarrow> fl" where
  "dot u v = foldl (+) (Fin 0) (map (\<lambda>(a, b). a * b) (zip u v))"

definition column :: "mat \<Rightarrow> nat \<Rightarrow> vec" where
  "column M j = map (\<lambda>r. r ! j) M"

definition mat_vec :: "mat \<Rightarrow> vec \<Rightarrow> vec" where
  "mat_vec M v = map (\<lambda>r. dot r v) M"

text \<open>The product of two matrices with three columns each.\<close>

definition mat_mul :: "mat \<Rightarrow> mat \<Rightarrow> mat" where
  "mat_mul A B = map (\<lambda>r. map (\<lambda>j. dot r (column B j)) [0..<3]) A"

text \<open>\<open>matAt * matA\<close> and \<open>matAt * matB\<close> for a matrix \<open>matA\<close> with three columns.\<close>

definition AtA :: "mat \<Rightarrow> mat" where
  "AtA A = map (\<lambda>i. map (\<lambda>j. dot (column A i) (column A j)) [0..<3]) [0..<3]"

definition AtB :: "mat \<Rightarrow> vec \<Rightarrow> vec" where
  "AtB A b = map (\<lambda>i. dot (column A i) b) [0..<3]"

text \<open>
  The operations of the linear algebra library, which is not part of the sources, are
  parameters: the solution of a linear system by a column-pivoted QR decomposition, the
  eigenvalues and eigenvectors of a self-adjoint matrix, and the inverse; further
  \<open>std::sort\<close> with the comparison \<open>by_value\<close> on the entries \<open>sp, ..., ep - 1\<close> of an array
  of (value, index) pairs, and the voxel grid filter.
\<close>

record library =
  solve_qr :: "mat \<Rightarrow> vec \<Rightarrow> vec"
  eigen_values :: "mat \<Rightarrow> vec"
  eigen_vectors :: "mat \<Rightarrow> mat"
  mat_inverse :: "mat \<Rightarrow> mat"
  sort_by_value :: "(int \<Rightarrow> fl \<times> int) \<Rightarrow> int \<Rightarrow> int \<Rightarrow> (int \<Rightarrow> fl \<times> int)"
  voxel_filter :: "point list \<Rightarrow> point list"

text \<open>
  The loop \<open>for (int i = 2; i >= 0; i--)\<close> over the eigenvalues: it zeroes row \<open>i\<close> of
  \<open>matV2\<close> while the eigenvalue is below the threshold and stops at the first eigenvalue
  that is not.
\<close>

fun degenerate_rows :: "vec \<Rightarrow> vec \<Rightarrow> nat list \<Rightarrow> mat \<times> bool \<Rightarrow> mat \<times> bool" where
  "degenerate_rows matE eignThre [] r = r"
| "degenerate_rows matE eignThre (i # is) r =
     (if flt (matE ! i) (eignThre ! i)
      then degenerate_rows matE eignThre is
             ((fst r)[i := [Fin 0, Fin 0, Fin 0]], True)
      else r)"

text \<open>
  The block \<open>if (iterCount == 0) { ... }\<close>: the new value of \<open>isDegenerate\<close> and of the
  local \<open>matP\<close>.
\<close>

definition degeneracy_check :: "library \<Rightarrow> mat \<Rightarrow> bool \<times> mat" where
  "degeneracy_check lib matAtA =
     (let matE = eigen_values lib matAtA;
          matV = eigen_vectors lib matAtA;
          (matV2, deg) = degenerate_rows matE [Fin 10, Fin 10, Fin 10] [2, 1, 0] (matV, False)
      in (deg, mat_mul (mat_inverse lib matV) matV2))"

text \<open>The loop that resets the NaN components of \<open>transformCur\<close>.\<close>

definition sanitize :: "vec \<Rightarrow> vec" where
  "sanitize t = map (\<lambda>x. if x = NaN then Fin 0 else x) t"

definition RAD2DEG :: fl where
  "RAD2DEG = Fin (180 / pi)"

text \<open>\<open>pow(x, 2)\<close>.\<close>

definition fsq :: "fl \<Rightarrow> fl" where
  "fsq a = a * a"

text \<open>The members of \<open>FeatureAssociation\<close> that the solver reads and writes.\<close>

record solver_state =
  transformCur :: vec
  isDegenerate :: bool
  laserCloudOri :: "point list"
  coeffSel :: "point list"

text \<open>One row of \<open>matA\<close> and the entry of \<open>matB\<close> for a selected surface point.\<close>

definition surf_row :: "vec \<Rightarrow> point \<Rightarrow> point \<Rightarrow> vec \<times> fl" where
  "surf_row t pointOri coeff =
     (let srx = fsin (t ! 0); crx = fcos (t ! 0);
          sry = fsin (t ! 1); cry = fcos (t ! 1);
          srz = fsin (t ! 2); crz = fcos (t ! 2);
          tx = t ! 3; ty = t ! 4; tz = t ! 5;
          a1 = crx * sry * srz;
          a2 = crx * crz * sry;
          a3 = srx * sry;
          a4 = tx * a1 - ty * a2 - tz * a3;
          a5 = srx * srz;
          a6 = crz * srx;
          a7 = ty * a6 - tz * crx - tx * a5;
          a8 = crx * cry * srz;
          a9 = crx * cry * crz;
          a10 = cry * srx;
          a11 = tz * a10 + ty * a9 - tx * a8;
          b1 = - crz * sry - cry * srx * srz;
          b2 = cry * crz * srx - sry * srz;
          b5 = cry * crz - srx * sry * srz;
          b6 = cry * srz + crz * srx * sry;
          c1 = - b6;
          c2 = b5;
          c3 = tx * b6 - ty * b5;
          c4 = - crx * crz;
          c5 = crx * srz;
          c6 = ty * c5 + tx * - c4;
          c7 = b2;
          c8 = - b1;
          c9 = tx * - b2 - ty * - b1;
          arx = (- a1 * pt_x pointOri + a2 * pt_y pointOri + a3 * pt_z pointOri + a4)
                  * pt_x coeff
              + (a5 * pt_x pointOri - a6 * pt_y pointOri + crx * pt_z pointOri + a7)
                  * pt_y coeff
              + (a8 * pt_x pointOri - a9 * pt_y pointOri - a10 * pt_z pointOri + a11)
                  * pt_z coeff;
          arz = (c1 * pt_x pointOri + c2 * pt_y pointOri + c3) * pt_x coeff
              + (c4 * pt_x pointOri - c5 * pt_y pointOri + c6) * pt_y coeff
              + (c7 * pt_x pointOri + c8 * pt_y pointOri + c9) * pt_z coeff;
          aty = - b6 * pt_x coeff + c4 * pt_y coeff + b2 * pt_z coeff;
          d2 = intensity coeff
      in ([arx, arz, aty], Fin (- 0.05) * d2))"

text \<open>
  \<open>calculateTransformationSurf\<close>. The local variable \<open>matP\<close> is declared without an
  initialiser and assigned in the block \<open>if (iterCount == 0)\<close> only, so the program does not
  determine what it holds in a call with another \<open>iterCount\<close>: the argument \<open>matP_entry\<close> is
  the content of the variable when the function is entered.
\<close>

definition calculateTransformationSurf ::
  "library \<Rightarrow> mat \<Rightarrow> nat \<Rightarrow> 'a solver_state_scheme \<Rightarrow> 'a solver_state_scheme \<times> bool" where
  "calculateTransformationSurf lib matP_entry iterCount s =
     (let rows = map (\<lambda>(p, c). surf_row (transformCur s) p c)
                   (zip (laserCloudOri s) (coeffSel s));
          matA = map fst rows;
          matB = map snd rows;
          matAtA = AtA matA;
          matAtB = AtB matA matB;
          matX0 = solve_qr lib matAtA matAtB;
          (deg, matP) = (if iterCount = 0 then degeneracy_check lib matAtA
                         else (isDegenerate s, matP_entry));
          matX = (if deg then mat_vec matP matX0 else matX0);
          t = transformCur s;
          t1 = t[0 := t ! 0 + matX ! 0];
          t2 = t1[2 := t1 ! 2 + matX ! 1];
          t3 = t2[4 := t2 ! 4 + matX ! 2];
          deltaR = fsqrt (fsq (RAD2DEG * matX ! 0) + fsq (RAD2DEG * matX ! 1));
          deltaT = fsqrt (fsq (matX ! 2 * Fin 100))
      in (s\<lparr>transformCur := sanitize t3, isDegenerate := deg\<rparr>,
          \<not> (flt deltaR (Fin 0.1) \<and> flt deltaT (Fin 0.1))))"

text \<open>The same for a selected corner point.\<close>

definition corner_row :: "vec \<Rightarrow> point \<Rightarrow> point \<Rightarrow> vec \<times> fl" where
  "corner_row t pointOri coeff =
     (let srx = fsin (t ! 0); crx = fcos (t ! 0);
          sry = fsin (t ! 1); cry = fcos (t ! 1);
          srz = fsin (t ! 2); crz = fcos (t ! 2);
          tx = t ! 3; ty = t ! 4; tz = t ! 5;
          b1 = - crz * sry - cry * srx * srz;
          b2 = cry * crz * srx - sry * srz;
          b3 = crx * cry;
          b4 = tx * - b1 + ty * - b2 + tz * b3;
          b5 = cry * crz - srx * sry * srz;
          b6 = cry * srz + crz * srx * sry;
          b7 = crx * sry;
          b8 = tz * b7 - ty * b6 - tx * b5;
          c5 = crx * srz;
          ary = (b1 * pt_x pointOri + b2 * pt_y pointOri - b3 * pt_z pointOri + b4)
                  * pt_x coeff
              + (b5 * pt_x pointOri + b6 * pt_y pointOri - b7 * pt_z pointOri + b8)
                  * pt_z coeff;
          atx = - b5 * pt_x coeff + c5 * pt_y coeff + b1 * pt_z coeff;
          atz = b7 * pt_x coeff - srx * pt_y coeff - b3 * pt_z coeff;
          d2 = intensity coeff
      in ([ary, atx, atz], Fin (- 0.05) * d2))"

text \<open>\<open>calculateTransformationCorner\<close>, with the content of its local \<open>matP\<close> at entry.\<close>

definition calculateTransformationCorner ::
  "library \<Rightarrow> mat \<Rightarrow> nat \<Rightarrow> 'a solver_state_scheme \<Rightarrow> 'a solver_state_scheme \<times> bool" where
  "calculateTransformationCorner lib matP_entry iterCount s =
     (let rows = map (\<lambda>(p, c). corner_row (transformCur s) p c)
                   (zip (laserCloudOri s) (coeffSel s));
          matA = map fst rows;
          matB = map snd rows;
          matAtA = AtA matA;
          matAtB = AtB matA matB;
          matX0 = solve_qr lib matAtA matAtB;
          (deg, matP) = (if iterCount = 0 then degeneracy_check lib matAtA
                         else (isDegenerate s, matP_entry));
          matX = (if deg then mat_vec matP matX0 else matX0);
          t = transformCur s;
          t1 = t[1 := t ! 1 + matX ! 0];
          t2 = t1[3 := t1 ! 3 + matX ! 1];
          t3 = t2[5 := t2 ! 5 + matX ! 2];
          deltaR = fsqrt (fsq (RAD2DEG * matX ! 0));
          deltaT = fsqrt (fsq (matX ! 1 * Fin 100) + fsq (matX ! 2 * Fin 100))
      in (s\<lparr>transformCur := sanitize t3, isDegenerate := deg\<rparr>,
          \<not> (flt deltaR (Fin 0.1) \<and> flt deltaT (Fin 0.1))))"

section \<open>Feature association: feature extraction\<close>

text \<open>
  The configuration of the feature association: the constants of the image projection
  and the thresholds and periods of the configuration header.
\<close>

record fa_config = config +
  edgeThreshold :: real
  surfThreshold :: real
  scanPeriod :: real
  mappingFrequencyDivider :: int
  imuQueLength :: int

text \<open>
  The members that feature extraction reads and writes. Arrays are given by their content
  at each index; an entry of \<open>cloudSmoothness\<close> is the pair of its \<open>value\<close> and its \<open>ind\<close>.
\<close>

record feature_state =
  segmentedCloud :: "point list"
  segInfo :: cloud_info
  cloudCurvature :: "int \<Rightarrow> fl"
  cloudNeighborPicked :: "int \<Rightarrow> int"
  cloudLabel :: "int \<Rightarrow> int"
  cloudSmoothness :: "int \<Rightarrow> fl \<times> int"
  cornerPointsSharp :: "point list"
  cornerPointsLessSharp :: "point list"
  surfPointsFlat :: "point list"
  surfPointsLessFlat :: "point list"
  surfPointsLessFlatScan :: "point list"

text \<open>Division of \<open>int\<close> values in C++ truncates towards zero.\<close>

definition tdiv :: "int \<Rightarrow> int \<Rightarrow> int" where
  "tdiv a b = sgn a * sgn b * (\<bar>a\<bar> div \<bar>b\<bar>)"

text \<open>\<open>segmentedCloud->points[ind]\<close>.\<close>

definition cloud_point :: "feature_state \<Rightarrow> int \<Rightarrow> point" where
  "cloud_point s ind = segmentedCloud s ! nat ind"

text \<open>
  The two loops that mark the neighbours of a picked point, over \<open>l = 1, ..., 5\<close> and over
  \<open>l = -1, ..., -5\<close>; \<open>sz\<close> is the size of \<open>segmentedCloudColInd\<close>, and the comparison with
  it is unsigned.
\<close>

fun mark_forward :: "nat \<Rightarrow> (nat \<Rightarrow> int) \<Rightarrow> int \<Rightarrow> int list \<Rightarrow> (int \<Rightarrow> int) \<Rightarrow> (int \<Rightarrow> int)" where
  "mark_forward sz col ind [] np = np"
| "mark_forward sz col ind (l # ls) np =
     (if ind + l < 0 \<or> int sz \<le> ind + l then mark_forward sz col ind ls np
      else if 10 < \<bar>col (nat (ind + l)) - col (nat (ind + l - 1))\<bar> then np
      else mark_forward sz col ind ls (np (ind + l := 1)))"

fun mark_backward :: "(nat \<Rightarrow> int) \<Rightarrow> int \<Rightarrow> int list \<Rightarrow> (int \<Rightarrow> int) \<Rightarrow> (int \<Rightarrow> int)" where
  "mark_backward col ind [] np = np"
| "mark_backward col ind (l # ls) np =
     (if ind + l < 0 then mark_backward col ind ls np
      else if 10 < \<bar>col (nat (ind + l)) - col (nat (ind + l + 1))\<bar> then np
      else mark_backward col ind ls (np (ind + l := 1)))"

definition mark_neighbors :: "'a fa_config_scheme \<Rightarrow> int \<Rightarrow> feature_state \<Rightarrow> feature_state" where
  "mark_neighbors cfg ind s =
     s\<lparr>cloudNeighborPicked :=
         mark_backward (segmentedCloudColInd (segInfo s)) ind [- 1, - 2, - 3, - 4, - 5]
           (mark_forward (N_scan cfg * horizon_scan cfg) (segmentedCloudColInd (segInfo s)) ind
              [1, 2, 3, 4, 5] ((cloudNeighborPicked s) (ind := 1)))\<rparr>"

text \<open>
  The loop over \<open>k = ep, ..., sp\<close> that picks the corner points of a sector; the second
  component of the pair is the local \<open>largestPickedNum\<close>.
\<close>

fun pick_corners ::
  "'a fa_config_scheme \<Rightarrow> int list \<Rightarrow> feature_state \<times> int \<Rightarrow> feature_state \<times> int" where
  "pick_corners cfg [] r = r"
| "pick_corners cfg (k # ks) r =
     (let s = fst r; ind = snd (cloudSmoothness s k)
      in if cloudNeighborPicked s ind = 0 \<and>
            flt (Fin (edgeThreshold cfg)) (cloudCurvature s ind) \<and>
            \<not> segmentedCloudGroundFlag (segInfo s) (nat ind)
         then
           let largestPickedNum = snd r + 1
           in if largestPickedNum \<le> 2 then
                pick_corners cfg ks
                  (mark_neighbors cfg ind
                     (s\<lparr>cloudLabel := (cloudLabel s) (ind := 2),
                        cornerPointsSharp := cornerPointsSharp s @ [cloud_point s ind],
                        cornerPointsLessSharp := cornerPointsLessSharp s @ [cloud_point s ind]\<rparr>),
                   largestPickedNum)
              else if largestPickedNum \<le> 20 then
                pick_corners cfg ks
                  (mark_neighbors cfg ind
                     (s\<lparr>cloudLabel := (cloudLabel s) (ind := 1),
                        cornerPointsLessSharp := cornerPointsLessSharp s @ [cloud_point s ind]\<rparr>),
                   largestPickedNum)
              else (s, largestPickedNum)
         else pick_corners cfg ks r)"

text \<open>
  The loop over \<open>k = sp, ..., ep\<close> that picks the flat surface points; the second component
  is the local \<open>smallestPickedNum\<close>.
\<close>

fun pick_flat ::
  "'a fa_config_scheme \<Rightarrow> int list \<Rightarrow> feature_state \<times> int \<Rightarrow> feature_state \<times> int" where
  "pick_flat cfg [] r = r"
| "pick_flat cfg (k # ks) r =
     (let s = fst r; ind = snd (cloudSmoothness s k)
      in if cloudNeighborPicked s ind = 0 \<and>
            flt (cloudCurvature s ind) (Fin (surfThreshold cfg)) \<and>
            segmentedCloudGroundFlag (segInfo s) (nat ind)
         then
           let s1 = s\<lparr>cloudLabel := (cloudLabel s) (ind := - 1),
                      surfPointsFlat := surfPointsFlat s @ [cloud_point s ind]\<rparr>;
               smallestPickedNum = snd r + 1
           in if 4 \<le> smallestPickedNum then (s1, smallestPickedNum)
              else pick_flat cfg ks (mark_neighbors cfg ind s1, smallestPickedNum)
         else pick_flat cfg ks r)"

definition less_flat_point :: "int \<Rightarrow> feature_state \<Rightarrow> feature_state" where
  "less_flat_point k s =
     (if cloudLabel s k \<le> 0
      then s\<lparr>surfPointsLessFlatScan := surfPointsLessFlatScan s @ [cloud_point s k]\<rparr>
      else s)"

text \<open>The body of the loop over the six sectors \<open>j\<close> of ring \<open>i\<close>.\<close>

definition extract_sector ::
  "'a fa_config_scheme \<Rightarrow> library \<Rightarrow> nat \<Rightarrow> int \<Rightarrow> feature_state \<Rightarrow> feature_state" where
  "extract_sector cfg lib i j s =
     (let sp = tdiv (startRingIndex (segInfo s) i * (6 - j) + endRingIndex (segInfo s) i * j) 6;
          ep = tdiv (startRingIndex (segInfo s) i * (5 - j)
                       + endRingIndex (segInfo s) i * (j + 1)) 6 - 1
      in if ep \<le> sp then s
         else
           let s1 = s\<lparr>cloudSmoothness := sort_by_value lib (cloudSmoothness s) sp ep\<rparr>;
               s2 = fst (pick_corners cfg (rev [sp..ep]) (s1, 0));
               s3 = fst (pick_flat cfg [sp..ep] (s2, 0))
           in fold less_flat_point [sp..ep] s3)"

definition extract_ring ::
  "'a fa_config_scheme \<Rightarrow> library \<Rightarrow> nat \<Rightarrow> feature_state \<Rightarrow> feature_state" where
  "extract_ring cfg lib i s =
     (let s1 = fold (extract_sector cfg lib i) [0, 1, 2, 3, 4, 5]
                 (s\<lparr>surfPointsLessFlatScan := []\<rparr>)
      in s1\<lparr>surfPointsLessFlat :=
             surfPointsLessFlat s1 @ voxel_filter lib (surfPointsLessFlatScan s1)\<rparr>)"

definition extractFeatures ::
  "'a fa_config_scheme \<Rightarrow> library \<Rightarrow> feature_state \<Rightarrow> feature_state" where
  "extractFeatures cfg lib s =
     fold (extract_ring cfg lib) [0..<N_scan cfg]
       (s\<lparr>cornerPointsSharp := [], cornerPointsLessSharp := [],
          surfPointsFlat := [], surfPointsLessFlat := []\<rparr>)"

section \<open>Feature association: the odometry pipeline\<close>

subsection \<open>State\<close>

text \<open>\<open>Vector3\<close>, a vector of three \<open>float\<close> values, with the operations used on it.\<close>

record Vector3 =
  vx :: fl
  vy :: fl
  vz :: fl


definition v_add :: "Vector3 \<Rightarrow> Vector3 \<Rightarrow> Vector3" where
  "v_add a b = \<lparr>vx = vx a + vx b, vy = vy a + vy b, vz = vz a + vz b\<rparr>"

definition v_sub :: "Vector3 \<Rightarrow> Vector3 \<Rightarrow> Vector3" where
  "v_sub a b = \<lparr>vx = vx a - vx b, vy = vy a - vy b, vz = vz a - vz b\<rparr>"

definition v_scale :: "Vector3 \<Rightarrow> fl \<Rightarrow> Vector3" where
  "v_scale a k = \<lparr>vx = vx a * k, vy = vy a * k, vz = vz a * k\<rparr>"

text \<open>The remainder of the division of \<open>int\<close> values, \<open>std::abs\<close> on \<open>float\<close>, and \<open>a != b\<close>.\<close>

definition tmod :: "int \<Rightarrow> int \<Rightarrow> int" where
  "tmod a b = a - b * tdiv a b"

definition fabs :: "fl \<Rightarrow> fl" where "fabs = fl1 abs"

definition fne :: "fl \<Rightarrow> fl \<Rightarrow> bool" where
  "fne a b = (\<not> feq a b)"

text \<open>
  The members that hold the inertial measurements: the queue that \<open>imuHandler\<close> fills
  (the arrays by their content at each index) and the values that the processing of a scan
  derives from it.
\<close>

record imu_state =
  imuPointerFront :: int
  imuPointerLast :: int
  imuPointerLastIteration :: int
  imuTime :: "int \<Rightarrow> fl"
  imuRoll :: "int \<Rightarrow> fl"
  imuPitch :: "int \<Rightarrow> fl"
  imuYaw :: "int \<Rightarrow> fl"
  imuVelo :: "int \<Rightarrow> Vector3"
  imuShift :: "int \<Rightarrow> Vector3"
  imuAngularRotation :: "int \<Rightarrow> Vector3"
  imuRollStart :: fl
  imuPitchStart :: fl
  imuYawStart :: fl
  cosImuRollStart :: fl
  cosImuPitchStart :: fl
  cosImuYawStart :: fl
  sinImuRollStart :: fl
  sinImuPitchStart :: fl
  sinImuYawStart :: fl
  imuRollCur :: fl
  imuPitchCur :: fl
  imuYawCur :: fl
  imuVeloStart :: Vector3
  imuShiftStart :: Vector3
  imuVeloCur :: Vector3
  imuShiftCur :: Vector3
  imuShiftFromStartCur :: Vector3
  imuVeloFromStartCur :: Vector3
  imuAngularRotationCur :: Vector3
  imuAngularRotationLast :: Vector3
  imuAngularFromStart :: Vector3
  imuRollLast :: fl
  imuPitchLast :: fl
  imuYawLast :: fl
  imuShiftFromStart :: Vector3
  imuVeloFromStart :: Vector3

text \<open>The index arrays in which the correspondence searches keep what they found.\<close>

record search_indices =
  pointSearchCornerInd1 :: "nat \<Rightarrow> int"
  pointSearchCornerInd2 :: "nat \<Rightarrow> int"
  pointSearchSurfInd1 :: "nat \<Rightarrow> int"
  pointSearchSurfInd2 :: "nat \<Rightarrow> int"
  pointSearchSurfInd3 :: "nat \<Rightarrow> int"

text \<open>The pose of an odometry message, and what the node hands to its environment.\<close>

record Quaternion =
  qx :: fl
  qy :: fl
  qz :: fl
  qw :: fl

record Odometry =
  odom_stamp :: fl
  orientation :: Quaternion
  position :: Vector3

record AssociationOut =
  cloud_corner_last :: "point list"
  cloud_surf_last :: "point list"
  cloud_outlier_last :: "point list"
  laser_odometry :: Odometry

datatype message =
    CloudMsg string fl "point list"
  | OdometryMsg Odometry
  | TransformMsg Odometry

text \<open>
  The members of \<open>FeatureAssociation\<close>. The two k-d trees are given by their input
  clouds, \<open>published\<close> lists the messages handed to the publishers and to the transform
  broadcaster, and \<open>sent\<close> the messages put on the output channel.
\<close>

record fa_state = solver_state +
  transformSum :: vec
  systemInitedLM :: bool
  features :: feature_state
  imu :: imu_state
  outlierCloud :: "point list"
  timeScanCur :: fl
  laserCloudCornerLast :: "point list"
  laserCloudSurfLast :: "point list"
  laserCloudCornerLastNum :: int
  laserCloudSurfLastNum :: int
  kdtreeCornerLast :: "point list"
  kdtreeSurfLast :: "point list"
  search :: search_indices
  laserOdometry :: Odometry
  frameCount :: int
  skipFrameNum :: int
  cycle_count :: int
  published :: "message list"
  sent :: "AssociationOut list"

text \<open>
  What the pipeline takes from outside the code modelled here. The two correspondence
  searches, \<open>findCorrespondingSurfFeatures\<close> and \<open>findCorrespondingCornerFeatures\<close>, are
  parameters: given the iteration count and the state, each yields the points and
  coefficients that it appends to \<open>laserCloudOri\<close> and \<open>coeffSel\<close> and the new content of
  its index arrays; they write no other member. \<open>subscribers\<close> says whether
  \<open>getNumSubscribers\<close> of the publisher of a topic is not zero, and the last field is the
  conversion of roll, pitch and yaw to a quaternion of the transform library.
\<close>

record environment =
  surf_search :: "nat \<Rightarrow> fa_state \<Rightarrow> point list \<times> point list \<times> search_indices"
  corner_search :: "nat \<Rightarrow> fa_state \<Rightarrow> point list \<times> point list \<times> search_indices"
  subscribers :: "string \<Rightarrow> bool"
  createQuaternionMsgFromRollPitchYaw :: "fl \<Rightarrow> fl \<Rightarrow> fl \<Rightarrow> Quaternion"

text \<open>
  What the local variable \<open>matP\<close> of the surface solver and of the corner solver holds when
  the solver is entered in the iteration with the given count.
\<close>

record indeterminate =
  matP_surf_entry :: "nat \<Rightarrow> mat"
  matP_corner_entry :: "nat \<Rightarrow> mat"

subsection \<open>\<open>adjustDistortion\<close>\<close>

definition updateImuRollPitchYawStartSinCos :: "imu_state \<Rightarrow> imu_state" where
  "updateImuRollPitchYawStartSinCos m =
     m\<lparr>cosImuRollStart := fcos (imuRollStart m),
       cosImuPitchStart := fcos (imuPitchStart m),
       cosImuYawStart := fcos (imuYawStart m),
       sinImuRollStart := fsin (imuRollStart m),
       sinImuPitchStart := fsin (imuPitchStart m),
       sinImuYawStart := fsin (imuYawStart m)\<rparr>"

definition VeloToStartIMU :: "imu_state \<Rightarrow> imu_state" where
  "VeloToStartIMU m =
     (let v = v_sub (imuVeloCur m) (imuVeloStart m);
          x1 = cosImuYawStart m * vx v - sinImuYawStart m * vz v;
          y1 = vy v;
          z1 = sinImuYawStart m * vx v + cosImuYawStart m * vz v;
          x2 = x1;
          y2 = cosImuPitchStart m * y1 + sinImuPitchStart m * z1;
          z2 = - sinImuPitchStart m * y1 + cosImuPitchStart m * z1
      in m\<lparr>imuVeloFromStartCur :=
             \<lparr>vx = cosImuRollStart m * x2 + sinImuRollStart m * y2,
              vy = - sinImuRollStart m * x2 + cosImuRollStart m * y2,
              vz = z2\<rparr>\<rparr>)"

definition TransformToStartIMU :: "imu_state \<Rightarrow> point \<Rightarrow> point" where
  "TransformToStartIMU m p =
     (let x1 = fcos (imuRollCur m) * pt_x p - fsin (imuRollCur m) * pt_y p;
          y1 = fsin (imuRollCur m) * pt_x p + fcos (imuRollCur m) * pt_y p;
          z1 = pt_z p;
          x2 = x1;
          y2 = fcos (imuPitchCur m) * y1 - fsin (imuPitchCur m) * z1;
          z2 = fsin (imuPitchCur m) * y1 + fcos (imuPitchCur m) * z1;
          x3 = fcos (imuYawCur m) * x2 + fsin (imuYawCur m) * z2;
          y3 = y2;
          z3 = - fsin (imuYawCur m) * x2 + fcos (imuYawCur m) * z2;
          x4 = cosImuYawStart m * x3 - sinImuYawStart m * z3;
          y4 = y3;
          z4 = sinImuYawStart m * x3 + cosImuYawStart m * z3;
          x5 = x4;
          y5 = cosImuPitchStart m * y4 + sinImuPitchStart m * z4;
          z5 = - sinImuPitchStart m * y4 + cosImuPitchStart m * z4
      in p\<lparr>pt_x := cosImuRollStart m * x5 + sinImuRollStart m * y5 + vx (imuShiftFromStartCur m),
           pt_y := - sinImuRollStart m * x5 + cosImuRollStart m * y5
                     + vy (imuShiftFromStartCur m),
           pt_z := z5 + vz (imuShiftFromStartCur m)\<rparr>)"

text \<open>
  The orientation of a point within the sweep: the relative time of the point and the new
  value of the local flag \<open>halfPassed\<close>.
\<close>

definition relative_time :: "cloud_info \<Rightarrow> point \<Rightarrow> bool \<Rightarrow> fl \<times> bool" where
  "relative_time info point halfPassed =
     (let ori = - fatan2 (pt_x point) (pt_z point);
          oh = (if \<not> halfPassed then
                  let ori1 = (if flt ori (startOrientation info - Fin (pi / 2))
                              then ori + Fin (2 * pi)
                              else if flt (startOrientation info + Fin (pi * 3 / 2)) ori
                              then ori - Fin (2 * pi)
                              else ori)
                  in (ori1, flt (Fin pi) (ori1 - startOrientation info))
                else
                  let ori1 = ori + Fin (2 * pi);
                      ori2 = (if flt ori1 (endOrientation info - Fin (pi * 3 / 2))
                              then ori1 + Fin (2 * pi)
                              else if flt (endOrientation info + Fin (pi / 2)) ori1
                              then ori1 - Fin (2 * pi)
                              else ori1)
                  in (ori2, True))
      in (fdiv (fst oh - startOrientation info) (orientationDiff info), snd oh))"

text \<open>
  The loop \<open>while (imuPointerFront != imuPointerLast)\<close> that advances \<open>imuPointerFront\<close>
  to the first measurement later than the time \<open>t\<close> of the point.
\<close>

partial_function (option) imu_seek :: "int \<Rightarrow> (int \<Rightarrow> fl) \<Rightarrow> fl \<Rightarrow> int \<Rightarrow> int \<Rightarrow> int option" where
  "imu_seek len tm t pointerLast pointerFront =
     (if pointerFront \<noteq> pointerLast then
        (if flt t (tm pointerFront) then Some pointerFront
         else imu_seek len tm t pointerLast (tmod (pointerFront + 1) len))
      else Some pointerFront)"

text \<open>
  The values of the measurement at the time of the point: those at \<open>imuPointerFront\<close>, or
  interpolated between it and its predecessor.
\<close>

definition imu_current :: "'a fa_config_scheme \<Rightarrow> fl \<Rightarrow> fl \<Rightarrow> imu_state \<Rightarrow> imu_state" where
  "imu_current cfg timeCur pointTime m =
     (let f = imuPointerFront m
      in if flt (imuTime m f) (timeCur + pointTime) then
           m\<lparr>imuRollCur := imuRoll m f, imuPitchCur := imuPitch m f, imuYawCur := imuYaw m f,
             imuVeloCur := imuVelo m f, imuShiftCur := imuShift m f\<rparr>
         else
           let b = tmod (f + imuQueLength cfg - 1) (imuQueLength cfg);
               ratioFront = fdiv (timeCur + pointTime - imuTime m b) (imuTime m f - imuTime m b);
               ratioBack = fdiv (imuTime m f - timeCur - pointTime) (imuTime m f - imuTime m b)
           in m\<lparr>imuRollCur := imuRoll m f * ratioFront + imuRoll m b * ratioBack,
                imuPitchCur := imuPitch m f * ratioFront + imuPitch m b * ratioBack,
                imuYawCur :=
                  (if flt (Fin pi) (imuYaw m f - imuYaw m b) then
                     imuYaw m f * ratioFront + (imuYaw m b + Fin (2 * pi)) * ratioBack
                   else if flt (imuYaw m f - imuYaw m b) (Fin (- pi)) then
                     imuYaw m f * ratioFront + (imuYaw m b - Fin (2 * pi)) * ratioBack
                   else imuYaw m f * ratioFront + imuYaw m b * ratioBack),
                imuVeloCur := v_add (v_scale (imuVelo m f) ratioFront)
                                    (v_scale (imuVelo m b) ratioBack),
                imuShiftCur := v_add (v_scale (imuShift m f) ratioFront)
                                     (v_scale (imuShift m b) ratioBack)\<rparr>)"

text \<open>The branch \<open>i == 0\<close>: the values at the start of the sweep.\<close>

definition imu_start :: "'a fa_config_scheme \<Rightarrow> fl \<Rightarrow> fl \<Rightarrow> imu_state \<Rightarrow> imu_state" where
  "imu_start cfg timeCur pointTime m =
     (let f = imuPointerFront m;
          m1 = m\<lparr>imuRollStart := imuRollCur m, imuPitchStart := imuPitchCur m,
                 imuYawStart := imuYawCur m,
                 imuVeloStart := imuVeloCur m, imuShiftStart := imuShiftCur m\<rparr>;
          rot = (if flt (imuTime m f) (timeCur + pointTime) then imuAngularRotation m f
                 else
                   let b = tmod (f + imuQueLength cfg - 1) (imuQueLength cfg);
                       ratioFront = fdiv (timeCur + pointTime - imuTime m b)
                                         (imuTime m f - imuTime m b);
                       ratioBack = fdiv (imuTime m f - timeCur - pointTime)
                                        (imuTime m f - imuTime m b)
                   in v_add (v_scale (imuAngularRotation m f) ratioFront)
                            (v_scale (imuAngularRotation m b) ratioBack))
      in updateImuRollPitchYawStartSinCos
           (m1\<lparr>imuAngularRotationCur := rot,
               imuAngularFromStart := v_sub rot (imuAngularRotationLast m1),
               imuAngularRotationLast := rot\<rparr>))"

text \<open>
  The body of the loop of \<open>adjustDistortion\<close> for the point \<open>p\<close> at index \<open>i\<close>; the result is
  the adjusted point, the flag \<open>halfPassed\<close> and the measurement values.
\<close>

definition adjust_point ::
  "'a fa_config_scheme \<Rightarrow> fl \<Rightarrow> cloud_info \<Rightarrow> nat \<Rightarrow> point \<Rightarrow> bool \<times> imu_state
     \<Rightarrow> (point \<times> bool \<times> imu_state) option" where
  "adjust_point cfg timeCur info i p hm =
     (let m = snd hm;
          rh = relative_time info \<lparr>pt_x = pt_y p, pt_y = pt_z p, pt_z = pt_x p,
                                    intensity = intensity p\<rparr> (fst hm);
          relTime = fst rh;
          point = \<lparr>pt_x = pt_y p, pt_y = pt_z p, pt_z = pt_x p,
                   intensity = Fin (of_int (f2i cfg (intensity p)))
                                 + Fin (scanPeriod cfg) * relTime\<rparr>
      in if 0 \<le> imuPointerLast m then
           let pointTime = relTime * Fin (scanPeriod cfg)
           in (case imu_seek (imuQueLength cfg) (imuTime m) (timeCur + pointTime)
                       (imuPointerLast m) (imuPointerLastIteration m) of
                 None \<Rightarrow> None
               | Some f \<Rightarrow>
                   let m1 = imu_current cfg timeCur pointTime (m\<lparr>imuPointerFront := f\<rparr>)
                   in if i = 0 then Some (point, snd rh, imu_start cfg timeCur pointTime m1)
                      else Some (TransformToStartIMU (VeloToStartIMU m1) point, snd rh,
                                 VeloToStartIMU m1))
         else Some (point, snd rh, m))"

fun adjust_points ::
  "'a fa_config_scheme \<Rightarrow> fl \<Rightarrow> cloud_info \<Rightarrow> nat \<Rightarrow> point list \<Rightarrow> bool \<times> imu_state
     \<Rightarrow> (point list \<times> imu_state) option" where
  "adjust_points cfg timeCur info i [] hm = Some ([], snd hm)"
| "adjust_points cfg timeCur info i (p # ps) hm =
     (case adjust_point cfg timeCur info i p hm of
        None \<Rightarrow> None
      | Some r \<Rightarrow>
          (case adjust_points cfg timeCur info (Suc i) ps (snd r) of
             None \<Rightarrow> None
           | Some rs \<Rightarrow> Some (fst r # fst rs, snd rs)))"

definition adjustDistortion :: "'a fa_config_scheme \<Rightarrow> fa_state \<Rightarrow> fa_state option" where
  "adjustDistortion cfg s =
     (case adjust_points cfg (timeScanCur s) (segInfo (features s)) 0
             (segmentedCloud (features s)) (False, imu s) of
        None \<Rightarrow> None
      | Some r \<Rightarrow>
          Some (s\<lparr>features := (features s)\<lparr>segmentedCloud := fst r\<rparr>,
                  imu := (snd r)\<lparr>imuPointerLastIteration := imuPointerLast (snd r)\<rparr>\<rparr>))"

subsection \<open>\<open>calculateSmoothness\<close> and \<open>markOccludedPoints\<close>\<close>

definition smoothness_at :: "int \<Rightarrow> feature_state \<Rightarrow> feature_state" where
  "smoothness_at i s =
     (let r = (\<lambda>k. segmentedCloudRange (segInfo s) (nat k));
          diffRange = r (i - 5) + r (i - 4) + r (i - 3) + r (i - 2) + r (i - 1)
                        - r i * Fin 10
                        + r (i + 1) + r (i + 2) + r (i + 3) + r (i + 4) + r (i + 5);
          c = diffRange * diffRange
      in s\<lparr>cloudCurvature := (cloudCurvature s)(i := c),
           cloudNeighborPicked := (cloudNeighborPicked s)(i := 0),
           cloudLabel := (cloudLabel s)(i := 0),
           cloudSmoothness := (cloudSmoothness s)(i := (c, i))\<rparr>)"

definition calculateSmoothness :: "feature_state \<Rightarrow> feature_state" where
  "calculateSmoothness s = fold smoothness_at [5..int (length (segmentedCloud s)) - 6] s"

definition occluded_at :: "int \<Rightarrow> feature_state \<Rightarrow> feature_state" where
  "occluded_at i s =
     (let r = (\<lambda>k. segmentedCloudRange (segInfo s) (nat k));
          col = (\<lambda>k. segmentedCloudColInd (segInfo s) (nat k));
          depth1 = r i;
          depth2 = r (i + 1);
          columnDiff = \<bar>col (i + 1) - col i\<bar>;
          np = cloudNeighborPicked s;
          np1 = (if columnDiff < 10 then
                   (if flt (Fin (3 / 10)) (depth1 - depth2) then
                      np(i - 5 := 1, i - 4 := 1, i - 3 := 1, i - 2 := 1, i - 1 := 1, i := 1)
                    else if flt (Fin (3 / 10)) (depth2 - depth1) then
                      np(i + 1 := 1, i + 2 := 1, i + 3 := 1, i + 4 := 1, i + 5 := 1, i + 6 := 1)
                    else np)
                 else np);
          diff1 = fabs (r (i - 1) - r i);
          diff2 = fabs (r (i + 1) - r i)
      in s\<lparr>cloudNeighborPicked :=
             (if flt (Fin (2 / 100) * r i) diff1 \<and> flt (Fin (2 / 100) * r i) diff2
              then np1(i := 1) else np1)\<rparr>)"

definition markOccludedPoints :: "feature_state \<Rightarrow> feature_state" where
  "markOccludedPoints s = fold occluded_at [5..int (length (segmentedCloud s)) - 7] s"

subsection \<open>Publication of the feature clouds\<close>

text \<open>The local function \<open>Publish\<close>: the cloud goes out if the topic has a subscriber.\<close>

definition Publish :: "environment \<Rightarrow> string \<Rightarrow> point list \<Rightarrow> fa_state \<Rightarrow> fa_state" where
  "Publish env topic cloud s =
     (if subscribers env topic
      then s\<lparr>published := published s @ [CloudMsg topic (timeScanCur s) cloud]\<rparr>
      else s)"

definition publishCloud :: "environment \<Rightarrow> fa_state \<Rightarrow> fa_state" where
  "publishCloud env s =
     Publish env ''/laser_cloud_less_flat'' (surfPointsLessFlat (features s))
       (Publish env ''/laser_cloud_flat'' (surfPointsFlat (features s))
          (Publish env ''/laser_cloud_less_sharp'' (cornerPointsLessSharp (features s))
             (Publish env ''/laser_cloud_sharp'' (cornerPointsSharp (features s)) s)))"

subsection \<open>First scan\<close>

definition checkSystemInitialization :: "fa_state \<Rightarrow> fa_state" where
  "checkSystemInitialization s =
     (let corner = cornerPointsLessSharp (features s);
          surf = surfPointsLessFlat (features s);
          s1 = s\<lparr>features := (features s)\<lparr>cornerPointsLessSharp := laserCloudCornerLast s,
                                           surfPointsLessFlat := laserCloudSurfLast s\<rparr>,
                 laserCloudCornerLast := corner,
                 laserCloudSurfLast := surf,
                 kdtreeCornerLast := corner,
                 kdtreeSurfLast := surf,
                 laserCloudCornerLastNum := int (length corner),
                 laserCloudSurfLastNum := int (length surf),
                 published := published s
                    @ [CloudMsg ''/laser_cloud_corner_last'' (timeScanCur s) corner,
                       CloudMsg ''/laser_cloud_surf_last'' (timeScanCur s) surf]\<rparr>;
          t1 = (transformSum s1)[0 := transformSum s1 ! 0 + imuPitchStart (imu s1)];
          t2 = t1[2 := t1 ! 2 + imuRollStart (imu s1)]
      in s1\<lparr>transformSum := t2, systemInitedLM := True\<rparr>)"

subsection \<open>Motion estimation\<close>

definition updateInitialGuess :: "'a fa_config_scheme \<Rightarrow> fa_state \<Rightarrow> fa_state" where
  "updateInitialGuess cfg s =
     (let m = (imu s)\<lparr>imuPitchLast := imuPitchCur (imu s),
                      imuYawLast := imuYawCur (imu s),
                      imuRollLast := imuRollCur (imu s),
                      imuShiftFromStart := imuShiftFromStartCur (imu s),
                      imuVeloFromStart := imuVeloFromStartCur (imu s)\<rparr>;
          a = imuAngularFromStart m;
          v = imuVeloFromStart m;
          t = transformCur s;
          t1 = (if fne (vx a) (Fin 0) \<or> fne (vy a) (Fin 0) \<or> fne (vz a) (Fin 0)
                then t[0 := - vy a, 1 := - vz a, 2 := - vx a]
                else t);
          t2 = (if fne (vx v) (Fin 0) \<or> fne (vy v) (Fin 0) \<or> fne (vz v) (Fin 0)
                then t1[3 := t1 ! 3 - vx v * Fin (scanPeriod cfg),
                        4 := t1 ! 4 - vy v * Fin (scanPeriod cfg),
                        5 := t1 ! 5 - vz v * Fin (scanPeriod cfg)]
                else t1)
      in s\<lparr>imu := m, transformCur := t2\<rparr>)"

definition findCorrespondingSurfFeatures :: "environment \<Rightarrow> nat \<Rightarrow> fa_state \<Rightarrow> fa_state" where
  "findCorrespondingSurfFeatures env iterCount s =
     (let r = surf_search env iterCount s
      in s\<lparr>laserCloudOri := laserCloudOri s @ fst r,
           coeffSel := coeffSel s @ fst (snd r),
           search := snd (snd r)\<rparr>)"

definition findCorrespondingCornerFeatures :: "environment \<Rightarrow> nat \<Rightarrow> fa_state \<Rightarrow> fa_state" where
  "findCorrespondingCornerFeatures env iterCount s =
     (let r = corner_search env iterCount s
      in s\<lparr>laserCloudOri := laserCloudOri s @ fst r,
           coeffSel := coeffSel s @ fst (snd r),
           search := snd (snd r)\<rparr>)"

text \<open>
  The two loops of \<open>updateTransformation\<close> over the iteration counts that are left: an
  iteration with fewer than 10 selected points goes on to the next one, and the loop ends
  when the solver returns \<open>false\<close>.
\<close>

fun surf_iterations ::
  "library \<Rightarrow> environment \<Rightarrow> indeterminate \<Rightarrow> nat list \<Rightarrow> fa_state \<Rightarrow> fa_state" where
  "surf_iterations lib env ind [] s = s"
| "surf_iterations lib env ind (iterCount1 # rest) s =
     (let s1 = findCorrespondingSurfFeatures env iterCount1
                 (s\<lparr>laserCloudOri := [], coeffSel := []\<rparr>)
      in if length (laserCloudOri s1) < 10 then surf_iterations lib env ind rest s1
         else
           let r = calculateTransformationSurf lib (matP_surf_entry ind iterCount1) iterCount1 s1
           in if \<not> snd r then fst r else surf_iterations lib env ind rest (fst r))"

fun corner_iterations ::
  "library \<Rightarrow> environment \<Rightarrow> indeterminate \<Rightarrow> nat list \<Rightarrow> fa_state \<Rightarrow> fa_state" where
  "corner_iterations lib env ind [] s = s"
| "corner_iterations lib env ind (iterCount2 # rest) s =
     (let s1 = findCorrespondingCornerFeatures env iterCount2
                 (s\<lparr>laserCloudOri := [], coeffSel := []\<rparr>)
      in if length (laserCloudOri s1) < 10 then corner_iterations lib env ind rest s1
         else
           let r = calculateTransformationCorner lib (matP_corner_entry ind iterCount2)
                     iterCount2 s1
           in if \<not> snd r then fst r else corner_iterations lib env ind rest (fst r))"

definition updateTransformation ::
  "library \<Rightarrow> environment \<Rightarrow> indeterminate \<Rightarrow> fa_state \<Rightarrow> fa_state" where
  "updateTransformation lib env ind s =
     (if laserCloudCornerLastNum s < 10 \<or> laserCloudSurfLastNum s < 100 then s
      else corner_iterations lib env ind [0..<25] (surf_iterations lib env ind [0..<25] s))"

subsection \<open>Integration of the increment\<close>

definition AccumulateRotation :: "fl \<Rightarrow> fl \<Rightarrow> fl \<Rightarrow> fl \<Rightarrow> fl \<Rightarrow> fl \<Rightarrow> fl \<times> fl \<times> fl" where
  "AccumulateRotation cx cy cz lx ly lz =
     (let srx = fcos lx * fcos cx * fsin ly * fsin cz
                  - fcos cx * fcos cz * fsin lx - fcos lx * fcos ly * fsin cx;
          ox = - fasin srx;
          srycrx = fsin lx * (fcos cy * fsin cz - fcos cz * fsin cx * fsin cy)
                     + fcos lx * fsin ly * (fcos cy * fcos cz + fsin cx * fsin cy * fsin cz)
                     + fcos lx * fcos ly * fcos cx * fsin cy;
          crycrx = fcos lx * fcos ly * fcos cx * fcos cy
                     - fcos lx * fsin ly * (fcos cz * fsin cy - fcos cy * fsin cx * fsin cz)
                     - fsin lx * (fsin cy * fsin cz + fcos cy * fcos cz * fsin cx);
          oy = fatan2 (fdiv srycrx (fcos ox)) (fdiv crycrx (fcos ox));
          srzcrx = fsin cx * (fcos lz * fsin ly - fcos ly * fsin lx * fsin lz)
                     + fcos cx * fsin cz * (fcos ly * fcos lz + fsin lx * fsin ly * fsin lz)
                     + fcos lx * fcos cx * fcos cz * fsin lz;
          crzcrx = fcos lx * fcos lz * fcos cx * fcos cz
                     - fcos cx * fsin cz * (fcos ly * fsin lz - fcos lz * fsin lx * fsin ly)
                     - fsin cx * (fsin ly * fsin lz + fcos ly * fcos lz * fsin lx);
          oz = fatan2 (fdiv srzcrx (fcos ox)) (fdiv crzcrx (fcos ox))
      in (ox, oy, oz))"

definition PluginIMURotation ::
  "fl \<Rightarrow> fl \<Rightarrow> fl \<Rightarrow> fl \<Rightarrow> fl \<Rightarrow> fl \<Rightarrow> fl \<Rightarrow> fl \<Rightarrow> fl \<Rightarrow> fl \<times> fl \<times> fl" where
  "PluginIMURotation bcx bcy bcz blx bly blz alx aly alz =
     (let sbcx = fsin bcx; cbcx = fcos bcx; sbcy = fsin bcy; cbcy = fcos bcy;
          sbcz = fsin bcz; cbcz = fcos bcz;
          sblx = fsin blx; cblx = fcos blx; sbly = fsin bly; cbly = fcos bly;
          sblz = fsin blz; cblz = fcos blz;
          salx = fsin alx; calx = fcos alx; saly = fsin aly; caly = fcos aly;
          salz = fsin alz; calz = fcos alz;
          srx = - sbcx * (salx * sblx + calx * caly * cblx * cbly + calx * cblx * saly * sbly)
                  - cbcx * cbcz
                      * (calx * saly * (cbly * sblz - cblz * sblx * sbly)
                           - calx * caly * (sbly * sblz + cbly * cblz * sblx)
                           + cblx * cblz * salx)
                  - cbcx * sbcz
                      * (calx * caly * (cblz * sbly - cbly * sblx * sblz)
                           - calx * saly * (cbly * cblz + sblx * sbly * sblz)
                           + cblx * salx * sblz);
          acx = - fasin srx;
          srycrx = (cbcy * sbcz - cbcz * sbcx * sbcy)
                       * (calx * saly * (cbly * sblz - cblz * sblx * sbly)
                            - calx * caly * (sbly * sblz + cbly * cblz * sblx)
                            + cblx * cblz * salx)
                     - (cbcy * cbcz + sbcx * sbcy * sbcz)
                         * (calx * caly * (cblz * sbly - cbly * sblx * sblz)
                              - calx * saly * (cbly * cblz + sblx * sbly * sblz)
                              + cblx * salx * sblz)
                     + cbcx * sbcy
                         * (salx * sblx + calx * caly * cblx * cbly + calx * cblx * saly * sbly);
          crycrx = (cbcz * sbcy - cbcy * sbcx * sbcz)
                       * (calx * caly * (cblz * sbly - cbly * sblx * sblz)
                            - calx * saly * (cbly * cblz + sblx * sbly * sblz)
                            + cblx * salx * sblz)
                     - (sbcy * sbcz + cbcy * cbcz * sbcx)
                         * (calx * saly * (cbly * sblz - cblz * sblx * sbly)
                              - calx * caly * (sbly * sblz + cbly * cblz * sblx)
                              + cblx * cblz * salx)
                     + cbcx * cbcy
                         * (salx * sblx + calx * caly * cblx * cbly + calx * cblx * saly * sbly);
          acy = fatan2 (fdiv srycrx (fcos acx)) (fdiv crycrx (fcos acx));
          srzcrx = sbcx * (cblx * cbly * (calz * saly - caly * salx * salz)
                             - cblx * sbly * (caly * calz + salx * saly * salz)
                             + calx * salz * sblx)
                     - cbcx * cbcz
                         * ((caly * calz + salx * saly * salz) * (cbly * sblz - cblz * sblx * sbly)
                              + (calz * saly - caly * salx * salz)
                                  * (sbly * sblz + cbly * cblz * sblx)
                              - calx * cblx * cblz * salz)
                     + cbcx * sbcz
                         * ((caly * calz + salx * saly * salz) * (cbly * cblz + sblx * sbly * sblz)
                              + (calz * saly - caly * salx * salz)
                                  * (cblz * sbly - cbly * sblx * sblz)
                              + calx * cblx * salz * sblz);
          crzcrx = sbcx * (cblx * sbly * (caly * salz - calz * salx * saly)
                             - cblx * cbly * (saly * salz + caly * calz * salx)
                             + calx * calz * sblx)
                     + cbcx * cbcz
                         * ((saly * salz + caly * calz * salx) * (sbly * sblz + cbly * cblz * sblx)
                              + (caly * salz - calz * salx * saly)
                                  * (cbly * sblz - cblz * sblx * sbly)
                              + calx * calz * cblx * cblz)
                     - cbcx * sbcz
                         * ((saly * salz + caly * calz * salx) * (cblz * sbly - cbly * sblx * sblz)
                              + (caly * salz - calz * salx * saly)
                                  * (cbly * cblz + sblx * sbly * sblz)
                              - calx * calz * cblx * sblz);
          acz = fatan2 (fdiv srzcrx (fcos acx)) (fdiv crzcrx (fcos acx))
      in (acx, acy, acz))"

definition integrateTransformation :: "fa_state \<Rightarrow> fa_state" where
  "integrateTransformation s =
     (let ts = transformSum s;
          tc = transformCur s;
          m = imu s;
          r = AccumulateRotation (ts ! 0) (ts ! 1) (ts ! 2) (- (tc ! 0)) (- (tc ! 1)) (- (tc ! 2));
          rx = fst r; ry = fst (snd r); rz = snd (snd r);
          x1 = fcos rz * (tc ! 3 - vx (imuShiftFromStart m))
                 - fsin rz * (tc ! 4 - vy (imuShiftFromStart m));
          y1 = fsin rz * (tc ! 3 - vx (imuShiftFromStart m))
                 + fcos rz * (tc ! 4 - vy (imuShiftFromStart m));
          z1 = tc ! 5 - vz (imuShiftFromStart m);
          x2 = x1;
          y2 = fcos rx * y1 - fsin rx * z1;
          z2 = fsin rx * y1 + fcos rx * z1;
          tx = ts ! 3 - (fcos ry * x2 + fsin ry * z2);
          ty = ts ! 4 - y2;
          tz = ts ! 5 - (- fsin ry * x2 + fcos ry * z2);
          q = PluginIMURotation rx ry rz (imuPitchStart m) (imuYawStart m) (imuRollStart m)
                (imuPitchLast m) (imuYawLast m) (imuRollLast m)
      in s\<lparr>transformSum :=
             ts[0 := fst q, 1 := fst (snd q), 2 := snd (snd q), 3 := tx, 4 := ty, 5 := tz]\<rparr>)"

subsection \<open>Publication of the odometry and of the clouds of the scan\<close>

definition publishOdometry :: "environment \<Rightarrow> fa_state \<Rightarrow> fa_state" where
  "publishOdometry env s =
     (let ts = transformSum s;
          geoQuat = createQuaternionMsgFromRollPitchYaw env (ts ! 2) (- (ts ! 0)) (- (ts ! 1));
          odom = (laserOdometry s)
                   \<lparr>odom_stamp := timeScanCur s,
                    orientation := \<lparr>qx = - qy geoQuat, qy = - qz geoQuat,
                                    qz = qx geoQuat, qw = qw geoQuat\<rparr>,
                    position := \<lparr>vx = ts ! 3, vy = ts ! 4, vz = ts ! 5\<rparr>\<rparr>
      in s\<lparr>laserOdometry := odom,
           published := published s @ [OdometryMsg odom, TransformMsg odom]\<rparr>)"

definition TransformToEnd :: "'a fa_config_scheme \<Rightarrow> fa_state \<Rightarrow> point \<Rightarrow> point" where
  "TransformToEnd cfg st p =
     (let tc = transformCur st;
          m = imu st;
          s = Fin 10 * (intensity p - Fin (of_int (f2i cfg (intensity p))));
          rx = s * tc ! 0; ry = s * tc ! 1; rz = s * tc ! 2;
          tx = s * tc ! 3; ty = s * tc ! 4; tz = s * tc ! 5;
          x1 = fcos rz * (pt_x p - tx) + fsin rz * (pt_y p - ty);
          y1 = - fsin rz * (pt_x p - tx) + fcos rz * (pt_y p - ty);
          z1 = pt_z p - tz;
          x2 = x1;
          y2 = fcos rx * y1 + fsin rx * z1;
          z2 = - fsin rx * y1 + fcos rx * z1;
          x3 = fcos ry * x2 - fsin ry * z2;
          y3 = y2;
          z3 = fsin ry * x2 + fcos ry * z2;
          rx = tc ! 0; ry = tc ! 1; rz = tc ! 2;
          tx = tc ! 3; ty = tc ! 4; tz = tc ! 5;
          x4 = fcos ry * x3 + fsin ry * z3;
          y4 = y3;
          z4 = - fsin ry * x3 + fcos ry * z3;
          x5 = x4;
          y5 = fcos rx * y4 - fsin rx * z4;
          z5 = fsin rx * y4 + fcos rx * z4;
          x6 = fcos rz * x5 - fsin rz * y5 + tx;
          y6 = fsin rz * x5 + fcos rz * y5 + ty;
          z6 = z5 + tz;
          x7 = cosImuRollStart m * (x6 - vx (imuShiftFromStart m))
                 - sinImuRollStart m * (y6 - vy (imuShiftFromStart m));
          y7 = sinImuRollStart m * (x6 - vx (imuShiftFromStart m))
                 + cosImuRollStart m * (y6 - vy (imuShiftFromStart m));
          z7 = z6 - vz (imuShiftFromStart m);
          x8 = x7;
          y8 = cosImuPitchStart m * y7 - sinImuPitchStart m * z7;
          z8 = sinImuPitchStart m * y7 + cosImuPitchStart m * z7;
          x9 = cosImuYawStart m * x8 + sinImuYawStart m * z8;
          y9 = y8;
          z9 = - sinImuYawStart m * x8 + cosImuYawStart m * z8;
          x10 = fcos (imuYawLast m) * x9 - fsin (imuYawLast m) * z9;
          y10 = y9;
          z10 = fsin (imuYawLast m) * x9 + fcos (imuYawLast m) * z9;
          x11 = x10;
          y11 = fcos (imuPitchLast m) * y10 + fsin (imuPitchLast m) * z10;
          z11 = - fsin (imuPitchLast m) * y10 + fcos (imuPitchLast m) * z10
      in \<lparr>pt_x = fcos (imuRollLast m) * x11 + fsin (imuRollLast m) * y11,
          pt_y = - fsin (imuRollLast m) * x11 + fcos (imuRollLast m) * y11,
          pt_z = z11,
          intensity = Fin (of_int (f2i cfg (intensity p)))\<rparr>)"

definition adjustOutlierCloud :: "fa_state \<Rightarrow> fa_state" where
  "adjustOutlierCloud s =
     s\<lparr>outlierCloud :=
         map (\<lambda>p. \<lparr>pt_x = pt_y p, pt_y = pt_z p, pt_z = pt_x p, intensity = intensity p\<rparr>)
           (outlierCloud s)\<rparr>"

definition publishCloudsLast :: "'a fa_config_scheme \<Rightarrow> environment \<Rightarrow> fa_state \<Rightarrow> fa_state" where
  "publishCloudsLast cfg env s =
     (let s0 = s\<lparr>imu := updateImuRollPitchYawStartSinCos (imu s)\<rparr>;
          corner = map (TransformToEnd cfg s0) (cornerPointsLessSharp (features s0));
          surf = map (TransformToEnd cfg s0) (surfPointsLessFlat (features s0));
          s1 = s0\<lparr>features := (features s0)\<lparr>cornerPointsLessSharp := laserCloudCornerLast s0,
                                             surfPointsLessFlat := laserCloudSurfLast s0\<rparr>,
                  laserCloudCornerLast := corner,
                  laserCloudSurfLast := surf,
                  laserCloudCornerLastNum := int (length corner),
                  laserCloudSurfLastNum := int (length surf)\<rparr>;
          s2 = (if 10 < laserCloudCornerLastNum s1 \<and> 100 < laserCloudSurfLastNum s1
                then s1\<lparr>kdtreeCornerLast := corner, kdtreeSurfLast := surf\<rparr>
                else s1);
          s3 = adjustOutlierCloud (s2\<lparr>frameCount := frameCount s2 + 1\<rparr>)
      in if skipFrameNum s3 + 1 \<le> frameCount s3 then
           Publish env ''/laser_cloud_surf_last'' (laserCloudSurfLast s3)
             (Publish env ''/laser_cloud_corner_last'' (laserCloudCornerLast s3)
                (Publish env ''/outlier_cloud_last'' (outlierCloud s3)
                   (s3\<lparr>frameCount := 0\<rparr>)))
         else s3)"

subsection \<open>One scan\<close>

text \<open>The end of the loop body: every \<open>mappingFrequencyDivider\<close>-th scan goes to the mapping.\<close>

definition send_association :: "'a fa_config_scheme \<Rightarrow> fa_state \<Rightarrow> fa_state" where
  "send_association cfg s =
     (let s1 = s\<lparr>cycle_count := cycle_count s + 1\<rparr>
      in if cycle_count s1 = mappingFrequencyDivider cfg then
           s1\<lparr>cycle_count := 0,
              sent := sent s1 @ [\<lparr>cloud_corner_last = laserCloudCornerLast s1,
                                  cloud_surf_last = laserCloudSurfLast s1,
                                  cloud_outlier_last = outlierCloud s1,
                                  laser_odometry = laserOdometry s1\<rparr>]\<rparr>
         else s1)"

text \<open>
  The feature extraction stage of a scan: the projection received from the input channel,
  with the time stamp \<open>stamp\<close> of its header, is taken over, and the cloud is adjusted,
  rated and split into features, which are published.
\<close>

definition feature_stage ::
  "'a fa_config_scheme \<Rightarrow> library \<Rightarrow> environment \<Rightarrow> fl \<Rightarrow> ProjectionOut \<Rightarrow> fa_state
     \<Rightarrow> fa_state option" where
  "feature_stage cfg lib env stamp projection s =
     (case adjustDistortion cfg
             (s\<lparr>outlierCloud := out_outlier_cloud projection,
                features := (features s)\<lparr>segmentedCloud := out_segmented_cloud projection,
                                          segInfo := out_seg_msg projection\<rparr>,
                timeScanCur := stamp\<rparr>) of
        None \<Rightarrow> None
      | Some s1 \<Rightarrow>
          Some (publishCloud env
                  (s1\<lparr>features :=
                        extractFeatures cfg lib
                          (markOccludedPoints (calculateSmoothness (features s1)))\<rparr>)))"

text \<open>
  The body of the loop of \<open>runFeatureAssociation\<close> for one message of the input channel.
\<close>

definition runFeatureAssociation ::
  "'a fa_config_scheme \<Rightarrow> library \<Rightarrow> environment \<Rightarrow> indeterminate \<Rightarrow> fl \<Rightarrow> ProjectionOut
     \<Rightarrow> fa_state \<Rightarrow> fa_state option" where
  "runFeatureAssociation cfg lib env ind stamp projection s =
     (case feature_stage cfg lib env stamp projection s of
        None \<Rightarrow> None
      | Some s1 \<Rightarrow>
          (if \<not> systemInitedLM s1 then Some (checkSystemInitialization s1)
           else
             Some (send_association cfg
                     (publishCloudsLast cfg env
                        (publishOdometry env
                           (integrateTransformation
                              (updateTransformation lib env ind (updateInitialGuess cfg s1))))))))"




section \<open>Concrete inputs\<close>

text \<open>
  A small scanner: two rings of one column each, with angular resolutions of a right
  angle, so that the point \<open>(0, 0, 1)\<close> falls into ring 1 and column 0.
\<close>

definition demo_config :: config where
  "demo_config =
     \<lparr>N_scan = 2, horizon_scan = 1, ang_res_x = pi / 2, ang_res_y = pi / 2, ang_bottom = 0,
      groundScanInd = 1, sensorMountAngle = 0, segmentTheta = 0,
      segmentAlphaX = pi / 2, segmentAlphaY = pi / 2,
      segmentValidPointNum = 5, segmentValidLineNum = 3,
      default_intensity = Fin 0, nan_to_int = - 2147483648\<rparr>"

definition origin_point :: point where
  "origin_point = \<lparr>pt_x = Fin 0, pt_y = Fin 0, pt_z = Fin 0, intensity = Fin 0\<rparr>"

definition ip_init :: ip_state where
  "ip_init =
     \<lparr>laser_cloud_in = [], full_cloud = (\<lambda>_. origin_point),
      full_info_cloud = (\<lambda>_. origin_point),
      ground_cloud = [], segmented_cloud = [], segmented_cloud_pure = [], outlier_cloud = [],
      range_mat = (\<lambda>_. Fin 0), ground_mat = (\<lambda>_. 0), label_mat = (\<lambda>_. 0),
      label_count = 1, seg_msg = empty_cloud_info\<rparr>"

definition pt :: "real \<Rightarrow> real \<Rightarrow> real \<Rightarrow> point" where
  "pt a b c = \<lparr>pt_x = Fin a, pt_y = Fin b, pt_z = Fin c, intensity = Fin 0\<rparr>"

text \<open>
  A range image of three rings and fifteen columns in which 29 cells are still unlabelled
  and all at range 1: one cell in ring 0 and fourteen in each of the rings 1 and 2. With
  right angles as angular steps every pair of neighbouring cells passes the angle test.
\<close>

definition c29_config :: config where
  "c29_config = demo_config\<lparr>N_scan := 3, horizon_scan := 15\<rparr>"

definition c29_labels :: "int \<times> int \<Rightarrow> int" where
  "c29_labels c =
     (if c = (0, 0) \<or> ((fst c = 1 \<or> fst c = 2) \<and> 0 \<le> snd c \<and> snd c < 14) then 0 else - 1)"

definition c29_state :: ip_state where
  "c29_state = ip_init\<lparr>range_mat := (\<lambda>_. Fin 1), label_mat := c29_labels\<rparr>"

text \<open>
  A configuration of the feature association and library operations that do what the
  library does on the inputs used below: the eigenvalues of a diagonal matrix whose
  diagonal ascends are its diagonal, its eigenvectors and their inverse are the identity,
  the solution of a diagonal system divides by the diagonal where it is not zero, and an
  array that is sorted already is left as it is.
\<close>

definition demo_fa_config :: fa_config where
  "demo_fa_config =
     \<lparr>N_scan = 2, horizon_scan = 1, ang_res_x = pi / 2, ang_res_y = pi / 2, ang_bottom = 0,
      groundScanInd = 1, sensorMountAngle = 0, segmentTheta = 0,
      segmentAlphaX = pi / 2, segmentAlphaY = pi / 2,
      segmentValidPointNum = 5, segmentValidLineNum = 3,
      default_intensity = Fin 0, nan_to_int = - 2147483648,
      edgeThreshold = 0.1, surfThreshold = 0.1, scanPeriod = 0.1,
      mappingFrequencyDivider = 5, imuQueLength = 200\<rparr>"

definition identity3 :: mat where
  "identity3 = [[Fin 1, Fin 0, Fin 0], [Fin 0, Fin 1, Fin 0], [Fin 0, Fin 0, Fin 1]]"

definition demo_library :: library where
  "demo_library =
     \<lparr>solve_qr = (\<lambda>M b. map (\<lambda>i. if M ! i ! i = Fin 0 then Fin 0 else fdiv (b ! i) (M ! i ! i))
                          [0, 1, 2]),
      eigen_values = (\<lambda>M. [M ! 0 ! 0, M ! 1 ! 1, M ! 2 ! 2]),
      eigen_vectors = (\<lambda>M. identity3),
      mat_inverse = (\<lambda>M. identity3),
      sort_by_value = (\<lambda>a sp ep. a),
      voxel_filter = (\<lambda>ps. ps)\<rparr>"

text \<open>
  A segmented cloud of 40 points in which every point qualifies as a corner and no two
  neighbours are closer than 20 columns; the first sector of ring 0 holds the indices
  4 to 6.
\<close>

definition demo_features :: feature_state where
  "demo_features =
     \<lparr>segmentedCloud = map (\<lambda>k. pt (real k) 0 0) [0..<40],
      segInfo = empty_cloud_info
        \<lparr>startRingIndex := (\<lambda>_. 4), endRingIndex := (\<lambda>_. 26),
         segmentedCloudColInd := (\<lambda>k. 20 * int k)\<rparr>,
      cloudCurvature = (\<lambda>_. Fin 1),
      cloudNeighborPicked = (\<lambda>_. 0),
      cloudLabel = (\<lambda>_. 0),
      cloudSmoothness = (\<lambda>k. (Fin 1, k)),
      cornerPointsSharp = [], cornerPointsLessSharp = [],
      surfPointsFlat = [], surfPointsLessFlat = [], surfPointsLessFlatScan = []\<rparr>"

text \<open>
  Ten selected surface points at the origin whose plane normal is the second axis, with
  weight \<open>w\<close> and residual \<open>-2\<close>, at the pose estimate zero: every row of \<open>matA\<close> is
  \<open>(0, 0, w)\<close>, so that \<open>matAt * matA\<close> is diagonal with the eigenvalues \<open>0, 0, 10 w\<^sup>2\<close>.
\<close>

definition flat_coeff :: "real \<Rightarrow> point" where
  "flat_coeff w = \<lparr>pt_x = Fin 0, pt_y = Fin (- w), pt_z = Fin 0, intensity = Fin (- 2)\<rparr>"

definition flat_scene :: "real \<Rightarrow> solver_state" where
  "flat_scene w =
     \<lparr>transformCur = [Fin 0, Fin 0, Fin 0, Fin 0, Fin 0, Fin 0],
      isDegenerate = False,
      laserCloudOri = [pt 0 0 0, pt 0 0 0, pt 0 0 0, pt 0 0 0, pt 0 0 0,
                       pt 0 0 0, pt 0 0 0, pt 0 0 0, pt 0 0 0, pt 0 0 0],
      coeffSel = [flat_coeff w, flat_coeff w, flat_coeff w, flat_coeff w, flat_coeff w,
                  flat_coeff w, flat_coeff w, flat_coeff w, flat_coeff w, flat_coeff w]\<rparr>"









section \<open>Auxiliary notions for the proofs\<close>

text \<open>
  The state of the extraction loop after the first \<open>k\<close> rings: the windows recorded so far
  account for the points emitted so far and are ordered.
\<close>

definition ring_inv :: "nat \<Rightarrow> int \<Rightarrow> ip_state \<Rightarrow> ip_state \<times> int \<Rightarrow> bool" where
  "ring_inv k n0 s r = (case r of (sk, nk) \<Rightarrow>
     (\<Sum>i<k. endRingIndex (seg_msg sk) i - startRingIndex (seg_msg sk) i + 10) = nk - n0
   \<and> int (length (segmented_cloud sk)) - nk = int (length (segmented_cloud s)) - n0
   \<and> n0 \<le> nk
   \<and> (\<forall>i<k. startRingIndex (seg_msg sk) i \<le> endRingIndex (seg_msg sk) i + 10)
   \<and> (0 < k \<longrightarrow> startRingIndex (seg_msg sk) 0 = n0 + 4
                \<and> endRingIndex (seg_msg sk) (k - 1) = nk - 6)
   \<and> (\<forall>i. Suc i < k \<longrightarrow>
          startRingIndex (seg_msg sk) (Suc i) = endRingIndex (seg_msg sk) i + 10)
   \<and> label_mat sk = label_mat s)"

text \<open>
  A label matrix \<open>L'\<close> arises from \<open>L\<close> by giving the label \<open>lc\<close> to cells labelled \<open>0\<close>.
\<close>

definition grown :: "int \<Rightarrow> (int \<times> int \<Rightarrow> int) \<Rightarrow> (int \<times> int \<Rightarrow> int) \<Rightarrow> bool" where
  "grown lc L L' = (\<forall>c. L' c = L c \<or> (L c = 0 \<and> L' c = lc))"

definition zero_cells :: "config \<Rightarrow> (int \<times> int \<Rightarrow> int) \<Rightarrow> (int \<times> int) set" where
  "zero_cells cfg L =
     {c \<in> {0..<int (N_scan cfg)} \<times> {- 1..int (horizon_scan cfg)}. L c = 0}"

definition bfs_measure :: "config \<Rightarrow> bfs_state \<Rightarrow> nat" where
  "bfs_measure cfg b = 2 * card (zero_cells cfg (bfs_label b)) + length (queue b)"

definition queue_ok :: "int \<Rightarrow> bfs_state \<Rightarrow> bool" where
  "queue_ok lc b = (\<forall>c \<in> set (queue b). bfs_label b c = 0 \<or> bfs_label b c = lc)"

text \<open>
  The state \<open>s'\<close> differs from \<open>s\<close> in the label matrix and the label counter only,
  and only cells labelled \<open>0\<close> have got a new, positive label.
\<close>

definition labelled_from :: "ip_state \<Rightarrow> ip_state \<Rightarrow> bool" where
  "labelled_from s s' =
     ((\<exists>L' n'. s' = s\<lparr>label_mat := L', label_count := n'\<rparr>)
      \<and> (\<forall>c. label_mat s' c = label_mat s c \<or> (label_mat s c = 0 \<and> 0 < label_mat s' c))
      \<and> label_count s \<le> label_count s')"

text \<open>
  The condition under which \<open>groundRemoval\<close> excludes a cell from the clustering, and
  the states in which no stored point carries the intensity \<open>-1\<close> and no cell of the
  ground matrix holds \<open>-1\<close>.
\<close>

definition no_return_cond :: "ip_state \<Rightarrow> int \<times> int \<Rightarrow> bool" where
  "no_return_cond s c = (ground_mat s c = 1 \<or> feq (range_mat s c) (Fin FLT_MAX))"

definition untagged :: "ip_state \<Rightarrow> bool" where
  "untagged s = ((\<forall>k. \<not> feq (intensity (full_cloud s k)) (Fin (- 1)))
                 \<and> (\<forall>c. ground_mat s c \<noteq> - 1))"

text \<open>
  The state on which \<open>cloudHandler\<close> runs \<open>cloudSegmentation\<close>, for the segmentation
  message \<open>m\<close> that \<open>findStartEndAngle\<close> has filled in.
\<close>

definition segmentation_input :: "config \<Rightarrow> point list \<Rightarrow> cloud_info \<Rightarrow> ip_state \<Rightarrow> ip_state" where
  "segmentation_input cfg cloud m s =
     groundRemoval cfg (projectPointCloud cfg
       ((resetParameters cfg s)\<lparr>laser_cloud_in := cloud, seg_msg := m\<rparr>))"

text \<open>
  The number of distinct rings among the cells of a cluster, and the locals with which
  \<open>labelComponents\<close> enters its loop for the seed cell \<open>c\<close>.
\<close>

definition rows_touched :: "bfs_state \<Rightarrow> nat" where
  "rows_touched b = length (remdups (map fst (all_pushed b)))"

definition seed_state :: "config \<Rightarrow> int \<times> int \<Rightarrow> ip_state \<Rightarrow> bfs_state" where
  "seed_state cfg c s =
     \<lparr>queue = cb_push (N_scan cfg * horizon_scan cfg) c [],
      all_pushed = cb_push (N_scan cfg * horizon_scan cfg) c [],
      lineCountFlag = (\<lambda>_. False),
      bfs_label = label_mat s\<rparr>"

text \<open>
  What the corner loop and the surface loop of a sector have done between the states \<open>s\<close>
  and \<open>s'\<close>, when they start with the counter \<open>n\<close> and pick the points with the indices
  \<open>inds\<close>, in this order.
\<close>

definition corners_picked :: "int \<Rightarrow> feature_state \<Rightarrow> feature_state \<Rightarrow> int list \<Rightarrow> bool" where
  "corners_picked n s s' inds =
     (cornerPointsLessSharp s' = cornerPointsLessSharp s @ map (cloud_point s) inds
      \<and> cornerPointsSharp s' = cornerPointsSharp s @ map (cloud_point s) (take (2 - nat n) inds)
      \<and> length inds \<le> nat (20 - n)
      \<and> (\<forall>m<length inds. cloudNeighborPicked s (inds ! m) = 0
            \<and> cloudNeighborPicked s' (inds ! m) \<noteq> 0
            \<and> cloudLabel s' (inds ! m) = (if n + int m < 2 then 2 else 1))
      \<and> (\<forall>x. cloudNeighborPicked s x \<noteq> 0 \<longrightarrow>
            cloudNeighborPicked s' x \<noteq> 0 \<and> cloudLabel s' x = cloudLabel s x)
      \<and> segmentedCloud s' = segmentedCloud s \<and> segInfo s' = segInfo s
      \<and> surfPointsFlat s' = surfPointsFlat s
      \<and> surfPointsLessFlat s' = surfPointsLessFlat s
      \<and> surfPointsLessFlatScan s' = surfPointsLessFlatScan s)"

definition flats_picked :: "int \<Rightarrow> feature_state \<Rightarrow> feature_state \<Rightarrow> int list \<Rightarrow> bool" where
  "flats_picked n s s' inds =
     (surfPointsFlat s' = surfPointsFlat s @ map (cloud_point s) inds
      \<and> length inds \<le> nat (4 - n)
      \<and> (\<forall>x. cloudNeighborPicked s x \<noteq> 0 \<longrightarrow>
            cloudNeighborPicked s' x \<noteq> 0 \<and> cloudLabel s' x = cloudLabel s x)
      \<and> segmentedCloud s' = segmentedCloud s \<and> segInfo s' = segInfo s
      \<and> cornerPointsSharp s' = cornerPointsSharp s
      \<and> cornerPointsLessSharp s' = cornerPointsLessSharp s)"

text \<open>
  The matrix \<open>matA\<close> and the vector \<open>matB\<close> that the two solvers assemble from the selected
  points, and the three additions with which they apply a solution to \<open>transformCur\<close>.
\<close>

definition matA_surf :: "'a solver_state_scheme \<Rightarrow> mat" where
  "matA_surf s = map (\<lambda>(p, c). fst (surf_row (transformCur s) p c))
                   (zip (laserCloudOri s) (coeffSel s))"

definition matB_surf :: "'a solver_state_scheme \<Rightarrow> vec" where
  "matB_surf s = map (\<lambda>(p, c). snd (surf_row (transformCur s) p c))
                   (zip (laserCloudOri s) (coeffSel s))"

definition matA_corner :: "'a solver_state_scheme \<Rightarrow> mat" where
  "matA_corner s = map (\<lambda>(p, c). fst (corner_row (transformCur s) p c))
                   (zip (laserCloudOri s) (coeffSel s))"

definition matB_corner :: "'a solver_state_scheme \<Rightarrow> vec" where
  "matB_corner s = map (\<lambda>(p, c). snd (corner_row (transformCur s) p c))
                   (zip (laserCloudOri s) (coeffSel s))"

definition apply_surf_update :: "vec \<Rightarrow> vec \<Rightarrow> vec" where
  "apply_surf_update t x =
     (let t1 = t[0 := t ! 0 + x ! 0]; t2 = t1[2 := t1 ! 2 + x ! 1]
      in t2[4 := t2 ! 4 + x ! 2])"

definition apply_corner_update :: "vec \<Rightarrow> vec \<Rightarrow> vec" where
  "apply_corner_update t x =
     (let t1 = t[1 := t ! 1 + x ! 0]; t2 = t1[3 := t1 ! 3 + x ! 1]
      in t2[5 := t2 ! 5 + x ! 2])"

text \<open>
  The pointers into the queue of inertial measurements are within the queue; \<open>- 1\<close> is the
  value of \<open>imuPointerLast\<close> before the first measurement.
\<close>

definition imu_ok :: "'a fa_config_scheme \<Rightarrow> imu_state \<Rightarrow> bool" where
  "imu_ok cfg m =
     (0 < imuQueLength cfg \<and>
      - 1 \<le> imuPointerLastIteration m \<and> imuPointerLastIteration m < imuQueLength cfg \<and>
      - 1 \<le> imuPointerLast m \<and> imuPointerLast m < imuQueLength cfg)"

text \<open>
  \<open>solver_frame s s'\<close>: the state \<open>s'\<close> differs from \<open>s\<close> at most in the pose increment, the
  degeneracy flag, the selected points with their coefficients and the search indices.
\<close>

definition solver_frame :: "fa_state \<Rightarrow> fa_state \<Rightarrow> bool" where
  "solver_frame s s' =
     (s' = s\<lparr>transformCur := transformCur s', isDegenerate := isDegenerate s',
              laserCloudOri := laserCloudOri s', coeffSel := coeffSel s',
              search := search s'\<rparr>)"












section \<open>The ring windows of the segmented cloud\<close>

lemma emit_cell_frame:
  assumes "emit_cell cfg i j (s, n) = (s', n')"
  shows "startRingIndex (seg_msg s') = startRingIndex (seg_msg s)"
    and "endRingIndex (seg_msg s') = endRingIndex (seg_msg s)"
    and "int (length (segmented_cloud s')) - n' = int (length (segmented_cloud s)) - n"
    and "n \<le> n'"
    and "label_mat s' = label_mat s"
  using assms by (auto simp: emit_cell_def split: if_splits)

lemma emit_cells_frame:
  assumes "fold (emit_cell cfg i) js (s, n) = (s', n')"
  shows "startRingIndex (seg_msg s') = startRingIndex (seg_msg s)
       \<and> endRingIndex (seg_msg s') = endRingIndex (seg_msg s)
       \<and> int (length (segmented_cloud s')) - n' = int (length (segmented_cloud s)) - n
       \<and> n \<le> n' \<and> label_mat s' = label_mat s"
  using assms
proof (induction js arbitrary: s n)
  case Nil
  then show ?case by simp
next
  case (Cons j js)
  obtain s1 n1 where e: "emit_cell cfg i j (s, n) = (s1, n1)" by (cases "emit_cell cfg i j (s, n)")
  from Cons.prems e have "fold (emit_cell cfg i) js (s1, n1) = (s', n')" by simp
  from Cons.IH[OF this] emit_cell_frame[OF e] show ?case by simp
qed

lemma emit_ring_frame:
  assumes "emit_ring cfg i (s, n) = (s', n')"
  shows "startRingIndex (seg_msg s') = (startRingIndex (seg_msg s)) (i := n - 1 + 5)"
    and "endRingIndex (seg_msg s') = (endRingIndex (seg_msg s)) (i := n' - 1 - 5)"
    and "int (length (segmented_cloud s')) - n' = int (length (segmented_cloud s)) - n"
    and "n \<le> n'"
    and "label_mat s' = label_mat s"
proof -
  let ?s1 = "s\<lparr>seg_msg := (seg_msg s)
                 \<lparr>startRingIndex := (startRingIndex (seg_msg s)) (i := n - 1 + 5)\<rparr>\<rparr>"
  obtain s2 n2 where f: "fold (emit_cell cfg i) [0..<horizon_scan cfg] (?s1, n) = (s2, n2)"
    by (cases "fold (emit_cell cfg i) [0..<horizon_scan cfg] (?s1, n)")
  from assms f have s': "s' = s2\<lparr>seg_msg := (seg_msg s2)
              \<lparr>endRingIndex := (endRingIndex (seg_msg s2)) (i := n2 - 1 - 5)\<rparr>\<rparr>" and n': "n' = n2"
    by (auto simp: emit_ring_def Let_def)
  note fr = emit_cells_frame[OF f]
  show "startRingIndex (seg_msg s') = (startRingIndex (seg_msg s)) (i := n - 1 + 5)"
    using fr s' by simp
  show "endRingIndex (seg_msg s') = (endRingIndex (seg_msg s)) (i := n' - 1 - 5)"
    using fr s' n' by simp
  show "int (length (segmented_cloud s')) - n' = int (length (segmented_cloud s)) - n"
    using fr s' n' by simp
  show "n \<le> n'" using fr n' by simp
  show "label_mat s' = label_mat s" using fr s' by simp
qed

lemma emit_rings_inv: "ring_inv k n0 s (fold (emit_ring cfg) [0..<k] (s, n0))"
proof (induction k)
  case 0
  then show ?case by (simp add: ring_inv_def)
next
  case (Suc k)
  obtain sk nk where f: "fold (emit_ring cfg) [0..<k] (s, n0) = (sk, nk)"
    by (cases "fold (emit_ring cfg) [0..<k] (s, n0)")
  obtain s' n' where e: "emit_ring cfg k (sk, nk) = (s', n')"
    by (cases "emit_ring cfg k (sk, nk)")
  note fr = emit_ring_frame[OF e]
  from Suc f have inv: "ring_inv k n0 s (sk, nk)" by simp
  have k0: "nk = n0" if "k = 0" using f that by simp
  have st: "\<And>i. i < k \<Longrightarrow> startRingIndex (seg_msg s') i = startRingIndex (seg_msg sk) i"
    and en: "\<And>i. i < k \<Longrightarrow> endRingIndex (seg_msg s') i = endRingIndex (seg_msg sk) i"
    and stk: "startRingIndex (seg_msg s') k = nk + 4"
    and enk: "endRingIndex (seg_msg s') k = n' - 6"
    using fr by simp_all
  have sum: "(\<Sum>i<k. endRingIndex (seg_msg s') i - startRingIndex (seg_msg s') i + 10) = nk - n0"
    using inv st en by (simp add: ring_inv_def)
  have win: "startRingIndex (seg_msg s') i \<le> endRingIndex (seg_msg s') i + 10"
    if "i < Suc k" for i
  proof (cases "i < k")
    case True
    then show ?thesis using inv st en by (simp add: ring_inv_def)
  next
    case False
    with that have "i = k" by simp
    then show ?thesis using stk enk fr(4) by simp
  qed
  have first: "startRingIndex (seg_msg s') 0 = n0 + 4"
  proof (cases "k = 0")
    case True
    then show ?thesis using stk k0 by simp
  next
    case False
    then show ?thesis using inv st[of 0] by (simp add: ring_inv_def)
  qed
  have adj: "startRingIndex (seg_msg s') (Suc i) = endRingIndex (seg_msg s') i + 10"
    if "Suc i < Suc k" for i
  proof (cases "Suc i < k")
    case True
    then show ?thesis using inv st en by (simp add: ring_inv_def)
  next
    case False
    with that have ik: "Suc i = k" by simp
    then have "endRingIndex (seg_msg sk) i = nk - 6"
      using inv by (auto simp: ring_inv_def)
    then show ?thesis using ik en[of i] stk by simp
  qed
  have "ring_inv (Suc k) n0 s (s', n')"
    unfolding ring_inv_def using sum stk enk fr(3,4,5) inv win first adj
    by (simp add: ring_inv_def)
  then show ?case using f e by simp
qed

section \<open>The clustering loop ends and only labels unlabelled cells\<close>

lemma grown_refl: "grown lc L L"
  by (simp add: grown_def)

lemma grown_trans: "grown lc L L' \<Longrightarrow> grown lc L' L'' \<Longrightarrow> grown lc L L''"
  unfolding grown_def by metis

lemma set_cb_push: "set (cb_push cap v xs) \<subseteq> insert v (set xs)"
  by (cases xs) (auto simp: cb_push_def)

lemma length_cb_push: "length (cb_push cap v xs) \<le> Suc (length xs)"
  by (simp add: cb_push_def)

lemma finite_zero_cells: "finite (zero_cells cfg L)"
  by (simp add: zero_cells_def)

lemma zero_cells_upd:
  assumes "lc \<noteq> 0"
  shows "zero_cells cfg (L (p := lc)) = zero_cells cfg L - {p}"
  using assms by (auto simp: zero_cells_def)

lemma card_zero_cells_upd:
  assumes "lc \<noteq> 0"
  shows "card (zero_cells cfg (L (p := lc))) \<le> card (zero_cells cfg L)"
  using assms by (simp add: zero_cells_upd card_Diff1_le)

lemma card_zero_cells_push:
  assumes "lc \<noteq> 0" "p \<in> zero_cells cfg L"
  shows "Suc (card (zero_cells cfg (L (p := lc)))) \<le> card (zero_cells cfg L)"
  using card_Diff1_less[OF finite_zero_cells assms(2)]
  by (simp add: zero_cells_upd[OF assms(1)])

lemma visit_neighbor_cases:
  "visit_neighbor cfg rm lc f it b = b \<or>
   (\<exists>p. p \<in> zero_cells cfg (bfs_label b) \<and>
     visit_neighbor cfg rm lc f it b =
       b\<lparr>queue := cb_push (N_scan cfg * horizon_scan cfg) p (queue b),
         bfs_label := (bfs_label b) (p := lc),
         lineCountFlag := (lineCountFlag b) (nat (fst p) := True),
         all_pushed := cb_push (N_scan cfg * horizon_scan cfg) p (all_pushed b)\<rparr>)"
proof -
  define X where "X = fst f + fst it"
  define Y1 where "Y1 = (if snd f + snd it < 0 then int (horizon_scan cfg) - 1
                         else snd f + snd it)"
  define Y where "Y = (if int (horizon_scan cfg) \<le> Y1 then 0 else Y1)"
  have rng: "- 1 \<le> Y \<and> Y \<le> int (horizon_scan cfg)"
    by (auto simp: Y_def Y1_def)
  have "visit_neighbor cfg rm lc f it b = b \<or>
        (0 \<le> X \<and> X < int (N_scan cfg) \<and> bfs_label b (X, Y) = 0 \<and>
         visit_neighbor cfg rm lc f it b =
           b\<lparr>queue := cb_push (N_scan cfg * horizon_scan cfg) (X, Y) (queue b),
             bfs_label := (bfs_label b) ((X, Y) := lc),
             lineCountFlag := (lineCountFlag b) (nat X := True),
             all_pushed := cb_push (N_scan cfg * horizon_scan cfg) (X, Y) (all_pushed b)\<rparr>)"
    unfolding visit_neighbor_def Let_def X_def Y_def Y1_def by simp
  moreover have "(X, Y) \<in> zero_cells cfg (bfs_label b)"
    if "0 \<le> X" "X < int (N_scan cfg)" "bfs_label b (X, Y) = 0"
    using that rng by (simp add: zero_cells_def)
  ultimately show ?thesis by (metis fst_conv)
qed

lemma visit_neighbor_measure:
  assumes "lc \<noteq> 0"
  shows "bfs_measure cfg (visit_neighbor cfg rm lc f it b) \<le> bfs_measure cfg b"
proof -
  consider "visit_neighbor cfg rm lc f it b = b"
    | p where "p \<in> zero_cells cfg (bfs_label b)"
        "visit_neighbor cfg rm lc f it b =
           b\<lparr>queue := cb_push (N_scan cfg * horizon_scan cfg) p (queue b),
             bfs_label := (bfs_label b) (p := lc),
             lineCountFlag := (lineCountFlag b) (nat (fst p) := True),
             all_pushed := cb_push (N_scan cfg * horizon_scan cfg) p (all_pushed b)\<rparr>"
    using visit_neighbor_cases[of cfg rm lc f it b] by blast
  then show ?thesis
  proof cases
    case 1
    then show ?thesis by simp
  next
    case 2
    from card_zero_cells_push[OF assms 2(1)]
      length_cb_push[of "N_scan cfg * horizon_scan cfg" p "queue b"]
    show ?thesis by (simp add: 2(2) bfs_measure_def)
  qed
qed

lemma visit_neighbor_grown:
  "grown lc (bfs_label b) (bfs_label (visit_neighbor cfg rm lc f it b))"
  using visit_neighbor_cases[of cfg rm lc f it b]
proof (elim disjE exE conjE)
  assume "visit_neighbor cfg rm lc f it b = b"
  then show ?thesis by (simp add: grown_refl)
next
  fix p
  assume "p \<in> zero_cells cfg (bfs_label b)"
    and e: "visit_neighbor cfg rm lc f it b =
       b\<lparr>queue := cb_push (N_scan cfg * horizon_scan cfg) p (queue b),
         bfs_label := (bfs_label b) (p := lc),
         lineCountFlag := (lineCountFlag b) (nat (fst p) := True),
         all_pushed := cb_push (N_scan cfg * horizon_scan cfg) p (all_pushed b)\<rparr>"
  then have "bfs_label b p = 0" by (simp add: zero_cells_def)
  then show ?thesis by (simp add: e grown_def)
qed

lemma visit_neighbor_pushed:
  "set (all_pushed (visit_neighbor cfg rm lc f it b))
     \<subseteq> set (all_pushed b) \<union> {c. bfs_label b c = 0}"
  using visit_neighbor_cases[of cfg rm lc f it b]
proof (elim disjE exE conjE)
  assume "visit_neighbor cfg rm lc f it b = b"
  then show ?thesis by auto
next
  fix p
  assume "p \<in> zero_cells cfg (bfs_label b)"
    and e: "visit_neighbor cfg rm lc f it b =
       b\<lparr>queue := cb_push (N_scan cfg * horizon_scan cfg) p (queue b),
         bfs_label := (bfs_label b) (p := lc),
         lineCountFlag := (lineCountFlag b) (nat (fst p) := True),
         all_pushed := cb_push (N_scan cfg * horizon_scan cfg) p (all_pushed b)\<rparr>"
  then have "bfs_label b p = 0" by (simp add: zero_cells_def)
  then show ?thesis
    using set_cb_push[of "N_scan cfg * horizon_scan cfg" p "all_pushed b"]
    by (auto simp: e)
qed

lemma visit_neighbor_queue_ok:
  assumes "queue_ok lc b"
  shows "queue_ok lc (visit_neighbor cfg rm lc f it b)"
  using visit_neighbor_cases[of cfg rm lc f it b]
proof (elim disjE exE conjE)
  assume "visit_neighbor cfg rm lc f it b = b"
  then show ?thesis using assms by simp
next
  fix p
  assume "p \<in> zero_cells cfg (bfs_label b)"
    and e: "visit_neighbor cfg rm lc f it b =
       b\<lparr>queue := cb_push (N_scan cfg * horizon_scan cfg) p (queue b),
         bfs_label := (bfs_label b) (p := lc),
         lineCountFlag := (lineCountFlag b) (nat (fst p) := True),
         all_pushed := cb_push (N_scan cfg * horizon_scan cfg) p (all_pushed b)\<rparr>"
  show ?thesis
    using set_cb_push[of "N_scan cfg * horizon_scan cfg" p "queue b"] assms
    by (auto simp: e queue_ok_def)
qed

lemma grown_zero: "grown lc L L' \<Longrightarrow> L' c = 0 \<Longrightarrow> L c = 0"
  unfolding grown_def by metis

lemma visits_inv:
  assumes "lc \<noteq> 0" "queue_ok lc b"
  shows "bfs_measure cfg (fold (visit_neighbor cfg rm lc f) its b) \<le> bfs_measure cfg b
       \<and> grown lc (bfs_label b) (bfs_label (fold (visit_neighbor cfg rm lc f) its b))
       \<and> set (all_pushed (fold (visit_neighbor cfg rm lc f) its b))
           \<subseteq> set (all_pushed b) \<union> {c. bfs_label b c = 0}
       \<and> queue_ok lc (fold (visit_neighbor cfg rm lc f) its b)"
  using assms(2)
proof (induction its arbitrary: b)
  case Nil
  then show ?case by (simp add: grown_refl)
next
  case (Cons it its)
  let ?b1 = "visit_neighbor cfg rm lc f it b"
  have q1: "queue_ok lc ?b1" using Cons.prems by (rule visit_neighbor_queue_ok)
  note ih = Cons.IH[OF q1]
  have g1: "grown lc (bfs_label b) (bfs_label ?b1)" by (rule visit_neighbor_grown)
  have "set (all_pushed (fold (visit_neighbor cfg rm lc f) its ?b1))
          \<subseteq> set (all_pushed b) \<union> {c. bfs_label b c = 0}"
    using ih visit_neighbor_pushed[of cfg rm lc f it b] grown_zero[OF g1] by blast
  moreover have "bfs_measure cfg (fold (visit_neighbor cfg rm lc f) its ?b1) \<le> bfs_measure cfg b"
    using ih visit_neighbor_measure[OF assms(1), of cfg rm f it b] by linarith
  moreover have "grown lc (bfs_label b) (bfs_label (fold (visit_neighbor cfg rm lc f) its ?b1))"
    using ih g1 grown_trans by blast
  ultimately show ?case using ih by simp
qed

lemma bfs_loop_total:
  assumes "lc \<noteq> 0" "queue_ok lc b"
  shows "\<exists>b'. bfs_loop cfg rm lc b = Some b'
           \<and> grown lc (bfs_label b) (bfs_label b')
           \<and> set (all_pushed b') \<subseteq> set (all_pushed b) \<union> {c. bfs_label b c = 0}
           \<and> (\<forall>f rest. queue b = f # rest \<longrightarrow> bfs_label b' f = lc)"
  using assms(2)
proof (induction "bfs_measure cfg b" arbitrary: b rule: less_induct)
  case less
  show ?case
  proof (cases "queue b")
    case Nil
    then show ?thesis by (subst bfs_loop.simps) (simp add: grown_refl)
  next
    case (Cons f rest)
    let ?b0 = "b\<lparr>queue := rest, bfs_label := (bfs_label b) (f := lc)\<rparr>"
    let ?b1 = "fold (visit_neighbor cfg rm lc f) neighborIterator ?b0"
    have fl: "bfs_label b f = 0 \<or> bfs_label b f = lc"
      using less.prems Cons by (simp add: queue_ok_def)
    have q0: "queue_ok lc ?b0"
      using less.prems Cons by (auto simp: queue_ok_def)
    have g0: "grown lc (bfs_label b) (bfs_label ?b0)"
      using fl by (auto simp: grown_def)
    have m0: "bfs_measure cfg ?b0 < bfs_measure cfg b"
      using card_zero_cells_upd[OF assms(1), of cfg "bfs_label b" f] Cons
      by (simp add: bfs_measure_def)
    note v = visits_inv[OF assms(1) q0, of cfg rm f neighborIterator]
    from v m0 have m1: "bfs_measure cfg ?b1 < bfs_measure cfg b" by linarith
    from v have q1: "queue_ok lc ?b1" by simp
    from less.hyps[OF m1 q1] obtain b' where
      r: "bfs_loop cfg rm lc ?b1 = Some b'"
      and g: "grown lc (bfs_label ?b1) (bfs_label b')"
      and p: "set (all_pushed b') \<subseteq> set (all_pushed ?b1) \<union> {c. bfs_label ?b1 c = 0}"
      by blast
    have e: "bfs_loop cfg rm lc b = Some b'"
      by (subst bfs_loop.simps) (simp add: Cons r)
    have g01: "grown lc (bfs_label ?b0) (bfs_label ?b1)" using v by simp
    have gb: "grown lc (bfs_label b) (bfs_label b')"
      using g0 g01 g grown_trans by blast
    have "bfs_label ?b0 f = lc" by simp
    with g01 g assms(1) have lf: "bfs_label b' f = lc"
      unfolding grown_def by metis
    have z: "\<And>c. bfs_label ?b1 c = 0 \<Longrightarrow> bfs_label b c = 0"
      using grown_zero[OF g01] grown_zero[OF g0] by blast
    have z0: "\<And>c. bfs_label ?b0 c = 0 \<Longrightarrow> bfs_label b c = 0"
      using grown_zero[OF g0] by blast
    have "set (all_pushed ?b1) \<subseteq> set (all_pushed b) \<union> {c. bfs_label b c = 0}"
      using v z0 by auto
    with p z have pb: "set (all_pushed b') \<subseteq> set (all_pushed b) \<union> {c. bfs_label b c = 0}"
      by blast
    show ?thesis using e gb pb lf Cons by simp
  qed
qed

lemma fold_relabel:
  "fold (\<lambda>c L. L (c := v)) cs L c' = (if c' \<in> set cs then v else L c')"
  by (induction cs arbitrary: L) auto

lemma labelComponents_total:
  assumes lc: "0 < label_count s"
    and z: "label_mat s (row, col) = 0"
    and cap: "0 < N_scan cfg * horizon_scan cfg"
  shows "\<exists>L' n'. labelComponents cfg row col s = Some (s\<lparr>label_mat := L', label_count := n'\<rparr>)
           \<and> (\<forall>c. L' c = label_mat s c \<or>
                    (label_mat s c = 0 \<and> (L' c = 999999 \<or> L' c = label_count s)))
           \<and> L' (row, col) \<noteq> 0
           \<and> label_count s \<le> n' \<and> n' \<le> label_count s + 1"
proof -
  let ?cap = "N_scan cfg * horizon_scan cfg"
  let ?b0 = "\<lparr>queue = cb_push ?cap (row, col) [],
              all_pushed = cb_push ?cap (row, col) [],
              lineCountFlag = (\<lambda>_. False),
              bfs_label = label_mat s\<rparr>"
  have c1: "cb_push ?cap (row, col) [] = [(row, col)]"
    using cap by (simp add: cb_push_def)
  have lc0: "label_count s \<noteq> 0" using lc by simp
  have q: "queue_ok (label_count s) ?b0"
    using z by (simp add: queue_ok_def c1)
  from bfs_loop_total[OF lc0 q, of cfg "range_mat s"] obtain b' where
    r: "bfs_loop cfg (range_mat s) (label_count s) ?b0 = Some b'"
    and g: "grown (label_count s) (label_mat s) (bfs_label b')"
    and p: "set (all_pushed b') \<subseteq> {(row, col)} \<union> {c. label_mat s c = 0}"
    and f: "bfs_label b' (row, col) = label_count s"
    by (auto simp: c1)
  from p z have pz: "\<And>c. c \<in> set (all_pushed b') \<Longrightarrow> label_mat s c = 0" by auto
  show ?thesis
  proof (cases "feasibleSegment cfg b'")
    case True
    then have "labelComponents cfg row col s =
        Some (s\<lparr>label_mat := bfs_label b', label_count := label_count s + 1\<rparr>)"
      using r by (simp add: labelComponents_def Let_def)
    moreover have "\<forall>c. bfs_label b' c = label_mat s c \<or>
         (label_mat s c = 0 \<and> (bfs_label b' c = 999999 \<or> bfs_label b' c = label_count s))"
      using g unfolding grown_def by blast
    ultimately show ?thesis using f lc0
      by - (rule exI[of _ "bfs_label b'"], rule exI[of _ "label_count s + 1"], simp)
  next
    case False
    let ?L = "fold (\<lambda>c L. L (c := 999999)) (all_pushed b') (bfs_label b')"
    from False have "labelComponents cfg row col s =
        Some (s\<lparr>label_mat := ?L, label_count := label_count s\<rparr>)"
      using r by (simp add: labelComponents_def Let_def)
    moreover have "\<forall>c. ?L c = label_mat s c \<or>
         (label_mat s c = 0 \<and> (?L c = 999999 \<or> ?L c = label_count s))"
      using g pz unfolding grown_def fold_relabel by auto
    moreover have "?L (row, col) \<noteq> 0"
      using f lc0 by (simp add: fold_relabel)
    ultimately show ?thesis
      by - (rule exI[of _ "?L"], rule exI[of _ "label_count s"], simp)
  qed
qed

lemma labelled_from_refl: "labelled_from s s"
proof -
  have "s = s\<lparr>label_mat := label_mat s, label_count := label_count s\<rparr>" by simp
  then show ?thesis unfolding labelled_from_def by blast
qed

lemma labelled_from_trans:
  assumes "labelled_from s s1" "labelled_from s1 s2"
  shows "labelled_from s s2"
proof -
  from assms obtain L1 n1 L2 n2 where
    e1: "s1 = s\<lparr>label_mat := L1, label_count := n1\<rparr>"
    and e2: "s2 = s1\<lparr>label_mat := L2, label_count := n2\<rparr>"
    unfolding labelled_from_def by blast
  then have "s2 = s\<lparr>label_mat := L2, label_count := n2\<rparr>" by simp
  moreover have "\<forall>c. label_mat s2 c = label_mat s c \<or> (label_mat s c = 0 \<and> 0 < label_mat s2 c)"
    using assms unfolding labelled_from_def by (metis less_irrefl)
  moreover have "label_count s \<le> label_count s2"
    using assms unfolding labelled_from_def by linarith
  ultimately show ?thesis unfolding labelled_from_def by blast
qed

lemma label_cells_total:
  assumes "0 < label_count s"
    and "\<forall>c \<in> set cs. fst c < N_scan cfg \<and> snd c < horizon_scan cfg"
  shows "\<exists>s'. label_cells cfg cs s = Some s' \<and> labelled_from s s'
           \<and> (\<forall>c \<in> set cs. label_mat s' (int (fst c), int (snd c)) \<noteq> 0)"
  using assms
proof (induction cs arbitrary: s)
  case Nil
  then show ?case by (simp add: labelled_from_refl)
next
  case (Cons c cs)
  obtain i j where c: "c = (i, j)" by (cases c)
  from Cons.prems(2) c have ij: "i < N_scan cfg" "j < horizon_scan cfg" by simp_all
  then have cap: "0 < N_scan cfg * horizon_scan cfg" by simp
  from Cons.prems(2) have rest: "\<forall>c \<in> set cs. fst c < N_scan cfg \<and> snd c < horizon_scan cfg"
    by simp
  show ?case
  proof (cases "label_mat s (int i, int j) = 0")
    case True
    from labelComponents_total[OF Cons.prems(1) True cap] obtain L' n' where
      e: "labelComponents cfg (int i) (int j) s = Some (s\<lparr>label_mat := L', label_count := n'\<rparr>)"
      and l: "\<forall>c. L' c = label_mat s c \<or>
                    (label_mat s c = 0 \<and> (L' c = 999999 \<or> L' c = label_count s))"
      and n0: "L' (int i, int j) \<noteq> 0"
      and n: "label_count s \<le> n'"
      by blast
    let ?s1 = "s\<lparr>label_mat := L', label_count := n'\<rparr>"
    have lf: "labelled_from s ?s1"
      unfolding labelled_from_def using l n Cons.prems(1) by force
    have "0 < label_count ?s1" using n Cons.prems(1) by simp
    from Cons.IH[OF this rest] obtain s' where
      r: "label_cells cfg cs ?s1 = Some s'" and lf': "labelled_from ?s1 s'"
      and nz: "\<forall>c \<in> set cs. label_mat s' (int (fst c), int (snd c)) \<noteq> 0"
      by blast
    have "label_mat s' (int i, int j) \<noteq> 0"
      using lf' n0 unfolding labelled_from_def by (metis ip_state.select_convs(10) ip_state.surjective ip_state.update_convs(10,11) less_irrefl)
    then show ?thesis
      using True e r nz c labelled_from_trans[OF lf lf'] by simp
  next
    case False
    from Cons.IH[OF Cons.prems(1) rest] obtain s' where
      r: "label_cells cfg cs s = Some s'" and lf': "labelled_from s s'"
      and nz: "\<forall>c \<in> set cs. label_mat s' (int (fst c), int (snd c)) \<noteq> 0"
      by blast
    have "label_mat s' (int i, int j) \<noteq> 0"
      using lf' False unfolding labelled_from_def by (metis less_irrefl)
    then show ?thesis using False r nz c lf' by simp
  qed
qed

section \<open>What cloudSegmentation leaves unchanged, and the windows it records\<close>

lemma fold_frame:
  assumes "\<And>x s. g (f x s) = g s"
  shows "g (fold f xs s) = g s"
  by (induction xs arbitrary: s) (simp_all add: assms)

lemma emit_cell_mats:
  "ground_mat (fst (emit_cell cfg i j r)) = ground_mat (fst r)"
  "range_mat (fst (emit_cell cfg i j r)) = range_mat (fst r)"
  "label_mat (fst (emit_cell cfg i j r)) = label_mat (fst r)"
  "label_count (fst (emit_cell cfg i j r)) = label_count (fst r)"
  by (cases r; simp add: emit_cell_def)+

lemma emit_ring_mats:
  "ground_mat (fst (emit_ring cfg i r)) = ground_mat (fst r)"
  "range_mat (fst (emit_ring cfg i r)) = range_mat (fst r)"
  "label_mat (fst (emit_ring cfg i r)) = label_mat (fst r)"
  "label_count (fst (emit_ring cfg i r)) = label_count (fst r)"
  by (cases r;
      simp add: emit_ring_def Let_def split_beta
        fold_frame[where f = "emit_cell cfg i", OF emit_cell_mats(1)]
        fold_frame[where f = "emit_cell cfg i", OF emit_cell_mats(2)]
        fold_frame[where f = "emit_cell cfg i", OF emit_cell_mats(3)]
        fold_frame[where f = "emit_cell cfg i", OF emit_cell_mats(4)])+

lemma extract_segmented_mats:
  "ground_mat (fst (extract_segmented cfg s)) = ground_mat s"
  "range_mat (fst (extract_segmented cfg s)) = range_mat s"
  "label_mat (fst (extract_segmented cfg s)) = label_mat s"
  "label_count (fst (extract_segmented cfg s)) = label_count s"
  unfolding extract_segmented_def
  by (simp_all add: fold_frame[where f = "emit_ring cfg", OF emit_ring_mats(1)]
        fold_frame[where f = "emit_ring cfg", OF emit_ring_mats(2)]
        fold_frame[where f = "emit_ring cfg", OF emit_ring_mats(3)]
        fold_frame[where f = "emit_ring cfg", OF emit_ring_mats(4)])

lemma pure_cell_frame:
  "ground_mat (pure_cell cfg i j s) = ground_mat s"
  "range_mat (pure_cell cfg i j s) = range_mat s"
  "label_mat (pure_cell cfg i j s) = label_mat s"
  "label_count (pure_cell cfg i j s) = label_count s"
  "seg_msg (pure_cell cfg i j s) = seg_msg s"
  "segmented_cloud (pure_cell cfg i j s) = segmented_cloud s"
  by (simp_all add: pure_cell_def)

lemma extract_pure_frame:
  "ground_mat (extract_pure cfg s) = ground_mat s"
  "range_mat (extract_pure cfg s) = range_mat s"
  "label_mat (extract_pure cfg s) = label_mat s"
  "label_count (extract_pure cfg s) = label_count s"
  "seg_msg (extract_pure cfg s) = seg_msg s"
  "segmented_cloud (extract_pure cfg s) = segmented_cloud s"
  unfolding extract_pure_def
  by (rule fold_frame, rule fold_frame, simp add: pure_cell_frame)+

lemma labelled_from_fields:
  assumes "labelled_from s s'"
  shows "ground_mat s' = ground_mat s" "range_mat s' = range_mat s"
    "seg_msg s' = seg_msg s" "segmented_cloud s' = segmented_cloud s"
  using assms unfolding labelled_from_def by auto

lemma cloudSegmentation_post:
  assumes "0 < label_count s"
  shows "\<exists>s1. labelled_from s s1
      \<and> (\<forall>i<N_scan cfg. \<forall>j<horizon_scan cfg. label_mat s1 (int i, int j) \<noteq> 0)
      \<and> cloudSegmentation cfg s = Some (extract_pure cfg (fst (extract_segmented cfg s1)))"
proof -
  let ?cs = "List.product [0..<N_scan cfg] [0..<horizon_scan cfg]"
  have "\<forall>c \<in> set ?cs. fst c < N_scan cfg \<and> snd c < horizon_scan cfg" by auto
  from label_cells_total[OF assms this] obtain s1 where
    r: "label_cells cfg ?cs s = Some s1" and lf: "labelled_from s s1"
    and nz: "\<forall>c \<in> set ?cs. label_mat s1 (int (fst c), int (snd c)) \<noteq> 0"
    by blast
  have "\<forall>i<N_scan cfg. \<forall>j<horizon_scan cfg. label_mat s1 (int i, int j) \<noteq> 0"
  proof (intro allI impI)
    fix i j assume "i < N_scan cfg" "j < horizon_scan cfg"
    then have "(i, j) \<in> set ?cs" by simp
    with nz show "label_mat s1 (int i, int j) \<noteq> 0" by fastforce
  qed
  then show ?thesis using r lf by (auto simp: cloudSegmentation_def)
qed

lemma cloudSegmentation_windows:
  assumes "0 < label_count s"
  shows "\<exists>s'. cloudSegmentation cfg s = Some s'
      \<and> (\<Sum>i<N_scan cfg. endRingIndex (seg_msg s') i - startRingIndex (seg_msg s') i + 10)
          = int (length (segmented_cloud s')) - int (length (segmented_cloud s))
      \<and> (\<forall>i. Suc i < N_scan cfg \<longrightarrow>
            startRingIndex (seg_msg s') (Suc i) = endRingIndex (seg_msg s') i + 10
          \<and> startRingIndex (seg_msg s') i \<le> startRingIndex (seg_msg s') (Suc i)
          \<and> endRingIndex (seg_msg s') i \<le> endRingIndex (seg_msg s') (Suc i))"
proof -
  from cloudSegmentation_post[OF assms, of cfg] obtain s1 where
    lf: "labelled_from s s1"
    and r: "cloudSegmentation cfg s = Some (extract_pure cfg (fst (extract_segmented cfg s1)))"
    by blast
  obtain s2 n2 where e: "fold (emit_ring cfg) [0..<N_scan cfg] (s1, 0) = (s2, n2)"
    by (cases "fold (emit_ring cfg) [0..<N_scan cfg] (s1, 0)")
  have inv: "ring_inv (N_scan cfg) 0 s1 (s2, n2)"
    using emit_rings_inv[of "N_scan cfg" 0 s1 cfg] e by simp
  let ?s' = "extract_pure cfg s2"
  have s': "cloudSegmentation cfg s = Some ?s'"
    using r e by (simp add: extract_segmented_def)
  have sm: "seg_msg ?s' = seg_msg s2" and sc: "segmented_cloud ?s' = segmented_cloud s2"
    by (simp_all add: extract_pure_frame)
  have sc1: "segmented_cloud s1 = segmented_cloud s"
    using labelled_from_fields[OF lf] by simp
  have a: "(\<Sum>i<N_scan cfg. endRingIndex (seg_msg ?s') i - startRingIndex (seg_msg ?s') i + 10)
          = int (length (segmented_cloud ?s')) - int (length (segmented_cloud s))"
    using inv unfolding ring_inv_def sm sc sc1 by simp
  have b: "startRingIndex (seg_msg ?s') (Suc i) = endRingIndex (seg_msg ?s') i + 10
          \<and> startRingIndex (seg_msg ?s') i \<le> startRingIndex (seg_msg ?s') (Suc i)
          \<and> endRingIndex (seg_msg ?s') i \<le> endRingIndex (seg_msg ?s') (Suc i)"
    if "Suc i < N_scan cfg" for i
  proof -
    from that inv have
      1: "startRingIndex (seg_msg s2) (Suc i) = endRingIndex (seg_msg s2) i + 10"
      and 2: "startRingIndex (seg_msg s2) i \<le> endRingIndex (seg_msg s2) i + 10"
      and 3: "startRingIndex (seg_msg s2) (Suc i) \<le> endRingIndex (seg_msg s2) (Suc i) + 10"
      unfolding ring_inv_def by auto
    then show ?thesis unfolding sm by linarith
  qed
  show ?thesis using s' a b by blast
qed

section \<open>Projection and ground removal\<close>

lemma fold_invariant:
  assumes "P s" and "\<And>x s. P s \<Longrightarrow> P (f x s)"
  shows "P (fold f xs s)"
  using assms(1) by (induction xs arbitrary: s) (simp_all add: assms(2))

lemma findStartEndAngle_Inl:
  "laser_cloud_in s = [] \<Longrightarrow> findStartEndAngle s = Inl OutOfBounds"
  by (simp add: findStartEndAngle_def)

lemma findStartEndAngle_Inr:
  "laser_cloud_in s \<noteq> [] \<Longrightarrow> \<exists>m. findStartEndAngle s = Inr (s\<lparr>seg_msg := m\<rparr>)"
proof (cases "laser_cloud_in s")
  case Nil
  assume "laser_cloud_in s \<noteq> []"
  with Nil show ?thesis by simp
next
  case (Cons p ps)
  show ?thesis
    unfolding findStartEndAngle_def Let_def Cons list.case
    by (rule exI, rule refl)
qed

lemma project_point_frame:
  "label_mat (project_point cfg p s) = label_mat s"
  "label_count (project_point cfg p s) = label_count s"
  "ground_mat (project_point cfg p s) = ground_mat s"
  "segmented_cloud (project_point cfg p s) = segmented_cloud s"
  by (simp_all add: project_point_def Let_def)

lemma project_point_cases:
  "project_point cfg p s = s \<or>
   (\<exists>r c rng. 0 \<le> r \<and> 0 \<le> c \<and>
      project_point cfg p s =
        s\<lparr>range_mat := (range_mat s) ((r, c) := rng),
          full_cloud := (full_cloud s)
            (nat (c + r * int (horizon_scan cfg)) :=
               p\<lparr>intensity := Fin (real_of_int r + real_of_int c / 10000)\<rparr>),
          full_info_cloud := (full_info_cloud s)
            (nat (c + r * int (horizon_scan cfg)) :=
               p\<lparr>intensity := Fin (real_of_int r + real_of_int c / 10000),
                 intensity := rng\<rparr>)\<rparr>)"
proof -
  define rng where "rng = fsqrt (fadd (fadd (fmul (pt_x p) (pt_x p)) (fmul (pt_y p) (pt_y p)))
                              (fmul (pt_z p) (pt_z p)))"
  define r where "r = f2i cfg (fdiv (fadd (fasin (fdiv (pt_z p) rng)) (Fin (ang_bottom cfg)))
                                 (Fin (ang_res_y cfg)))"
  define c0 where "c0 = f2i cfg
                 (fadd (fl1 uminus (fl1 c_round
                          (fdiv (fsub (fatan2 (pt_x p) (pt_y p)) (Fin (pi / 2)))
                             (Fin (ang_res_x cfg)))))
                       (Fin (real (horizon_scan cfg) * 0.5)))"
  define c where "c = (if c0 < 0 \<or> int (horizon_scan cfg) \<le> c0
                            then c0 - int (horizon_scan cfg) else c0)"
  have e: "project_point cfg p s =
     (if r < 0 \<or> int (N_scan cfg) \<le> r then s
      else if c < 0 \<or> int (horizon_scan cfg) \<le> c then s
      else if flt rng (Fin 0.1) then s
      else s\<lparr>range_mat := (range_mat s) ((r, c) := rng),
          full_cloud := (full_cloud s)
            (nat (c + r * int (horizon_scan cfg)) :=
               p\<lparr>intensity := Fin (real_of_int r + real_of_int c / 10000)\<rparr>),
          full_info_cloud := (full_info_cloud s)
            (nat (c + r * int (horizon_scan cfg)) :=
               p\<lparr>intensity := Fin (real_of_int r + real_of_int c / 10000),
                 intensity := rng\<rparr>)\<rparr>)"
    unfolding project_point_def Let_def rng_def r_def c0_def c_def ..
  show ?thesis
  proof (cases "(r < 0 \<or> int (N_scan cfg) \<le> r) \<or> (c < 0 \<or> int (horizon_scan cfg) \<le> c)
                \<or> flt rng (Fin 0.1)")
    case True
    then have "project_point cfg p s = s" unfolding e by presburger
    then show ?thesis by (rule disjI1)
  next
    case False
    then have a: "\<not> (r < 0 \<or> int (N_scan cfg) \<le> r)" "\<not> (c < 0 \<or> int (horizon_scan cfg) \<le> c)"
      "\<not> flt rng (Fin 0.1)" by blast+
    then have "0 \<le> r" "0 \<le> c" by linarith+
    moreover have "project_point cfg p s = s\<lparr>range_mat := (range_mat s) ((r, c) := rng),
          full_cloud := (full_cloud s)
            (nat (c + r * int (horizon_scan cfg)) :=
               p\<lparr>intensity := Fin (real_of_int r + real_of_int c / 10000)\<rparr>),
          full_info_cloud := (full_info_cloud s)
            (nat (c + r * int (horizon_scan cfg)) :=
               p\<lparr>intensity := Fin (real_of_int r + real_of_int c / 10000),
                 intensity := rng\<rparr>)\<rparr>"
      unfolding e by (simp only: a if_False)
    ultimately show ?thesis by blast
  qed
qed

lemma project_point_untagged:
  assumes "untagged s"
  shows "untagged (project_point cfg p s)"
  using project_point_cases[of cfg p s]
proof (elim disjE exE conjE)
  assume "project_point cfg p s = s"
  then show ?thesis using assms by simp
next
  fix r c :: int and rng
  assume rc: "0 \<le> r" "0 \<le> c"
    and e: "project_point cfg p s =
        s\<lparr>range_mat := (range_mat s) ((r, c) := rng),
          full_cloud := (full_cloud s)
            (nat (c + r * int (horizon_scan cfg)) :=
               p\<lparr>intensity := Fin (real_of_int r + real_of_int c / 10000)\<rparr>),
          full_info_cloud := (full_info_cloud s)
            (nat (c + r * int (horizon_scan cfg)) :=
               p\<lparr>intensity := Fin (real_of_int r + real_of_int c / 10000),
                 intensity := rng\<rparr>)\<rparr>"
  have "0 \<le> real_of_int r + real_of_int c / 10000" using rc by simp
  then have "\<not> feq (Fin (real_of_int r + real_of_int c / 10000)) (Fin (- 1))"
    by (simp add: feq_def)
  then show ?thesis using assms unfolding e untagged_def by simp
qed

lemma projectPointCloud_frame:
  "label_mat (projectPointCloud cfg s) = label_mat s"
  "label_count (projectPointCloud cfg s) = label_count s"
  "ground_mat (projectPointCloud cfg s) = ground_mat s"
  "segmented_cloud (projectPointCloud cfg s) = segmented_cloud s"
  unfolding projectPointCloud_def
  by (rule fold_frame, simp add: project_point_frame)+

lemma projectPointCloud_untagged:
  "untagged s \<Longrightarrow> untagged (projectPointCloud cfg s)"
  unfolding projectPointCloud_def
  by (rule fold_invariant) (simp_all add: project_point_untagged)

lemma ground_cell_frame:
  "label_mat (ground_cell cfg j i s) = label_mat s"
  "label_count (ground_cell cfg j i s) = label_count s"
  "range_mat (ground_cell cfg j i s) = range_mat s"
  "segmented_cloud (ground_cell cfg j i s) = segmented_cloud s"
  by (simp_all add: ground_cell_def Let_def)

lemma ground_cell_untagged:
  "untagged s \<Longrightarrow> untagged (ground_cell cfg j i s)"
  unfolding untagged_def ground_cell_def Let_def by simp

lemma ground_marks_frame:
  "label_mat (ground_marks cfg s) = label_mat s"
  "label_count (ground_marks cfg s) = label_count s"
  "range_mat (ground_marks cfg s) = range_mat s"
  "segmented_cloud (ground_marks cfg s) = segmented_cloud s"
  unfolding ground_marks_def
  by (rule fold_frame, rule fold_frame, simp add: ground_cell_frame)+

lemma ground_marks_untagged:
  "untagged s \<Longrightarrow> untagged (ground_marks cfg s)"
  unfolding ground_marks_def
  by (rule fold_invariant, assumption, rule fold_invariant) (simp_all add: ground_cell_untagged)

lemma mark_cell_frame:
  "ground_mat (mark_cell i j s) = ground_mat s"
  "range_mat (mark_cell i j s) = range_mat s"
  "label_count (mark_cell i j s) = label_count s"
  "segmented_cloud (mark_cell i j s) = segmented_cloud s"
  "full_cloud (mark_cell i j s) = full_cloud s"
  by (simp_all add: mark_cell_def)

lemma mark_row:
  "label_mat (fold (mark_cell i) js s) c =
     (if c \<in> (\<lambda>j. (int i, int j)) ` set js \<and> no_return_cond s c then - 1 else label_mat s c)"
proof (induction js arbitrary: s)
  case Nil
  then show ?case by simp
next
  case (Cons j js)
  have "no_return_cond (mark_cell i j s) = no_return_cond s"
    by (simp add: no_return_cond_def mark_cell_frame fun_eq_iff)
  then show ?case
    by (simp add: Cons.IH) (simp add: mark_cell_def no_return_cond_def)
qed

lemma mark_row_frame:
  "ground_mat (fold (mark_cell i) js s) = ground_mat s"
  "range_mat (fold (mark_cell i) js s) = range_mat s"
  "label_count (fold (mark_cell i) js s) = label_count s"
  "segmented_cloud (fold (mark_cell i) js s) = segmented_cloud s"
  "full_cloud (fold (mark_cell i) js s) = full_cloud s"
  by (rule fold_frame, simp add: mark_cell_frame)+

lemma mark_rows:
  "label_mat (fold (\<lambda>i. fold (mark_cell i) js) is s) c =
     (if c \<in> (\<lambda>(i, j). (int i, int j)) ` (set is \<times> set js) \<and> no_return_cond s c
      then - 1 else label_mat s c)"
proof (induction "is" arbitrary: s)
  case Nil
  then show ?case by simp
next
  case (Cons i "is")
  have "no_return_cond (fold (mark_cell i) js s) = no_return_cond s"
    by (simp add: no_return_cond_def mark_row_frame fun_eq_iff)
  then show ?case
    by (simp add: Cons.IH mark_row) (auto simp: image_iff)
qed

lemma mark_rows_frame:
  "ground_mat (fold (\<lambda>i. fold (mark_cell i) js) is s) = ground_mat s"
  "range_mat (fold (\<lambda>i. fold (mark_cell i) js) is s) = range_mat s"
  "label_count (fold (\<lambda>i. fold (mark_cell i) js) is s) = label_count s"
  "segmented_cloud (fold (\<lambda>i. fold (mark_cell i) js) is s) = segmented_cloud s"
  "full_cloud (fold (\<lambda>i. fold (mark_cell i) js) is s) = full_cloud s"
  by (rule fold_frame, simp add: mark_row_frame)+

lemma ground_cloud_cell_frame:
  "ground_mat (ground_cloud_cell cfg i j s) = ground_mat s"
  "range_mat (ground_cloud_cell cfg i j s) = range_mat s"
  "label_mat (ground_cloud_cell cfg i j s) = label_mat s"
  "label_count (ground_cloud_cell cfg i j s) = label_count s"
  "segmented_cloud (ground_cloud_cell cfg i j s) = segmented_cloud s"
  by (simp_all add: ground_cloud_cell_def)

lemma ground_cloud_frame:
  "ground_mat (fold (\<lambda>i. fold (ground_cloud_cell cfg i) js) is s) = ground_mat s"
  "range_mat (fold (\<lambda>i. fold (ground_cloud_cell cfg i) js) is s) = range_mat s"
  "label_mat (fold (\<lambda>i. fold (ground_cloud_cell cfg i) js) is s) = label_mat s"
  "label_count (fold (\<lambda>i. fold (ground_cloud_cell cfg i) js) is s) = label_count s"
  "segmented_cloud (fold (\<lambda>i. fold (ground_cloud_cell cfg i) js) is s) = segmented_cloud s"
  by (rule fold_frame, rule fold_frame, simp add: ground_cloud_cell_frame)+

lemma groundRemoval_frame:
  "ground_mat (groundRemoval cfg s) = ground_mat (ground_marks cfg s)"
  "range_mat (groundRemoval cfg s) = range_mat s"
  "label_count (groundRemoval cfg s) = label_count s"
  "segmented_cloud (groundRemoval cfg s) = segmented_cloud s"
  by (simp_all only: groundRemoval_def Let_def ground_cloud_frame mark_rows_frame ground_marks_frame)

lemma groundRemoval_label:
  assumes "i < N_scan cfg" "j < horizon_scan cfg"
  shows "label_mat (groundRemoval cfg s) (int i, int j) =
     (if no_return_cond (groundRemoval cfg s) (int i, int j) then - 1
      else label_mat s (int i, int j))"
proof -
  have c: "no_return_cond (groundRemoval cfg s) = no_return_cond (ground_marks cfg s)"
    by (simp add: no_return_cond_def groundRemoval_frame ground_marks_frame fun_eq_iff)
  have m: "(int i, int j) \<in> (\<lambda>(i, j). (int i, int j)) `
             (set [0..<N_scan cfg] \<times> set [0..<horizon_scan cfg])"
    using assms by force
  have l: "label_mat (groundRemoval cfg s) =
      label_mat (fold (\<lambda>i. fold (mark_cell i) [0..<horizon_scan cfg]) [0..<N_scan cfg]
                   (ground_marks cfg s))"
    by (simp only: groundRemoval_def Let_def ground_cloud_frame)
  show ?thesis
    unfolding c l mark_rows using m by (simp only: ground_marks_frame if_True simp_thms)
qed

section \<open>One run of cloudHandler\<close>

lemma cloudHandler_empty: "cloudHandler cfg [] s = Inl OutOfBounds"
  by (simp add: cloudHandler_def findStartEndAngle_Inl)

lemma segmentation_input_facts:
  "label_count (segmentation_input cfg cloud m s) = 1"
  "segmented_cloud (segmentation_input cfg cloud m s) = []"
  by (simp_all add: segmentation_input_def groundRemoval_frame projectPointCloud_frame
        resetParameters_def)

lemma segmentation_input_label:
  assumes "i < N_scan cfg" "j < horizon_scan cfg"
  shows "label_mat (segmentation_input cfg cloud m s) (int i, int j) =
     (if no_return_cond (segmentation_input cfg cloud m s) (int i, int j) then - 1 else 0)"
  unfolding segmentation_input_def groundRemoval_label[OF assms]
  by (simp add: projectPointCloud_frame resetParameters_def)

lemma segmentation_input_untagged:
  assumes "default_intensity cfg \<noteq> Fin (- 1)"
  shows "\<forall>c. ground_mat (segmentation_input cfg cloud m s) c \<noteq> - 1"
proof -
  have "\<not> feq (default_intensity cfg) (Fin (- 1))"
    using assms by (cases "default_intensity cfg") (simp_all add: feq_def)
  then have "untagged ((resetParameters cfg s)\<lparr>laser_cloud_in := cloud, seg_msg := m\<rparr>)"
    by (simp add: untagged_def resetParameters_def nanPoint_def)
  then have "untagged (ground_marks cfg (projectPointCloud cfg
       ((resetParameters cfg s)\<lparr>laser_cloud_in := cloud, seg_msg := m\<rparr>)))"
    by (intro ground_marks_untagged projectPointCloud_untagged)
  then show ?thesis
    by (simp add: segmentation_input_def groundRemoval_frame untagged_def)
qed

lemma cloudHandler_run:
  assumes "cloud \<noteq> []"
  shows "\<exists>m s1 s5. labelled_from (segmentation_input cfg cloud m s) s1
      \<and> (\<forall>i<N_scan cfg. \<forall>j<horizon_scan cfg. label_mat s1 (int i, int j) \<noteq> 0)
      \<and> s5 = extract_pure cfg (fst (extract_segmented cfg s1))
      \<and> cloudSegmentation cfg (segmentation_input cfg cloud m s) = Some s5
      \<and> cloudHandler cfg cloud s = Inr (publishClouds s5)"
proof -
  let ?s0 = "(resetParameters cfg s)\<lparr>laser_cloud_in := cloud\<rparr>"
  have "laser_cloud_in ?s0 \<noteq> []" using assms by simp
  from findStartEndAngle_Inr[OF this] obtain m where
    f: "findStartEndAngle ?s0 = Inr (?s0\<lparr>seg_msg := m\<rparr>)" by blast
  have e: "groundRemoval cfg (projectPointCloud cfg (?s0\<lparr>seg_msg := m\<rparr>)) =
        segmentation_input cfg cloud m s"
    by (simp add: segmentation_input_def)
  have "0 < label_count (segmentation_input cfg cloud m s)"
    by (simp add: segmentation_input_facts)
  from cloudSegmentation_post[OF this, of cfg] obtain s1 where
    lf: "labelled_from (segmentation_input cfg cloud m s) s1"
    and nz: "\<forall>i<N_scan cfg. \<forall>j<horizon_scan cfg. label_mat s1 (int i, int j) \<noteq> 0"
    and r: "cloudSegmentation cfg (segmentation_input cfg cloud m s) =
              Some (extract_pure cfg (fst (extract_segmented cfg s1)))"
    by blast
  have "cloudHandler cfg cloud s = Inr (publishClouds (extract_pure cfg (fst (extract_segmented cfg s1))))"
    unfolding cloudHandler_def f by (simp add: e r)
  then show ?thesis using lf nz r by blast
qed

lemma cloudHandler_labels:
  assumes "cloud \<noteq> []"
  shows "\<exists>s' out. cloudHandler cfg cloud s = Inr (s', out)
     \<and> (\<forall>i<N_scan cfg. \<forall>j<horizon_scan cfg.
           label_mat s' (int i, int j) \<noteq> 0
         \<and> (if ground_mat s' (int i, int j) = 1 \<or> feq (range_mat s' (int i, int j)) (Fin FLT_MAX)
            then label_mat s' (int i, int j) = - 1
            else 0 < label_mat s' (int i, int j)))"
proof -
  from cloudHandler_run[OF assms, of cfg s] obtain m s1 s5 where
    lf: "labelled_from (segmentation_input cfg cloud m s) s1"
    and nz: "\<forall>i<N_scan cfg. \<forall>j<horizon_scan cfg. label_mat s1 (int i, int j) \<noteq> 0"
    and s5: "s5 = extract_pure cfg (fst (extract_segmented cfg s1))"
    and r: "cloudHandler cfg cloud s = Inr (publishClouds s5)"
    by blast
  let ?P = "segmentation_input cfg cloud m s"
  let ?s' = "fst (publishClouds s5)"
  have l: "label_mat ?s' = label_mat s1" and g: "ground_mat ?s' = ground_mat ?P"
    and rg: "range_mat ?s' = range_mat ?P"
    using labelled_from_fields[OF lf]
    by (simp_all add: publishClouds_def s5 extract_pure_frame extract_segmented_mats)
  have "label_mat s1 (int i, int j) \<noteq> 0
         \<and> (if ground_mat ?P (int i, int j) = 1 \<or> feq (range_mat ?P (int i, int j)) (Fin FLT_MAX)
            then label_mat s1 (int i, int j) = - 1
            else 0 < label_mat s1 (int i, int j))"
    if ij: "i < N_scan cfg" "j < horizon_scan cfg" for i j
  proof -
    have n: "label_mat s1 (int i, int j) \<noteq> 0" using nz ij by simp
    have p: "label_mat ?P (int i, int j) =
        (if no_return_cond ?P (int i, int j) then - 1 else 0)"
      by (rule segmentation_input_label[OF ij])
    have q: "label_mat s1 (int i, int j) = label_mat ?P (int i, int j) \<or>
             (label_mat ?P (int i, int j) = 0 \<and> 0 < label_mat s1 (int i, int j))"
      using lf unfolding labelled_from_def by blast
    show ?thesis
    proof (cases "no_return_cond ?P (int i, int j)")
      case True
      with p q have "label_mat s1 (int i, int j) = - 1" by auto
      then show ?thesis using True by (simp add: no_return_cond_def)
    next
      case False
      with p q n have "0 < label_mat s1 (int i, int j)" by auto
      then show ?thesis using False by (simp add: no_return_cond_def)
    qed
  qed
  then have "\<forall>i<N_scan cfg. \<forall>j<horizon_scan cfg.
           label_mat ?s' (int i, int j) \<noteq> 0
         \<and> (if ground_mat ?s' (int i, int j) = 1 \<or> feq (range_mat ?s' (int i, int j)) (Fin FLT_MAX)
            then label_mat ?s' (int i, int j) = - 1
            else 0 < label_mat ?s' (int i, int j))"
    unfolding l g rg by blast
  moreover have "cloudHandler cfg cloud s = Inr (?s', snd (publishClouds s5))"
    using r by simp
  ultimately show ?thesis by blast
qed

lemma cloudHandler_windows:
  assumes "cloud \<noteq> []"
  shows "\<exists>s' out. cloudHandler cfg cloud s = Inr (s', out)
      \<and> (\<Sum>i<N_scan cfg. endRingIndex (out_seg_msg out) i - startRingIndex (out_seg_msg out) i + 10)
          = int (length (out_segmented_cloud out))
      \<and> (\<forall>i. Suc i < N_scan cfg \<longrightarrow>
            startRingIndex (out_seg_msg out) (Suc i) = endRingIndex (out_seg_msg out) i + 10
          \<and> startRingIndex (out_seg_msg out) i \<le> startRingIndex (out_seg_msg out) (Suc i)
          \<and> endRingIndex (out_seg_msg out) i \<le> endRingIndex (out_seg_msg out) (Suc i))"
proof -
  from cloudHandler_run[OF assms, of cfg s] obtain m s5 where
    c: "cloudSegmentation cfg (segmentation_input cfg cloud m s) = Some s5"
    and r: "cloudHandler cfg cloud s = Inr (publishClouds s5)"
    by blast
  have "0 < label_count (segmentation_input cfg cloud m s)"
    by (simp add: segmentation_input_facts)
  from cloudSegmentation_windows[OF this, of cfg] obtain s6 where
    c6: "cloudSegmentation cfg (segmentation_input cfg cloud m s) = Some s6"
    and a: "(\<Sum>i<N_scan cfg. endRingIndex (seg_msg s6) i - startRingIndex (seg_msg s6) i + 10)
          = int (length (segmented_cloud s6))
             - int (length (segmented_cloud (segmentation_input cfg cloud m s)))"
    and b: "\<forall>i. Suc i < N_scan cfg \<longrightarrow>
            startRingIndex (seg_msg s6) (Suc i) = endRingIndex (seg_msg s6) i + 10
          \<and> startRingIndex (seg_msg s6) i \<le> startRingIndex (seg_msg s6) (Suc i)
          \<and> endRingIndex (seg_msg s6) i \<le> endRingIndex (seg_msg s6) (Suc i)"
    by blast
  from c c6 have s56: "s6 = s5" by simp
  have A: "(\<Sum>i<N_scan cfg. endRingIndex (seg_msg s5) i - startRingIndex (seg_msg s5) i + 10)
          = int (length (segmented_cloud s5))"
    using a unfolding s56 by (simp add: segmentation_input_facts)
  have B: "\<forall>i. Suc i < N_scan cfg \<longrightarrow>
            startRingIndex (seg_msg s5) (Suc i) = endRingIndex (seg_msg s5) i + 10
          \<and> startRingIndex (seg_msg s5) i \<le> startRingIndex (seg_msg s5) (Suc i)
          \<and> endRingIndex (seg_msg s5) i \<le> endRingIndex (seg_msg s5) (Suc i)"
    using b unfolding s56 .
  have o: "out_seg_msg (snd (publishClouds s5)) = seg_msg s5"
    "out_segmented_cloud (snd (publishClouds s5)) = segmented_cloud s5"
    by (simp_all add: publishClouds_def)
  show ?thesis
  proof (intro exI conjI)
    show "cloudHandler cfg cloud s = Inr (fst (publishClouds s5), snd (publishClouds s5))"
      using r by simp
    show "(\<Sum>i<N_scan cfg. endRingIndex (out_seg_msg (snd (publishClouds s5))) i
             - startRingIndex (out_seg_msg (snd (publishClouds s5))) i + 10)
          = int (length (out_segmented_cloud (snd (publishClouds s5))))"
      unfolding o by (rule A)
    show "\<forall>i. Suc i < N_scan cfg \<longrightarrow>
            startRingIndex (out_seg_msg (snd (publishClouds s5))) (Suc i)
              = endRingIndex (out_seg_msg (snd (publishClouds s5))) i + 10
          \<and> startRingIndex (out_seg_msg (snd (publishClouds s5))) i
              \<le> startRingIndex (out_seg_msg (snd (publishClouds s5))) (Suc i)
          \<and> endRingIndex (out_seg_msg (snd (publishClouds s5))) i
              \<le> endRingIndex (out_seg_msg (snd (publishClouds s5))) (Suc i)"
      unfolding o by (rule B)
  qed
qed

lemma cloudHandler_ground:
  assumes "default_intensity cfg \<noteq> Fin (- 1)" "cloud \<noteq> []"
  shows "\<exists>s' out. cloudHandler cfg cloud s = Inr (s', out) \<and> (\<forall>c. ground_mat s' c \<noteq> - 1)"
proof -
  from cloudHandler_run[OF assms(2), of cfg s] obtain m s1 s5 where
    lf: "labelled_from (segmentation_input cfg cloud m s) s1"
    and s5: "s5 = extract_pure cfg (fst (extract_segmented cfg s1))"
    and r: "cloudHandler cfg cloud s = Inr (publishClouds s5)"
    by blast
  have g: "ground_mat (fst (publishClouds s5)) = ground_mat (segmentation_input cfg cloud m s)"
    using labelled_from_fields[OF lf]
    by (simp add: publishClouds_def s5 extract_pure_frame extract_segmented_mats)
  show ?thesis
  proof (intro exI conjI)
    show "cloudHandler cfg cloud s = Inr (fst (publishClouds s5), snd (publishClouds s5))"
      using r by simp
    show "\<forall>c. ground_mat (fst (publishClouds s5)) c \<noteq> - 1"
      unfolding g by (rule segmentation_input_untagged[OF assms(1)])
  qed
qed


lemma sum_plus_11:
  "(\<Sum>i<n. g i + (11::int)) = (\<Sum>i<n. g i + 10) + int n"
  by (induction n) simp_all

lemma project_demo_point:
  "project_point demo_config (pt 0 0 1) s =
     s\<lparr>range_mat := (range_mat s) ((1, 0) := Fin 1),
       full_cloud := (full_cloud s) (1 := (pt 0 0 1)\<lparr>intensity := Fin 1\<rparr>),
       full_info_cloud := (full_info_cloud s) (1 := (pt 0 0 1)\<lparr>intensity := Fin 1\<rparr>)\<rparr>"
  by (simp add: project_point_def demo_config_def pt_def fl1_def fl2_def fadd_def fsub_def
        fmul_def fsqrt_def fdiv_def flt_def fatan2_def fasin_def atan2_def f2i_def c_round_def
        Let_def)

lemma cloudHandler_mats:
  assumes "cloud \<noteq> []"
  shows "\<exists>m s' out. cloudHandler cfg cloud s = Inr (s', out)
     \<and> range_mat s' = range_mat (projectPointCloud cfg
          ((resetParameters cfg s)\<lparr>laser_cloud_in := cloud, seg_msg := m\<rparr>))
     \<and> ground_mat s' = ground_mat (ground_marks cfg (projectPointCloud cfg
          ((resetParameters cfg s)\<lparr>laser_cloud_in := cloud, seg_msg := m\<rparr>)))"
proof -
  from cloudHandler_run[OF assms, of cfg s] obtain m s1 s5 where
    lf: "labelled_from (segmentation_input cfg cloud m s) s1"
    and s5: "s5 = extract_pure cfg (fst (extract_segmented cfg s1))"
    and r: "cloudHandler cfg cloud s = Inr (publishClouds s5)"
    by blast
  let ?R = "(resetParameters cfg s)\<lparr>laser_cloud_in := cloud, seg_msg := m\<rparr>"
  have g: "ground_mat (fst (publishClouds s5)) = ground_mat (ground_marks cfg (projectPointCloud cfg ?R))"
    and rg: "range_mat (fst (publishClouds s5)) = range_mat (projectPointCloud cfg ?R)"
    using labelled_from_fields[OF lf]
    by (simp_all add: publishClouds_def s5 extract_pure_frame extract_segmented_mats
          segmentation_input_def groundRemoval_frame)
  show ?thesis
  proof (intro exI conjI)
    show "cloudHandler cfg cloud s = Inr (fst (publishClouds s5), snd (publishClouds s5))"
      using r by simp
    show "range_mat (fst (publishClouds s5)) = range_mat (projectPointCloud cfg ?R)" by (rule rg)
    show "ground_mat (fst (publishClouds s5)) = ground_mat (ground_marks cfg (projectPointCloud cfg ?R))"
      by (rule g)
  qed
qed

lemma demo_absent_cell:
  "case cloudHandler demo_config [pt 0 0 1] ip_init of
     Inl e \<Rightarrow> False
   | Inr (s', out) \<Rightarrow> range_mat s' (0, 0) = Fin FLT_MAX \<and> ground_mat s' (0, 0) = 0"
proof -
  have "[pt 0 0 1] \<noteq> []" by simp
  from cloudHandler_mats[OF this, of demo_config ip_init] obtain m s' out where
    r: "cloudHandler demo_config [pt 0 0 1] ip_init = Inr (s', out)"
    and rg: "range_mat s' = range_mat (projectPointCloud demo_config
          ((resetParameters demo_config ip_init)\<lparr>laser_cloud_in := [pt 0 0 1], seg_msg := m\<rparr>))"
    and g: "ground_mat s' = ground_mat (ground_marks demo_config (projectPointCloud demo_config
          ((resetParameters demo_config ip_init)\<lparr>laser_cloud_in := [pt 0 0 1], seg_msg := m\<rparr>)))"
    by blast
  let ?R = "(resetParameters demo_config ip_init)\<lparr>laser_cloud_in := [pt 0 0 1], seg_msg := m\<rparr>"
  have p: "projectPointCloud demo_config ?R =
     ?R\<lparr>range_mat := (range_mat ?R) ((1, 0) := Fin 1),
       full_cloud := (full_cloud ?R) (1 := (pt 0 0 1)\<lparr>intensity := Fin 1\<rparr>),
       full_info_cloud := (full_info_cloud ?R) (1 := (pt 0 0 1)\<lparr>intensity := Fin 1\<rparr>)\<rparr>"
    by (simp add: projectPointCloud_def project_demo_point)
  have c: "N_scan demo_config = 2" "horizon_scan demo_config = 1" "groundScanInd demo_config = 1"
    "default_intensity demo_config = Fin 0"
    by (simp_all add: demo_config_def)
  have 1: "range_mat s' (0, 0) = Fin FLT_MAX"
    unfolding rg p by (simp add: resetParameters_def)
  have 2: "ground_mat s' (0, 0) = 0"
    unfolding g p
    by (simp add: ground_marks_def ground_cell_def c resetParameters_def nanPoint_def pt_def
          feq_def fsub_def fl2_def fatan2_def fle_def Let_def)
  show ?thesis using r 1 2 by simp
qed


lemma tang_unit: "tang_gt (fmul (fmin (Fin 1) (Fin 1)) (Fin 1))
     (fsub (fmax (Fin 1) (Fin 1)) (fmul (fmin (Fin 1) (Fin 1)) (Fin 0))) 0"
  by (simp add: tang_gt_def fmul_def fsub_def fmin_def fmax_def flt_def fl2_def)

lemma c29_cfg: "N_scan c29_config = 3" "horizon_scan c29_config = 15"
  "segmentAlphaX c29_config = pi / 2" "segmentAlphaY c29_config = pi / 2" "segmentTheta c29_config = 0"
  "segmentValidPointNum c29_config = 5" "segmentValidLineNum c29_config = 3"
  by (simp_all add: c29_config_def demo_config_def)

section \<open>Feature extraction: the points picked in a sector\<close>

lemma mark_forward_cases:
  "mark_forward sz col ind ls np x = np x \<or> mark_forward sz col ind ls np x = 1"
proof (induction ls arbitrary: np)
  case Nil
  then show ?case by simp
next
  case (Cons l ls)
  have u: "(np (ind + l := 1)) x = np x \<or> (np (ind + l := 1)) x = 1" by simp
  consider (skip) "mark_forward sz col ind (l # ls) np = mark_forward sz col ind ls np"
    | (stop) "mark_forward sz col ind (l # ls) np = np"
    | (mark) "mark_forward sz col ind (l # ls) np = mark_forward sz col ind ls (np (ind + l := 1))"
    by (cases "ind + l < 0 \<or> int sz \<le> ind + l";
        cases "10 < \<bar>col (nat (ind + l)) - col (nat (ind + l - 1))\<bar>") auto
  then show ?case
  proof cases
    case skip
    then show ?thesis using Cons.IH[of np] by simp
  next
    case stop
    then show ?thesis by simp
  next
    case mark
    show ?thesis unfolding mark using Cons.IH[of "np (ind + l := 1)"] u by metis
  qed
qed

lemma mark_backward_cases:
  "mark_backward col ind ls np x = np x \<or> mark_backward col ind ls np x = 1"
proof (induction ls arbitrary: np)
  case Nil
  then show ?case by simp
next
  case (Cons l ls)
  have u: "(np (ind + l := 1)) x = np x \<or> (np (ind + l := 1)) x = 1" by simp
  consider (skip) "mark_backward col ind (l # ls) np = mark_backward col ind ls np"
    | (stop) "mark_backward col ind (l # ls) np = np"
    | (mark) "mark_backward col ind (l # ls) np = mark_backward col ind ls (np (ind + l := 1))"
    by (cases "ind + l < 0";
        cases "10 < \<bar>col (nat (ind + l)) - col (nat (ind + l + 1))\<bar>") auto
  then show ?case
  proof cases
    case skip
    then show ?thesis using Cons.IH[of np] by simp
  next
    case stop
    then show ?thesis by simp
  next
    case mark
    show ?thesis unfolding mark using Cons.IH[of "np (ind + l := 1)"] u by metis
  qed
qed

lemma mark_neighbors_picked:
  "cloudNeighborPicked (mark_neighbors cfg ind s) x = cloudNeighborPicked s x
   \<or> cloudNeighborPicked (mark_neighbors cfg ind s) x = 1"
  "cloudNeighborPicked (mark_neighbors cfg ind s) ind = 1"
proof -
  let ?np0 = "(cloudNeighborPicked s) (ind := 1)"
  let ?np1 = "mark_forward (N_scan cfg * horizon_scan cfg) (segmentedCloudColInd (segInfo s)) ind
              [1, 2, 3, 4, 5] ?np0"
  let ?np2 = "mark_backward (segmentedCloudColInd (segInfo s)) ind [- 1, - 2, - 3, - 4, - 5] ?np1"
  have e: "cloudNeighborPicked (mark_neighbors cfg ind s) = ?np2"
    by (simp add: mark_neighbors_def)
  have a: "\<And>y. ?np1 y = ?np0 y \<or> ?np1 y = 1" by (rule mark_forward_cases)
  have b: "\<And>y. ?np2 y = ?np1 y \<or> ?np2 y = 1" by (rule mark_backward_cases)
  have c: "\<And>y. ?np2 y = ?np0 y \<or> ?np2 y = 1" using a b by metis
  show "cloudNeighborPicked (mark_neighbors cfg ind s) x = cloudNeighborPicked s x
   \<or> cloudNeighborPicked (mark_neighbors cfg ind s) x = 1"
    unfolding e using c[of x] by (cases "x = ind") auto
  show "cloudNeighborPicked (mark_neighbors cfg ind s) ind = 1"
    unfolding e using c[of ind] by auto
qed

lemma mark_neighbors_frame:
  "segmentedCloud (mark_neighbors cfg ind s) = segmentedCloud s"
  "segInfo (mark_neighbors cfg ind s) = segInfo s"
  "cloudLabel (mark_neighbors cfg ind s) = cloudLabel s"
  "cloudSmoothness (mark_neighbors cfg ind s) = cloudSmoothness s"
  "cloudCurvature (mark_neighbors cfg ind s) = cloudCurvature s"
  "cornerPointsSharp (mark_neighbors cfg ind s) = cornerPointsSharp s"
  "cornerPointsLessSharp (mark_neighbors cfg ind s) = cornerPointsLessSharp s"
  "surfPointsFlat (mark_neighbors cfg ind s) = surfPointsFlat s"
  "surfPointsLessFlat (mark_neighbors cfg ind s) = surfPointsLessFlat s"
  "surfPointsLessFlatScan (mark_neighbors cfg ind s) = surfPointsLessFlatScan s"
  by (simp_all add: mark_neighbors_def)

lemma mark_neighbors_cloud_point: "cloud_point (mark_neighbors cfg ind s) = cloud_point s"
  by (simp add: cloud_point_def fun_eq_iff mark_neighbors_frame)

lemma corners_picked_none: "corners_picked n s s []"
  by (simp add: corners_picked_def)

lemma corners_picked_step:
  assumes p0: "cloudNeighborPicked s ind = 0" and n: "0 \<le> n" "n + 1 \<le> 20"
    and s1: "s1 = mark_neighbors cfg ind
              (s\<lparr>cloudLabel := (cloudLabel s) (ind := (if n + 1 \<le> 2 then 2 else 1)),
                 cornerPointsSharp := (if n + 1 \<le> 2 then cornerPointsSharp s @ [cloud_point s ind]
                                       else cornerPointsSharp s),
                 cornerPointsLessSharp := cornerPointsLessSharp s @ [cloud_point s ind]\<rparr>)"
    and r: "corners_picked (n + 1) s1 s' inds"
  shows "corners_picked n s s' (ind # inds)"
proof -
  let ?s0 = "s\<lparr>cloudLabel := (cloudLabel s) (ind := (if n + 1 \<le> 2 then 2 else 1)),
                 cornerPointsSharp := (if n + 1 \<le> 2 then cornerPointsSharp s @ [cloud_point s ind]
                                       else cornerPointsSharp s),
                 cornerPointsLessSharp := cornerPointsLessSharp s @ [cloud_point s ind]\<rparr>"
  have cp: "cloud_point s1 = cloud_point s"
    unfolding s1 mark_neighbors_cloud_point by (simp add: cloud_point_def fun_eq_iff)
  have pk: "\<And>x. cloudNeighborPicked s1 x = cloudNeighborPicked s x \<or> cloudNeighborPicked s1 x = 1"
    unfolding s1 using mark_neighbors_picked(1)[of cfg ind ?s0] by simp
  have pi: "cloudNeighborPicked s1 ind = 1"
    unfolding s1 by (rule mark_neighbors_picked(2))
  have lb: "cloudLabel s1 = (cloudLabel s) (ind := (if n + 1 \<le> 2 then 2 else 1))"
    unfolding s1 by (simp add: mark_neighbors_frame)
  have less1: "cornerPointsLessSharp s1 = cornerPointsLessSharp s @ [cloud_point s ind]"
    and sharp1: "cornerPointsSharp s1 = (if n + 1 \<le> 2 then cornerPointsSharp s @ [cloud_point s ind]
                                       else cornerPointsSharp s)"
    and fr1: "segmentedCloud s1 = segmentedCloud s" "segInfo s1 = segInfo s"
      "surfPointsFlat s1 = surfPointsFlat s" "surfPointsLessFlat s1 = surfPointsLessFlat s"
      "surfPointsLessFlatScan s1 = surfPointsLessFlatScan s"
    unfolding s1 by (simp_all add: mark_neighbors_frame)
  note r' = r[unfolded corners_picked_def cp]
  have mono: "\<And>x. cloudNeighborPicked s x \<noteq> 0 \<Longrightarrow> cloudNeighborPicked s1 x \<noteq> 0"
    using pk by (metis zero_neq_one)
  have a: "cornerPointsLessSharp s' = cornerPointsLessSharp s @ map (cloud_point s) (ind # inds)"
    using r' less1 by simp
  have b: "cornerPointsSharp s' = cornerPointsSharp s @ map (cloud_point s) (take (2 - nat n) (ind # inds))"
  proof (cases "n + 1 \<le> 2")
    case True
    then have "2 - nat n = Suc (2 - nat (n + 1))" using n by linarith
    then show ?thesis using r' sharp1 True by simp
  next
    case False
    then have "2 - nat n = 0" "2 - nat (n + 1) = 0" by linarith+
    then show ?thesis using r' sharp1 False by simp
  qed
  have c: "length (ind # inds) \<le> nat (20 - n)"
    using r' n by simp linarith
  have d: "cloudNeighborPicked s ((ind # inds) ! m) = 0
            \<and> cloudNeighborPicked s' ((ind # inds) ! m) \<noteq> 0
            \<and> cloudLabel s' ((ind # inds) ! m) = (if n + int m < 2 then 2 else 1)"
    if "m < length (ind # inds)" for m
  proof (cases m)
    case 0
    have "cloudNeighborPicked s' ind \<noteq> 0 \<and> cloudLabel s' ind = cloudLabel s1 ind"
      using r' pi by simp
    then show ?thesis using 0 p0 lb by auto
  next
    case (Suc m')
    with that have m': "m' < length inds" by simp
    with r' have 1: "cloudNeighborPicked s1 (inds ! m') = 0"
      and 2: "cloudLabel s' (inds ! m') = (if n + 1 + int m' < 2 then 2 else 1)"
      and 3: "cloudNeighborPicked s' (inds ! m') \<noteq> 0"
      by auto
    from 1 mono have "cloudNeighborPicked s (inds ! m') = 0" by blast
    then show ?thesis using 2 3 Suc by (simp add: add.assoc add.commute)
  qed
  have e: "cloudNeighborPicked s' x \<noteq> 0 \<and> cloudLabel s' x = cloudLabel s x"
    if "cloudNeighborPicked s x \<noteq> 0" for x
  proof -
    from that have "x \<noteq> ind" using p0 by auto
    moreover from that mono r' have "cloudNeighborPicked s' x \<noteq> 0 \<and> cloudLabel s' x = cloudLabel s1 x"
      by blast
    ultimately show ?thesis using lb by simp
  qed
  show ?thesis
    unfolding corners_picked_def using a b c d e r' fr1 by simp
qed

lemma pick_corners_inv:
  assumes "0 \<le> n"
  shows "\<exists>inds. corners_picked n s (fst (pick_corners cfg ks (s, n))) inds"
  using assms
proof (induction ks arbitrary: s n)
  case Nil
  then show ?case using corners_picked_none by auto
next
  case (Cons k ks)
  let ?ind = "snd (cloudSmoothness s k)"
  show ?case
  proof (cases "cloudNeighborPicked s ?ind = 0 \<and>
            flt (Fin (edgeThreshold cfg)) (cloudCurvature s ?ind) \<and>
            \<not> segmentedCloudGroundFlag (segInfo s) (nat ?ind)")
    case False
    then have "pick_corners cfg (k # ks) (s, n) = pick_corners cfg ks (s, n)"
      by (auto simp: Let_def)
    then show ?thesis using Cons.IH[OF Cons.prems] by simp
  next
    case True
    show ?thesis
    proof (cases "n + 1 \<le> 20")
      case False
      then have "pick_corners cfg (k # ks) (s, n) = (s, n + 1)"
        using True by (simp add: Let_def)
      then show ?thesis using corners_picked_none[of n s] by auto
    next
      case le: True
      define s1 where "s1 = mark_neighbors cfg ?ind
              (s\<lparr>cloudLabel := (cloudLabel s) (?ind := (if n + 1 \<le> 2 then 2 else 1)),
                 cornerPointsSharp := (if n + 1 \<le> 2 then cornerPointsSharp s @ [cloud_point s ?ind]
                                       else cornerPointsSharp s),
                 cornerPointsLessSharp := cornerPointsLessSharp s @ [cloud_point s ?ind]\<rparr>)"
      have e: "pick_corners cfg (k # ks) (s, n) = pick_corners cfg ks (s1, n + 1)"
        using True le by (simp add: Let_def s1_def)
      have "0 \<le> n + 1" using Cons.prems by simp
      from Cons.IH[OF this, of s1] obtain inds where
        "corners_picked (n + 1) s1 (fst (pick_corners cfg ks (s1, n + 1))) inds" by blast
      from corners_picked_step[OF _ Cons.prems le s1_def this] True
      show ?thesis unfolding e by blast
    qed
  qed
qed

lemma pick_flat_inv:
  assumes "0 \<le> n" "n \<le> 3"
  shows "\<exists>inds. flats_picked n s (fst (pick_flat cfg ks (s, n))) inds"
  using assms
proof (induction ks arbitrary: s n)
  case Nil
  then show ?case by (auto simp: flats_picked_def)
next
  case (Cons k ks)
  let ?ind = "snd (cloudSmoothness s k)"
  show ?case
  proof (cases "cloudNeighborPicked s ?ind = 0 \<and>
            flt (cloudCurvature s ?ind) (Fin (surfThreshold cfg)) \<and>
            segmentedCloudGroundFlag (segInfo s) (nat ?ind)")
    case False
    then have "pick_flat cfg (k # ks) (s, n) = pick_flat cfg ks (s, n)"
      by (auto simp: Let_def)
    then show ?thesis using Cons.IH[OF Cons.prems] by simp
  next
    case True
    define s1 where "s1 = s\<lparr>cloudLabel := (cloudLabel s) (?ind := - 1),
                      surfPointsFlat := surfPointsFlat s @ [cloud_point s ?ind]\<rparr>"
    have p0: "cloudNeighborPicked s ?ind = 0" using True by simp
    show ?thesis
    proof (cases "4 \<le> n + 1")
      case stop: True
      then have "pick_flat cfg (k # ks) (s, n) = (s1, n + 1)"
        using True by (simp add: Let_def s1_def)
      moreover have "flats_picked n s s1 [?ind]"
        using p0 Cons.prems unfolding flats_picked_def s1_def by auto
      ultimately show ?thesis by auto
    next
      case False
      define s2 where "s2 = mark_neighbors cfg ?ind s1"
      have e: "pick_flat cfg (k # ks) (s, n) = pick_flat cfg ks (s2, n + 1)"
        using True False by (simp add: Let_def s1_def s2_def)
      have "0 \<le> n + 1" "n + 1 \<le> 3" using Cons.prems False by simp_all
      from Cons.IH[OF this, of s2] obtain inds where
        r: "flats_picked (n + 1) s2 (fst (pick_flat cfg ks (s2, n + 1))) inds" by blast
      let ?s' = "fst (pick_flat cfg ks (s2, n + 1))"
      have cp: "cloud_point s2 = cloud_point s"
        unfolding s2_def mark_neighbors_cloud_point
        by (simp add: s1_def cloud_point_def fun_eq_iff)
      have pk: "\<And>x. cloudNeighborPicked s2 x = cloudNeighborPicked s x \<or> cloudNeighborPicked s2 x = 1"
        unfolding s2_def using mark_neighbors_picked(1)[of cfg ?ind s1] by (simp add: s1_def)
      have mono: "\<And>x. cloudNeighborPicked s x \<noteq> 0 \<Longrightarrow> cloudNeighborPicked s2 x \<noteq> 0"
        using pk by (metis zero_neq_one)
      have lb: "cloudLabel s2 = (cloudLabel s) (?ind := - 1)"
        and fl2: "surfPointsFlat s2 = surfPointsFlat s @ [cloud_point s ?ind]"
        and fr: "segmentedCloud s2 = segmentedCloud s" "segInfo s2 = segInfo s"
          "cornerPointsSharp s2 = cornerPointsSharp s"
          "cornerPointsLessSharp s2 = cornerPointsLessSharp s"
        unfolding s2_def by (simp_all add: mark_neighbors_frame s1_def)
      note r' = r[unfolded flats_picked_def cp]
      have a: "surfPointsFlat ?s' = surfPointsFlat s @ map (cloud_point s) (?ind # inds)"
        using r' fl2 by simp
      have b: "length (?ind # inds) \<le> nat (4 - n)"
        using r' Cons.prems False by simp linarith
      have c: "cloudNeighborPicked ?s' x \<noteq> 0 \<and> cloudLabel ?s' x = cloudLabel s x"
        if "cloudNeighborPicked s x \<noteq> 0" for x
      proof -
        from that have "x \<noteq> ?ind" using p0 by auto
        moreover from that mono r'
        have "cloudNeighborPicked ?s' x \<noteq> 0 \<and> cloudLabel ?s' x = cloudLabel s2 x" by blast
        ultimately show ?thesis using lb by simp
      qed
      have "flats_picked n s ?s' (?ind # inds)"
        unfolding flats_picked_def using a b c r' fr by simp
      then show ?thesis unfolding e by blast
    qed
  qed
qed

lemma less_flat_frame:
  "cornerPointsSharp (fold less_flat_point ks s) = cornerPointsSharp s"
  "cornerPointsLessSharp (fold less_flat_point ks s) = cornerPointsLessSharp s"
  "surfPointsFlat (fold less_flat_point ks s) = surfPointsFlat s"
  "cloudLabel (fold less_flat_point ks s) = cloudLabel s"
  by (rule fold_frame, simp add: less_flat_point_def)+

lemma extract_sector_picks:
  "\<exists>cinds finds.
      cornerPointsSharp (extract_sector cfg lib i j s)
        = cornerPointsSharp s @ map (cloud_point s) (take 2 cinds)
    \<and> cornerPointsLessSharp (extract_sector cfg lib i j s)
        = cornerPointsLessSharp s @ map (cloud_point s) cinds
    \<and> length cinds \<le> 20
    \<and> (\<forall>m<length cinds.
          cloudLabel (extract_sector cfg lib i j s) (cinds ! m) = (if m < 2 then 2 else 1))
    \<and> surfPointsFlat (extract_sector cfg lib i j s)
        = surfPointsFlat s @ map (cloud_point s) finds
    \<and> length finds \<le> 4"
proof -
  define sp where "sp = tdiv (startRingIndex (segInfo s) i * (6 - j) + endRingIndex (segInfo s) i * j) 6"
  define ep where "ep = tdiv (startRingIndex (segInfo s) i * (5 - j)
                       + endRingIndex (segInfo s) i * (j + 1)) 6 - 1"
  show ?thesis
  proof (cases "ep \<le> sp")
    case True
    then have "extract_sector cfg lib i j s = s"
      by (simp add: extract_sector_def Let_def sp_def ep_def)
    then show ?thesis
      by (intro exI[of _ "[]"]) simp
  next
    case False
    define s1 where "s1 = s\<lparr>cloudSmoothness := sort_by_value lib (cloudSmoothness s) sp ep\<rparr>"
    define s2 where "s2 = fst (pick_corners cfg (rev [sp..ep]) (s1, 0))"
    define s3 where "s3 = fst (pick_flat cfg [sp..ep] (s2, 0))"
    have e: "extract_sector cfg lib i j s = fold less_flat_point [sp..ep] s3"
      using False by (simp add: extract_sector_def Let_def sp_def ep_def s1_def s2_def s3_def)
    from pick_corners_inv[of 0 s1 cfg "rev [sp..ep]"] obtain cinds where
      c: "corners_picked 0 s1 s2 cinds" unfolding s2_def by auto
    from pick_flat_inv[of 0 s2 cfg "[sp..ep]"] obtain finds where
      f: "flats_picked 0 s2 s3 finds" unfolding s3_def by auto
    have cp1: "cloud_point s1 = cloud_point s"
      by (simp add: s1_def cloud_point_def fun_eq_iff)
    have cp2: "cloud_point s2 = cloud_point s"
      using c cp1 by (simp add: corners_picked_def cloud_point_def fun_eq_iff)
    note c' = c[unfolded corners_picked_def cp1]
    note f' = f[unfolded flats_picked_def cp2]
    have 1: "cornerPointsSharp (extract_sector cfg lib i j s)
        = cornerPointsSharp s @ map (cloud_point s) (take 2 cinds)"
      unfolding e less_flat_frame using c' f' by (simp add: s1_def)
    have 2: "cornerPointsLessSharp (extract_sector cfg lib i j s)
        = cornerPointsLessSharp s @ map (cloud_point s) cinds"
      unfolding e less_flat_frame using c' f' by (simp add: s1_def)
    have 3: "length cinds \<le> 20" using c' by simp
    have 4: "cloudLabel (extract_sector cfg lib i j s) (cinds ! m) = (if m < 2 then 2 else 1)"
      if "m < length cinds" for m
    proof -
      from that c' have "cloudNeighborPicked s2 (cinds ! m) \<noteq> 0"
        and "cloudLabel s2 (cinds ! m) = (if m < 2 then 2 else 1)" by auto
      moreover from this f' have "cloudLabel s3 (cinds ! m) = cloudLabel s2 (cinds ! m)" by blast
      ultimately show ?thesis unfolding e less_flat_frame by simp
    qed
    have 5: "surfPointsFlat (extract_sector cfg lib i j s)
        = surfPointsFlat s @ map (cloud_point s) finds"
      unfolding e less_flat_frame using c' f' by (simp add: s1_def)
    have 6: "length finds \<le> 4" using f' by simp
    show ?thesis using 1 2 3 4 5 6 by blast
  qed
qed

lemma demo_sector_windows:
  "startRingIndex (segInfo demo_features) 0 = 4" "endRingIndex (segInfo demo_features) 0 = 26"
  by (simp_all add: demo_features_def empty_cloud_info_def)

lemma demo_sector_unfold:
  "extract_sector demo_fa_config demo_library 0 0 demo_features =
     fold less_flat_point [4..6]
       (fst (pick_flat demo_fa_config [4..6]
          (fst (pick_corners demo_fa_config (rev [4..6])
             (demo_features\<lparr>cloudSmoothness :=
                 sort_by_value demo_library (cloudSmoothness demo_features) 4 6\<rparr>, 0)), 0)))"
  unfolding extract_sector_def Let_def demo_sector_windows
  by (simp add: tdiv_def del: upto.simps upto_rec_numeral pick_corners.simps pick_flat.simps)

lemma demo_sort:
  "sort_by_value demo_library (cloudSmoothness demo_features) 4 6 = cloudSmoothness demo_features"
  by (simp add: demo_library_def)

lemma demo_sector_eval:
  "cornerPointsSharp (extract_sector demo_fa_config demo_library 0 0 demo_features)
     = [pt 6 0 0, pt 5 0 0]
   \<and> cornerPointsLessSharp (extract_sector demo_fa_config demo_library 0 0 demo_features)
     = [pt 6 0 0, pt 5 0 0, pt 4 0 0]
   \<and> cloudLabel (extract_sector demo_fa_config demo_library 0 0 demo_features) 6 = 2
   \<and> cloudLabel (extract_sector demo_fa_config demo_library 0 0 demo_features) 5 = 2
   \<and> cloudLabel (extract_sector demo_fa_config demo_library 0 0 demo_features) 4 = 1"
  unfolding demo_sector_unfold demo_sort
  by (simp add: demo_features_def demo_fa_config_def empty_cloud_info_def Let_def
        mark_neighbors_def flt_def less_flat_point_def cloud_point_def)

section \<open>The solver step\<close>

lemma fl_arith:
  "Fin a + Fin b = Fin (a + b)" "Fin a - Fin b = Fin (a - b)" "Fin a * Fin b = Fin (a * b)"
  "- Fin a = Fin (- a)" "fsin (Fin a) = Fin (sin a)" "fcos (Fin a) = Fin (cos a)"
  "fsqrt (Fin a) = Fin (sqrt a)" "flt (Fin a) (Fin b) = (a < b)"
  "NaN + x = NaN" "x + NaN = NaN" "NaN * x = NaN" "x * NaN = NaN" "NaN - x = NaN" "x - NaN = NaN"
  by (cases x; simp add: plus_fl_def minus_fl_def times_fl_def uminus_fl_def fadd_def fsub_def
        fmul_def fl2_def fl1_def fsin_def fcos_def fsqrt_def flt_def)+

lemma degenerate_rows_flag:
  "snd (degenerate_rows matE thr [2, 1, 0] (V, False)) = flt (matE ! 2) (thr ! 2)"
  by simp

lemma degeneracy_check_flag:
  "fst (degeneracy_check lib M) = flt (eigen_values lib M ! 2) (Fin 10)"
proof -
  have "fst (degeneracy_check lib M) =
      snd (degenerate_rows (eigen_values lib M) [Fin 10, Fin 10, Fin 10] [2, 1, 0]
             (eigen_vectors lib M, False))"
    unfolding degeneracy_check_def Let_def by (simp add: split_beta del: degenerate_rows.simps)
  then show ?thesis unfolding degenerate_rows_flag by simp
qed

lemma surf_unfold:
  "calculateTransformationSurf lib matP_entry iterCount s =
     (let matX0 = solve_qr lib (AtA (matA_surf s)) (AtB (matA_surf s) (matB_surf s));
          dp = (if iterCount = 0 then degeneracy_check lib (AtA (matA_surf s))
                else (isDegenerate s, matP_entry));
          matX = (if fst dp then mat_vec (snd dp) matX0 else matX0)
      in (s\<lparr>transformCur := sanitize (apply_surf_update (transformCur s) matX),
            isDegenerate := fst dp\<rparr>,
          \<not> (flt (fsqrt (fsq (RAD2DEG * matX ! 0) + fsq (RAD2DEG * matX ! 1))) (Fin 0.1)
             \<and> flt (fsqrt (fsq (matX ! 2 * Fin 100))) (Fin 0.1))))"
  unfolding calculateTransformationSurf_def matA_surf_def matB_surf_def apply_surf_update_def
    Let_def split_beta
  by (simp add: comp_def split_beta)

lemma corner_unfold:
  "calculateTransformationCorner lib matP_entry iterCount s =
     (let matX0 = solve_qr lib (AtA (matA_corner s)) (AtB (matA_corner s) (matB_corner s));
          dp = (if iterCount = 0 then degeneracy_check lib (AtA (matA_corner s))
                else (isDegenerate s, matP_entry));
          matX = (if fst dp then mat_vec (snd dp) matX0 else matX0)
      in (s\<lparr>transformCur := sanitize (apply_corner_update (transformCur s) matX),
            isDegenerate := fst dp\<rparr>,
          \<not> (flt (fsqrt (fsq (RAD2DEG * matX ! 0))) (Fin 0.1)
             \<and> flt (fsqrt (fsq (matX ! 1 * Fin 100) + fsq (matX ! 2 * Fin 100))) (Fin 0.1))))"
  unfolding calculateTransformationCorner_def matA_corner_def matB_corner_def
    apply_corner_update_def Let_def split_beta
  by (simp add: comp_def split_beta)

subsection \<open>The solver on ten coplanar points at the origin\<close>

lemma flat_row:
  "surf_row [Fin 0, Fin 0, Fin 0, Fin 0, Fin 0, Fin 0] (pt 0 0 0) (flat_coeff w)
     = ([Fin 0, Fin 0, Fin w], Fin (1 / 10))"
  by (simp add: surf_row_def Let_def pt_def flat_coeff_def fl_arith)

lemma upt3: "[0..<3] = [0, 1, 2]"
  by (simp add: upt_rec)

lemma flat_system:
  "matA_surf (flat_scene w) = [[Fin 0, Fin 0, Fin w], [Fin 0, Fin 0, Fin w], [Fin 0, Fin 0, Fin w],
      [Fin 0, Fin 0, Fin w], [Fin 0, Fin 0, Fin w], [Fin 0, Fin 0, Fin w], [Fin 0, Fin 0, Fin w],
      [Fin 0, Fin 0, Fin w], [Fin 0, Fin 0, Fin w], [Fin 0, Fin 0, Fin w]]"
  "matB_surf (flat_scene w) = [Fin (1 / 10), Fin (1 / 10), Fin (1 / 10), Fin (1 / 10), Fin (1 / 10),
      Fin (1 / 10), Fin (1 / 10), Fin (1 / 10), Fin (1 / 10), Fin (1 / 10)]"
  by (simp_all add: matA_surf_def matB_surf_def flat_scene_def flat_row)

lemma flat_AtA:
  "AtA (matA_surf (flat_scene w)) =
     [[Fin 0, Fin 0, Fin 0], [Fin 0, Fin 0, Fin 0], [Fin 0, Fin 0, Fin (10 * (w * w))]]"
  "AtB (matA_surf (flat_scene w)) (matB_surf (flat_scene w)) = [Fin 0, Fin 0, Fin w]"
  unfolding flat_system
  by (simp_all add: AtA_def AtB_def dot_def column_def upt3 fl_arith)

section \<open>The odometry pipeline\<close>

subsection \<open>The adjustment of the cloud returns\<close>

lemma tmod_nonneg: "0 \<le> a \<Longrightarrow> 0 < b \<Longrightarrow> tmod a b = a mod b"
  by (cases "a = 0") (simp_all add: tmod_def tdiv_def minus_mult_div_eq_mod)

lemma imu_seek_total:
  assumes "0 < len" "0 \<le> lst" "lst < len"
  shows "- 1 \<le> front \<Longrightarrow> front < len \<Longrightarrow> \<exists>f. imu_seek len tm t lst front = Some f"
proof (induction "nat (if front \<le> lst then lst - front else lst - front + len)"
         arbitrary: front rule: less_induct)
  case less
  show ?case
  proof (cases "front \<noteq> lst \<and> \<not> flt t (tm front)")
    case False
    then show ?thesis
      by (subst imu_seek.simps) auto
  next
    case True
    note go = True
    let ?f = "tmod (front + 1) len"
    have f: "?f = (front + 1) mod len"
      using less.prems assms by (simp add: tmod_nonneg)
    have b: "- 1 \<le> ?f" "?f < len"
      using assms by (simp_all add: f order_trans[of "- 1" 0])
    have d: "nat (if ?f \<le> lst then lst - ?f else lst - ?f + len)
             < nat (if front \<le> lst then lst - front else lst - front + len)"
    proof (cases "front + 1 = len")
      case True
      have "?f = 0"
        unfolding f using True by simp
      moreover have "lst < front"
        using True assms go by simp
      ultimately show ?thesis
        using True assms by simp
    next
      case False
      have "?f = front + 1"
        unfolding f using False less.prems assms by simp
      moreover have "front \<noteq> lst"
        using go by simp
      ultimately show ?thesis
        using False assms less.prems by auto
    qed
    from less.hyps[OF d b] obtain g where "imu_seek len tm t lst ?f = Some g" ..
    then show ?thesis
      using go by (subst imu_seek.simps) simp
  qed
qed

lemma imu_current_pointers:
  "imuPointerLast (imu_current cfg a b m) = imuPointerLast m"
  "imuPointerLastIteration (imu_current cfg a b m) = imuPointerLastIteration m"
  by (simp_all add: imu_current_def Let_def)

lemma imu_start_pointers:
  "imuPointerLast (imu_start cfg a b m) = imuPointerLast m"
  "imuPointerLastIteration (imu_start cfg a b m) = imuPointerLastIteration m"
  by (simp_all add: imu_start_def Let_def updateImuRollPitchYawStartSinCos_def)

lemma VeloToStartIMU_pointers:
  "imuPointerLast (VeloToStartIMU m) = imuPointerLast m"
  "imuPointerLastIteration (VeloToStartIMU m) = imuPointerLastIteration m"
  by (simp_all add: VeloToStartIMU_def Let_def)

lemma adjust_point_total:
  assumes "imu_ok cfg (snd hm)"
  shows "\<exists>r. adjust_point cfg timeCur info i p hm = Some r \<and> imu_ok cfg (snd (snd r))"
proof (cases "0 \<le> imuPointerLast (snd hm)")
  case False
  then show ?thesis
    using assms by (simp add: adjust_point_def Let_def)
next
  case True
  let ?rel = "fst (relative_time info \<lparr>pt_x = pt_y p, pt_y = pt_z p, pt_z = pt_x p,
                                    intensity = intensity p\<rparr> (fst hm))"
  obtain f where f: "imu_seek (imuQueLength cfg) (imuTime (snd hm))
      (timeCur + ?rel * Fin (scanPeriod cfg))
      (imuPointerLast (snd hm)) (imuPointerLastIteration (snd hm)) = Some f"
    using imu_seek_total[of "imuQueLength cfg" "imuPointerLast (snd hm)"
        "imuPointerLastIteration (snd hm)"] assms True
    unfolding imu_ok_def by blast
  show ?thesis
    using assms True f
    by (simp add: adjust_point_def Let_def imu_ok_def imu_current_pointers imu_start_pointers
        VeloToStartIMU_pointers)
qed

lemma adjust_points_total:
  "imu_ok cfg (snd hm) \<Longrightarrow>
   \<exists>r. adjust_points cfg timeCur info i ps hm = Some r \<and> imu_ok cfg (snd r)"
proof (induction ps arbitrary: i hm)
  case Nil
  then show ?case by simp
next
  case (Cons p ps)
  obtain r where r: "adjust_point cfg timeCur info i p hm = Some r" "imu_ok cfg (snd (snd r))"
    using adjust_point_total[OF Cons.prems] by blast
  obtain rs where rs: "adjust_points cfg timeCur info (Suc i) ps (snd r) = Some rs"
      "imu_ok cfg (snd rs)"
    using Cons.IH[OF r(2)] by blast
  show ?case
    using r rs by simp
qed

lemma adjustDistortion_total:
  assumes "imu_ok cfg (imu s)"
  shows "\<exists>cloud m. adjustDistortion cfg s
           = Some (s\<lparr>features := (features s)\<lparr>segmentedCloud := cloud\<rparr>, imu := m\<rparr>)
         \<and> imu_ok cfg m"
proof -
  have "imu_ok cfg (snd (False, imu s))"
    using assms by simp
  from adjust_points_total[OF this]
  obtain r where r: "adjust_points cfg (timeScanCur s) (segInfo (features s)) 0
             (segmentedCloud (features s)) (False, imu s) = Some r" "imu_ok cfg (snd r)"
    by blast
  show ?thesis
  proof (intro exI conjI)
    show "adjustDistortion cfg s
        = Some (s\<lparr>features := (features s)\<lparr>segmentedCloud := fst r\<rparr>,
                  imu := (snd r)\<lparr>imuPointerLastIteration := imuPointerLast (snd r)\<rparr>\<rparr>)"
      using r by (simp add: adjustDistortion_def)
    show "imu_ok cfg ((snd r)\<lparr>imuPointerLastIteration := imuPointerLast (snd r)\<rparr>)"
      using r(2) by (simp add: imu_ok_def)
  qed
qed

subsection \<open>The degenerate solve\<close>































subsection \<open>The solves on the wall scene\<close>










section \<open>Claims about the image projection\<close>

text \<open>
  C3 (amended). For every processed scan, the number of points emitted into the segmented
  cloud equals the sum over the rings of \<open>endRingIndex[i] - startRingIndex[i] + 10\<close> (not
  \<open>+ 11\<close>): \<open>startRingIndex[i]\<close> is recorded as \<open>size - 1 + 5\<close> before ring \<open>i\<close> is emitted
  and \<open>endRingIndex[i]\<close> as \<open>size - 1 - 5\<close> after it, so the window of the next ring starts
  ten above the end of this one, and the start and end indices never decrease from ring
  to ring.
\<close>

theorem segmented_cloud_size_from_windows:
  assumes "cloud \<noteq> []"
  shows "\<exists>s' out. cloudHandler cfg cloud s = Inr (s', out)
      \<and> (\<Sum>i<N_scan cfg. endRingIndex (out_seg_msg out) i - startRingIndex (out_seg_msg out) i + 10)
          = int (length (out_segmented_cloud out))
      \<and> (\<forall>i. Suc i < N_scan cfg \<longrightarrow>
            startRingIndex (out_seg_msg out) (Suc i) = endRingIndex (out_seg_msg out) i + 10
          \<and> startRingIndex (out_seg_msg out) i \<le> startRingIndex (out_seg_msg out) (Suc i)
          \<and> endRingIndex (out_seg_msg out) i \<le> endRingIndex (out_seg_msg out) (Suc i))"
  using assms by (rule cloudHandler_windows)

theorem segmented_cloud_size_from_windows_witness:
  "[pt 0 0 1] \<noteq> []
   \<and> (\<exists>s' out. cloudHandler demo_config [pt 0 0 1] ip_init = Inr (s', out)
      \<and> (\<Sum>i<N_scan demo_config.
            endRingIndex (out_seg_msg out) i - startRingIndex (out_seg_msg out) i + 10)
          = int (length (out_segmented_cloud out))
      \<and> (\<forall>i. Suc i < N_scan demo_config \<longrightarrow>
            startRingIndex (out_seg_msg out) (Suc i) = endRingIndex (out_seg_msg out) i + 10
          \<and> startRingIndex (out_seg_msg out) i \<le> startRingIndex (out_seg_msg out) (Suc i)
          \<and> endRingIndex (out_seg_msg out) i \<le> endRingIndex (out_seg_msg out) (Suc i)))"
proof -
  have h: "[pt 0 0 1] \<noteq> []" by simp
  show ?thesis
    using h segmented_cloud_size_from_windows[OF h, of demo_config ip_init] by (rule conjI)
qed

text \<open>
  The claim as stated fails on the scan that consists of the single point \<open>(0, 0, 1)\<close>,
  seen by the scanner with two rings: the sum with \<open>+ 11\<close> exceeds the size of the
  segmented cloud by the number of rings.
\<close>

theorem segmented_cloud_size_plus_11_counterexample:
  "case cloudHandler demo_config [pt 0 0 1] ip_init of
     Inl e \<Rightarrow> False
   | Inr (s', out) \<Rightarrow>
       (\<Sum>i<N_scan demo_config.
           endRingIndex (out_seg_msg out) i - startRingIndex (out_seg_msg out) i + 11)
       \<noteq> int (length (out_segmented_cloud out))"
proof -
  have "[pt 0 0 1] \<noteq> []" by simp
  from cloudHandler_windows[OF this, of demo_config ip_init] obtain s' out where
    r: "cloudHandler demo_config [pt 0 0 1] ip_init = Inr (s', out)"
    and w: "(\<Sum>i<N_scan demo_config.
               endRingIndex (out_seg_msg out) i - startRingIndex (out_seg_msg out) i + 10)
            = int (length (out_segmented_cloud out))"
    by blast
  have "N_scan demo_config = 2" by (simp add: demo_config_def)
  then have "(\<Sum>i<N_scan demo_config.
           endRingIndex (out_seg_msg out) i - startRingIndex (out_seg_msg out) i + 11)
       = int (length (out_segmented_cloud out)) + 2"
    using w by (simp add: sum_plus_11)
  then show ?thesis by (simp add: r)
qed

text \<open>
  C5. After \<open>cloudSegmentation\<close> has run on a scan, no cell of the range image has the
  label \<open>0\<close>: a cell that is ground or has no range (the range matrix still holds its
  initial value) carries \<open>-1\<close>, and every other cell carries a positive label, which is
  the id of an accepted cluster or the marker \<open>999999\<close> of a rejected one.
\<close>

theorem label_partition:
  assumes "cloud \<noteq> []"
  shows "\<exists>s' out. cloudHandler cfg cloud s = Inr (s', out)
     \<and> (\<forall>i<N_scan cfg. \<forall>j<horizon_scan cfg.
           label_mat s' (int i, int j) \<noteq> 0
         \<and> (if ground_mat s' (int i, int j) = 1 \<or> feq (range_mat s' (int i, int j)) (Fin FLT_MAX)
            then label_mat s' (int i, int j) = - 1
            else 0 < label_mat s' (int i, int j)))"
  using assms by (rule cloudHandler_labels)

theorem label_partition_witness:
  "[pt 0 0 1] \<noteq> []
   \<and> (\<exists>s' out. cloudHandler demo_config [pt 0 0 1] ip_init = Inr (s', out)
     \<and> (\<forall>i<N_scan demo_config. \<forall>j<horizon_scan demo_config.
           label_mat s' (int i, int j) \<noteq> 0
         \<and> (if ground_mat s' (int i, int j) = 1 \<or> feq (range_mat s' (int i, int j)) (Fin FLT_MAX)
            then label_mat s' (int i, int j) = - 1
            else 0 < label_mat s' (int i, int j))))"
proof -
  have h: "[pt 0 0 1] \<noteq> []" by simp
  show ?thesis
    using h label_partition[OF h, of demo_config ip_init] by (rule conjI)
qed

text \<open>
  C10. \<open>cloudHandler\<close> calls \<open>findStartEndAngle\<close> without a guard, and
  \<open>findStartEndAngle\<close> reads the first and the last point of the cloud: the read is out of
  bounds exactly when the cloud is empty after the removal of NaN points, and processing
  a scan fails that way exactly for the empty cloud.
\<close>

theorem empty_cloud_out_of_bounds:
  "(findStartEndAngle s0 = Inl OutOfBounds) = (laser_cloud_in s0 = [])
   \<and> (cloudHandler cfg cloud s = Inl OutOfBounds) = (cloud = [])"
proof
  show "(findStartEndAngle s0 = Inl OutOfBounds) = (laser_cloud_in s0 = [])"
  proof (cases "laser_cloud_in s0 = []")
    case True
    then show ?thesis by (simp add: findStartEndAngle_Inl)
  next
    case False
    from findStartEndAngle_Inr[OF this] show ?thesis using False by auto
  qed
  show "(cloudHandler cfg cloud s = Inl OutOfBounds) = (cloud = [])"
  proof (cases "cloud = []")
    case True
    then show ?thesis by (simp add: cloudHandler_empty)
  next
    case False
    from cloudHandler_run[OF this, of cfg s] show ?thesis using False by auto
  qed
qed

text \<open>
  C4 (not met by the code). The claim wants \<open>ground_mat(i, j) = -1\<close> wherever one of the
  two compared cells has no return. The code tests the intensity of the stored points for
  \<open>-1\<close>, but \<open>resetParameters\<close> fills the cloud with a point whose intensity is the
  default of the point type, and projected points carry the non-negative tag
  \<open>row + column / 10000\<close>. So unless that default is \<open>-1\<close> the test never holds: after
  any scan no cell of the ground matrix is \<open>-1\<close>, and a cell without a return keeps \<open>0\<close>.
\<close>

theorem ground_mat_never_invalid:
  assumes "default_intensity cfg \<noteq> Fin (- 1)" and "cloud \<noteq> []"
  shows "\<exists>s' out. cloudHandler cfg cloud s = Inr (s', out) \<and> (\<forall>c. ground_mat s' c \<noteq> - 1)"
  using assms by (rule cloudHandler_ground)

text \<open>
  The failing input: the scan with the single point \<open>(0, 0, 1)\<close>, which falls into ring 1.
  Cell \<open>(0, 0)\<close> has no return (its range is still \<open>FLT_MAX\<close>), and its ground mark is \<open>0\<close>.
\<close>

theorem ground_mat_never_invalid_witness:
  "default_intensity demo_config \<noteq> Fin (- 1) \<and> [pt 0 0 1] \<noteq> []
   \<and> (\<exists>s' out. cloudHandler demo_config [pt 0 0 1] ip_init = Inr (s', out)
        \<and> range_mat s' (0, 0) = Fin FLT_MAX \<and> ground_mat s' (0, 0) = 0
        \<and> (\<forall>c. ground_mat s' c \<noteq> - 1))"
proof -
  have d: "default_intensity demo_config \<noteq> Fin (- 1)" by (simp add: demo_config_def)
  have h: "[pt 0 0 1] \<noteq> []" by simp
  from ground_mat_never_invalid[OF d h, of ip_init] obtain s' out where
    r: "cloudHandler demo_config [pt 0 0 1] ip_init = Inr (s', out)"
    and g: "\<forall>c. ground_mat s' c \<noteq> - 1"
    by blast
  from demo_absent_cell have "range_mat s' (0, 0) = Fin FLT_MAX \<and> ground_mat s' (0, 0) = 0"
    by (simp add: r)
  with d h r g show ?thesis by blast
qed

text \<open>
  C6 (not met by the code). The claim counts the distinct rings a cluster touches; the
  code sets \<open>lineCountFlag\<close> only for the cells it pushes as neighbours, so the ring of
  the seed cell is counted only if the cluster has a second cell in it. The cluster below
  has 29 cells on the three rings 0, 1 and 2, with the seed alone in ring 0; with
  \<open>segmentValidPointNum = 5\<close> and \<open>segmentValidLineNum = 3\<close> the claim accepts it, and the
  code finds two flagged rings, rejects it and relabels its cells \<open>999999\<close>.
\<close>

theorem cluster_29_three_rows_rejected:
  "segmentValidPointNum c29_config = 5 \<and> segmentValidLineNum c29_config = 3
   \<and> (case bfs_loop c29_config (range_mat c29_state) (label_count c29_state)
              (seed_state c29_config (0, 0) c29_state) of
         None \<Rightarrow> False
       | Some b \<Rightarrow> length (all_pushed b) = 29 \<and> rows_touched b = 3
                   \<and> \<not> feasibleSegment c29_config b)
   \<and> (case labelComponents c29_config 0 0 c29_state of
         None \<Rightarrow> False
       | Some s' \<Rightarrow> label_mat s' (0, 0) = 999999 \<and> label_mat s' (1, 0) = 999999
                   \<and> label_mat s' (2, 13) = 999999
                   \<and> label_count s' = label_count c29_state)"
  by (simp add: labelComponents_def c29_state_def ip_init_def seed_state_def bfs_loop.simps
      visit_neighbor_def neighborIterator_def cb_push_def feasibleSegment_def c29_labels_def
      c29_cfg tang_unit rows_touched_def Let_def upt_rec)

section \<open>Claims about the feature association\<close>

text \<open>
  C9. In every ring sector, \<open>extractFeatures\<close> adds at most 2 points to the sharp corners,
  at most 20 points to the less sharp corners and at most 4 points to the flat surface
  points. The points added to the less sharp corners are the picked points in the order in
  which they were picked: the first two of them are the ones added to the sharp corners
  and carry the label 2, the others carry the label 1.
\<close>

theorem sector_feature_counts:
  "\<exists>cinds finds.
      cornerPointsSharp (extract_sector cfg lib i j s)
        = cornerPointsSharp s @ map (cloud_point s) (take 2 cinds)
    \<and> cornerPointsLessSharp (extract_sector cfg lib i j s)
        = cornerPointsLessSharp s @ map (cloud_point s) cinds
    \<and> length cinds \<le> 20
    \<and> (\<forall>m<length cinds.
          cloudLabel (extract_sector cfg lib i j s) (cinds ! m) = (if m < 2 then 2 else 1))
    \<and> surfPointsFlat (extract_sector cfg lib i j s)
        = surfPointsFlat s @ map (cloud_point s) finds
    \<and> length finds \<le> 4"
  by (rule extract_sector_picks)

text \<open>
  In the first sector of the demonstration cloud three points qualify: the two with the
  largest indices become sharp corners with label 2, the third a less sharp corner with
  label 1.
\<close>

theorem sector_feature_counts_witness:
  "(\<exists>cinds finds.
      cornerPointsSharp (extract_sector demo_fa_config demo_library 0 0 demo_features)
        = cornerPointsSharp demo_features @ map (cloud_point demo_features) (take 2 cinds)
    \<and> cornerPointsLessSharp (extract_sector demo_fa_config demo_library 0 0 demo_features)
        = cornerPointsLessSharp demo_features @ map (cloud_point demo_features) cinds
    \<and> length cinds \<le> 20
    \<and> (\<forall>m<length cinds.
          cloudLabel (extract_sector demo_fa_config demo_library 0 0 demo_features) (cinds ! m)
            = (if m < 2 then 2 else 1))
    \<and> surfPointsFlat (extract_sector demo_fa_config demo_library 0 0 demo_features)
        = surfPointsFlat demo_features @ map (cloud_point demo_features) finds
    \<and> length finds \<le> 4)
   \<and> cornerPointsSharp (extract_sector demo_fa_config demo_library 0 0 demo_features)
       = [pt 6 0 0, pt 5 0 0]
   \<and> cornerPointsLessSharp (extract_sector demo_fa_config demo_library 0 0 demo_features)
       = [pt 6 0 0, pt 5 0 0, pt 4 0 0]
   \<and> cloudLabel (extract_sector demo_fa_config demo_library 0 0 demo_features) 6 = 2
   \<and> cloudLabel (extract_sector demo_fa_config demo_library 0 0 demo_features) 4 = 1"
  using sector_feature_counts[of demo_fa_config demo_library 0 0 demo_features]
    demo_sector_eval
  by (intro conjI) (assumption, simp_all)

text \<open>
  Claim C1. The degeneracy check of iteration 0 walks the eigenvalues from index 2 downwards
  and leaves the loop at the first one that is not below the threshold, so the flag
  \<open>isDegenerate\<close> it leaves behind says only whether the eigenvalue at index 2 is below 10, in the
  surface solve and in the corner solve alike. The eigenvalues at the indices 1 and 0 are not
  looked at when the one at index 2 reaches the threshold. For ten surface points at the origin
  on a plane whose normal is the second axis the eigenvalues are 0, 0 and 10 (in the ascending
  order in which the eigen solver returns them) and the solve reports "not degenerate", although
  the minimum eigenvalue is 0.
\<close>

theorem degeneracy_check_tests_last_eigenvalue:
  "isDegenerate (fst (calculateTransformationSurf lib matP_entry 0 s))
     = flt (eigen_values lib (AtA (matA_surf s)) ! 2) (Fin 10)
   \<and> isDegenerate (fst (calculateTransformationCorner lib matP_entry 0 s))
     = flt (eigen_values lib (AtA (matA_corner s)) ! 2) (Fin 10)
   \<and> eigen_values demo_library (AtA (matA_surf (flat_scene 1))) = [Fin 0, Fin 0, Fin 10]
   \<and> isDegenerate (fst (calculateTransformationSurf demo_library matP_entry 0 (flat_scene 1))) = False"
proof (intro conjI)
  show "isDegenerate (fst (calculateTransformationSurf lib matP_entry 0 s))
     = flt (eigen_values lib (AtA (matA_surf s)) ! 2) (Fin 10)"
    unfolding surf_unfold Let_def by (simp add: degeneracy_check_flag)
  show "isDegenerate (fst (calculateTransformationCorner lib matP_entry 0 s))
     = flt (eigen_values lib (AtA (matA_corner s)) ! 2) (Fin 10)"
    unfolding corner_unfold Let_def by (simp add: degeneracy_check_flag)
  show "eigen_values demo_library (AtA (matA_surf (flat_scene 1))) = [Fin 0, Fin 0, Fin 10]"
    by (simp add: flat_AtA demo_library_def)
  show "isDegenerate (fst (calculateTransformationSurf demo_library matP_entry 0 (flat_scene 1))) = False"
    unfolding surf_unfold Let_def
    by (simp add: degeneracy_check_flag flat_AtA demo_library_def fl_arith)
qed



end
